(* ===== verification/Prelude.thy ===== *)
theory Prelude
  imports Main
begin

text \<open>
  Shared vocabulary of the development. The worker of \<^verbatim>\<open>src/worker/index.js\<close> is an
  \<^verbatim>\<open>async\<close> function whose every \<^verbatim>\<open>await\<close> may change the outside world (the
  key-value namespace, the clock, the random source, the network) and whose every
  expression may throw. Both effects are made explicit here: a computation is a function
  from a state to a result and a new state, the result being \<open>Inl\<close> of an exception or
  \<open>Inr\<close> of a value (the exception-state monad \<open>('e, 's, 'a) est\<close>).
  \<open>st_bind\<close> is JavaScript's sequencing of statements (an exception skips the rest),
  \<open>st_catch\<close> is \<^verbatim>\<open>try ... catch\<close>. The named collection \<open>st_simps\<close> holds the
  applied equations of the combinators; they are also \<open>[simp]\<close>, so a handler applied to
  a concrete state evaluates by \<open>simp\<close>.
\<close>

named_theorems st_simps "applied equations of the exception-state combinators"

type_synonym ('e, 's, 'a) est = "'s \<Rightarrow> ('e + 'a) \<times> 's"

definition st_return :: "'a \<Rightarrow> ('e, 's, 'a) est" where
  "st_return x = (\<lambda>s. (Inr x, s))"

definition st_throw :: "'e \<Rightarrow> ('e, 's, 'a) est" where
  "st_throw e = (\<lambda>s. (Inl e, s))"

definition st_bind :: "('e, 's, 'a) est \<Rightarrow> ('a \<Rightarrow> ('e, 's, 'b) est) \<Rightarrow> ('e, 's, 'b) est" where
  "st_bind m f = (\<lambda>s. case m s of (Inl e, s') \<Rightarrow> (Inl e, s') | (Inr a, s') \<Rightarrow> f a s')"

definition st_catch :: "('e, 's, 'a) est \<Rightarrow> ('e \<Rightarrow> ('e, 's, 'a) est) \<Rightarrow> ('e, 's, 'a) est" where
  "st_catch m h = (\<lambda>s. case m s of (Inl e, s') \<Rightarrow> h e s' | (Inr a, s') \<Rightarrow> (Inr a, s'))"

definition st_gets :: "('s \<Rightarrow> 'a) \<Rightarrow> ('e, 's, 'a) est" where
  "st_gets f = (\<lambda>s. (Inr (f s), s))"

definition st_modify :: "('s \<Rightarrow> 's) \<Rightarrow> ('e, 's, unit) est" where
  "st_modify f = (\<lambda>s. (Inr (), f s))"

text \<open>\<^verbatim>\<open>if (c) { body }\<close> with no \<^verbatim>\<open>else\<close>: the body runs only when the guard holds.\<close>

definition st_when :: "bool \<Rightarrow> ('e, 's, unit) est \<Rightarrow> ('e, 's, unit) est" where
  "st_when c m = (if c then m else st_return ())"

text \<open>\<^verbatim>\<open>xs.map(f)\<close> with an \<open>f\<close> that may throw: the first exception stops it.\<close>

fun st_mapM :: "('a \<Rightarrow> ('e, 's, 'b) est) \<Rightarrow> 'a list \<Rightarrow> ('e, 's, 'b list) est" where
  "st_mapM f [] = st_return []"
| "st_mapM f (x # xs) = st_bind (f x) (\<lambda>y. st_bind (st_mapM f xs) (\<lambda>ys. st_return (y # ys)))"

text \<open>\<^verbatim>\<open>xs.filter(f)\<close> with an \<open>f\<close> that may throw.\<close>

fun st_filterM :: "('a \<Rightarrow> ('e, 's, bool) est) \<Rightarrow> 'a list \<Rightarrow> ('e, 's, 'a list) est" where
  "st_filterM f [] = st_return []"
| "st_filterM f (x # xs) =
     st_bind (f x) (\<lambda>b. st_bind (st_filterM f xs) (\<lambda>ys. st_return (if b then x # ys else ys)))"

text \<open>\<^verbatim>\<open>xs.forEach(f)\<close>: the effects of \<open>f\<close> in order, the first exception stops it.\<close>

fun st_forM :: "('a \<Rightarrow> ('e, 's, unit) est) \<Rightarrow> 'a list \<Rightarrow> ('e, 's, unit) est" where
  "st_forM f [] = st_return ()"
| "st_forM f (x # xs) = st_bind (f x) (\<lambda>_. st_forM f xs)"

text \<open>Two Hoare-style judgements over a state predicate \<open>P\<close>: \<open>st_pres P m\<close>,
  \<open>m\<close> keeps \<open>P\<close> whether it returns or throws; \<open>st_ok P m\<close>, from a state with
  \<open>P\<close> \<open>m\<close> returns (throws nothing) and keeps \<open>P\<close>.\<close>

definition st_pres :: "('s \<Rightarrow> bool) \<Rightarrow> ('e, 's, 'a) est \<Rightarrow> bool" where
  "st_pres P m \<longleftrightarrow> (\<forall>s. P s \<longrightarrow> P (snd (m s)))"

definition st_ok :: "('s \<Rightarrow> bool) \<Rightarrow> ('e, 's, 'a) est \<Rightarrow> bool" where
  "st_ok P m \<longleftrightarrow> (\<forall>s. P s \<longrightarrow> (\<exists>a. fst (m s) = Inr a) \<and> P (snd (m s)))"

text \<open>\<open>st_res Q m\<close>: every value \<open>m\<close> returns satisfies \<open>Q\<close>.\<close>

definition st_res :: "('a \<Rightarrow> bool) \<Rightarrow> ('e, 's, 'a) est \<Rightarrow> bool" where
  "st_res Q m \<longleftrightarrow> (\<forall>s a s'. m s = (Inr a, s') \<longrightarrow> Q a)"

subsection \<open>Applied equations\<close>

lemma st_return_apply [simp, st_simps]: "st_return x s = (Inr x, s)"
  by (simp add: st_return_def)

lemma st_throw_apply [simp, st_simps]: "st_throw e s = (Inl e, s)"
  by (simp add: st_throw_def)

lemma st_bind_apply [simp, st_simps]:
  "st_bind m f s = (case m s of (Inl e, s') \<Rightarrow> (Inl e, s') | (Inr a, s') \<Rightarrow> f a s')"
  by (simp add: st_bind_def)

lemma st_catch_apply [simp, st_simps]:
  "st_catch m h s = (case m s of (Inl e, s') \<Rightarrow> h e s' | (Inr a, s') \<Rightarrow> (Inr a, s'))"
  by (simp add: st_catch_def)

lemma st_gets_apply [simp, st_simps]: "st_gets f s = (Inr (f s), s)"
  by (simp add: st_gets_def)

lemma st_modify_apply [simp, st_simps]: "st_modify f s = (Inr (), f s)"
  by (simp add: st_modify_def)

lemma st_when_apply [simp, st_simps]: "st_when c m s = (if c then m s else (Inr (), s))"
  by (simp add: st_when_def)

subsection \<open>Monad laws\<close>

lemma st_bind_return_left: "st_bind (st_return x) f = f x"
  by (rule ext) simp

lemma st_bind_return_right: "st_bind m st_return = m"
  by (rule ext) (simp split: prod.split sum.split)

lemma st_bind_assoc: "st_bind (st_bind m f) g = st_bind m (\<lambda>x. st_bind (f x) g)"
  by (rule ext) (simp split: prod.split sum.split)

lemma st_bind_throw: "st_bind (st_throw e) f = st_throw e"
  by (rule ext) simp

lemma st_catch_return: "st_catch (st_return x) h = st_return x"
  by (rule ext) simp

lemma st_catch_throw: "st_catch (st_throw e) h = h e"
  by (rule ext) simp

text \<open>
  A computation that ends in \<open>Inr\<close> from state \<open>s\<close> followed by \<open>f\<close>: the
  form in which the component proofs chain the steps of a handler.
\<close>

lemma st_bind_Inr: "m s = (Inr a, s') \<Longrightarrow> st_bind m f s = f a s'"
  by simp

lemma st_bind_Inl: "m s = (Inl e, s') \<Longrightarrow> st_bind m f s = (Inl e, s')"
  by simp

lemma st_catch_Inr: "m s = (Inr a, s') \<Longrightarrow> st_catch m h s = (Inr a, s')"
  by simp

lemma st_catch_Inl: "m s = (Inl e, s') \<Longrightarrow> st_catch m h s = h e s'"
  by simp

text \<open>A \<^verbatim>\<open>map\<close> or \<^verbatim>\<open>filter\<close> whose callback neither throws nor changes the state
  computes the list function.\<close>

lemma st_mapM_pure:
  "(\<And>x. x \<in> set xs \<Longrightarrow> f x s = (Inr (g x), s)) \<Longrightarrow> st_mapM f xs s = (Inr (map g xs), s)"
  by (induction xs) auto

lemma st_filterM_pure:
  "(\<And>x. x \<in> set xs \<Longrightarrow> f x s = (Inr (P x), s)) \<Longrightarrow> st_filterM f xs s = (Inr (filter P xs), s)"
  by (induction xs) auto

subsection \<open>Lists and strings\<close>

text \<open>
  Scans that stop at a delimiter (the cookie parser reads a value up to the next
  \<^verbatim>\<open>;\<close>, the number parser digits up to a non-digit).
\<close>

lemma takeWhile_append_stop:
  "(\<And>x. x \<in> set xs \<Longrightarrow> P x) \<Longrightarrow> \<not> P c \<Longrightarrow> takeWhile P (xs @ c # ys) = xs"
  by (simp add: takeWhile_append2)

lemma takeWhile_all: "(\<And>x. x \<in> set xs \<Longrightarrow> P x) \<Longrightarrow> takeWhile P xs = xs"
  by (induction xs) auto

text \<open>Reading a list of stored items back item by item (\<open>those\<close>): a reader that
  inverts the writer gives the list back, and a list it accepts was written by it.\<close>

lemma those_map_inv: "(\<And>y. f (g y) = Some y) \<Longrightarrow> those (map f (map g ys)) = Some ys"
  by (induction ys) auto

lemma those_map_eq:
  "those (map f xs) = Some ys \<Longrightarrow> (\<And>x y. f x = Some y \<Longrightarrow> x = g y) \<Longrightarrow> xs = map g ys"
  by (induction xs arbitrary: ys) (auto split: option.splits)

subsection \<open>Rules of the judgements\<close>

named_theorems st_ok_rules "composition rules of st_ok and st_pres"
named_theorems st_res_rules "composition rules of st_res"

lemma st_ok_pres: "st_ok P m \<Longrightarrow> st_pres P m"
  by (auto simp: st_ok_def st_pres_def)

lemma st_ok_return [st_ok_rules]: "st_ok P (st_return x)"
  by (simp add: st_ok_def)

lemma st_pres_throw [st_ok_rules]: "st_pres P (st_throw e)"
  by (simp add: st_pres_def)

lemma st_ok_gets [st_ok_rules]: "st_ok P (st_gets f)"
  by (simp add: st_ok_def)

lemma st_pres_return [st_ok_rules]: "st_pres P (st_return x)"
  by (simp add: st_pres_def)

lemma st_pres_gets [st_ok_rules]: "st_pres P (st_gets f)"
  by (simp add: st_pres_def)

lemma st_pres_modify [st_ok_rules]: "(\<And>s. P s \<Longrightarrow> P (f s)) \<Longrightarrow> st_pres P (st_modify f)"
  by (simp add: st_pres_def)

lemma st_ok_modify [st_ok_rules]: "(\<And>s. P s \<Longrightarrow> P (f s)) \<Longrightarrow> st_ok P (st_modify f)"
  by (simp add: st_ok_def)

lemma st_ok_bind [st_ok_rules]: "st_ok P m \<Longrightarrow> (\<And>a. st_ok P (f a)) \<Longrightarrow> st_ok P (st_bind m f)"
  unfolding st_ok_def st_bind_def by (fastforce split: sum.splits prod.splits)

lemma st_pres_bind [st_ok_rules]: "st_pres P m \<Longrightarrow> (\<And>a. st_pres P (f a)) \<Longrightarrow> st_pres P (st_bind m f)"
  unfolding st_pres_def st_bind_def by (fastforce split: sum.splits prod.splits)

lemma st_ok_catch [st_ok_rules]: "st_pres P m \<Longrightarrow> (\<And>e. st_ok P (h e)) \<Longrightarrow> st_ok P (st_catch m h)"
  unfolding st_ok_def st_pres_def st_catch_def by (fastforce split: sum.splits prod.splits)

lemma st_ok_if [st_ok_rules]: "(c \<Longrightarrow> st_ok P m) \<Longrightarrow> (\<not> c \<Longrightarrow> st_ok P m') \<Longrightarrow> st_ok P (if c then m else m')"
  by simp

lemma st_pres_if [st_ok_rules]: "(c \<Longrightarrow> st_pres P m) \<Longrightarrow> (\<not> c \<Longrightarrow> st_pres P m') \<Longrightarrow> st_pres P (if c then m else m')"
  by simp

lemma st_ok_forM [st_ok_rules]: "(\<And>x. x \<in> set xs \<Longrightarrow> st_ok P (f x)) \<Longrightarrow> st_ok P (st_forM f xs)"
  by (induction xs) (simp_all add: st_ok_return st_ok_bind)

lemma st_pres_mapM [st_ok_rules]: "(\<And>x. x \<in> set xs \<Longrightarrow> st_pres P (f x)) \<Longrightarrow> st_pres P (st_mapM f xs)"
  by (induction xs) (simp_all add: st_pres_return st_pres_bind)

lemma st_ok_mapM [st_ok_rules]: "(\<And>x. x \<in> set xs \<Longrightarrow> st_ok P (f x)) \<Longrightarrow> st_ok P (st_mapM f xs)"
  by (induction xs) (simp_all add: st_ok_return st_ok_bind)

text \<open>A computation that, from every state with \<open>P\<close>, returns a value and a state with
  \<open>P\<close> satisfies the judgement; it is how a step proved by its equation enters it.\<close>

lemma st_okI: "(\<And>s. P s \<Longrightarrow> \<exists>a s'. m s = (Inr a, s') \<and> P s') \<Longrightarrow> st_ok P m"
  by (force simp: st_ok_def)

lemma st_okD: "st_ok P m \<Longrightarrow> P s \<Longrightarrow> \<exists>a s'. m s = (Inr a, s') \<and> P s'"
  unfolding st_ok_def by (metis prod.collapse)

text \<open>A computation that leaves the state as it is keeps every predicate.\<close>

lemma st_pres_same: "(\<And>s. snd (m s) = s) \<Longrightarrow> st_pres P m"
  by (simp add: st_pres_def)

lemma st_pres_catch [st_ok_rules]: "st_pres P m \<Longrightarrow> (\<And>e. st_pres P (h e)) \<Longrightarrow> st_pres P (st_catch m h)"
  unfolding st_pres_def st_catch_def by (fastforce split: sum.splits prod.splits)

lemma st_pres_when [st_ok_rules]: "(c \<Longrightarrow> st_pres P m) \<Longrightarrow> st_pres P (st_when c m)"
  by (cases c) (simp_all add: st_pres_def st_when_def)

lemma st_pres_forM [st_ok_rules]: "(\<And>x. x \<in> set xs \<Longrightarrow> st_pres P (f x)) \<Longrightarrow> st_pres P (st_forM f xs)"
  by (induction xs) (simp_all add: st_pres_return st_pres_bind)

lemma st_pres_filterM [st_ok_rules]: "(\<And>x. x \<in> set xs \<Longrightarrow> st_pres P (f x)) \<Longrightarrow> st_pres P (st_filterM f xs)"
  by (induction xs) (simp_all add: st_pres_return st_pres_bind)

lemma st_catch_return_snd: "snd (st_catch m (\<lambda>_. st_return x) s) = snd (m s)"
  by (simp add: st_catch_def split: prod.split sum.split)

lemma catch_snd_pres:
  "P (snd (m s)) \<Longrightarrow> (\<And>e. st_pres P (h e)) \<Longrightarrow> P (snd (st_catch m h s))"
  by (auto simp: st_catch_def st_pres_def split: prod.split sum.split)

subsection \<open>Results\<close>

lemma st_res_return [st_res_rules]: "Q a \<Longrightarrow> st_res Q (st_return a)"
  by (simp add: st_res_def)

lemma st_res_throw [st_res_rules]: "st_res Q (st_throw e)"
  by (simp add: st_res_def)

lemma st_res_bind [st_res_rules]: "(\<And>x. st_res Q (f x)) \<Longrightarrow> st_res Q (st_bind m f)"
  unfolding st_res_def by (fastforce split: prod.splits sum.splits)

lemma st_res_catch [st_res_rules]: "st_res Q m \<Longrightarrow> (\<And>e. st_res Q (h e)) \<Longrightarrow> st_res Q (st_catch m h)"
  unfolding st_res_def by (fastforce split: prod.splits sum.splits)

lemma st_res_bind_post:
  "st_res R m \<Longrightarrow> (\<And>x. R x \<Longrightarrow> st_res Q (f x)) \<Longrightarrow> st_res Q (st_bind m f)"
  unfolding st_res_def by (fastforce split: prod.splits sum.splits)

end
