(* ===== verification/Json.thy ===== *)
theory Json
  imports Prelude
begin

text \<open>
  JavaScript values as the worker sees them: the results of \<^verbatim>\<open>JSON.parse\<close> and
  \<^verbatim>\<open>res.json()\<close>, the objects it builds and hands to \<^verbatim>\<open>JSON.stringify\<close>.
  \<open>jval\<close> is the JSON data model; an object is an association list in insertion order
  (the order \<^verbatim>\<open>JSON.stringify\<close> prints), a missing property (\<^verbatim>\<open>undefined\<close>) is
  \<open>None\<close> of \<open>jval option\<close>. Numbers are integers: every number the worker handles
  (\<^verbatim>\<open>Date.now()\<close>, \<^verbatim>\<open>expires_in\<close>, HTTP statuses) is one.
  The theory defines the JavaScript operations the worker applies to such values:
  truthiness (\<open>js_truthy\<close>), \<^verbatim>\<open>a || b\<close> (\<open>js_or\<close>), property read on an object
  (\<open>jget\<close>), \<^verbatim>\<open>Object.assign\<close> of one property (\<open>obj_set\<close>), string conversion
  as in a template literal (\<open>js_string_of\<close>), \<^verbatim>\<open>JSON.stringify\<close>
  (\<open>json_stringify\<close>, and \<open>json_gap\<close> with indentation) and \<^verbatim>\<open>JSON.parse\<close> (\<open>json_parse\<close>, a recursive-descent
  parser with fuel). These are the JavaScript runtime, not code of the repository.
\<close>

datatype jval =
    JNull
  | JBool bool
  | JNum int
  | JStr string
  | JArr "jval list"
  | JObj "(string \<times> jval) list"

subsection \<open>Truthiness, \<^verbatim>\<open>||\<close>, property access\<close>

fun js_truthy :: "jval option \<Rightarrow> bool" where
  "js_truthy None = False"
| "js_truthy (Some JNull) = False"
| "js_truthy (Some (JBool b)) = b"
| "js_truthy (Some (JNum n)) = (n \<noteq> 0)"
| "js_truthy (Some (JStr s)) = (s \<noteq> [])"
| "js_truthy (Some (JArr xs)) = True"
| "js_truthy (Some (JObj kvs)) = True"

definition js_or :: "jval option \<Rightarrow> jval option \<Rightarrow> jval option" where
  "js_or a b = (if js_truthy a then a else b)"

fun jget :: "jval \<Rightarrow> string \<Rightarrow> jval option" where
  "jget (JObj kvs) k = map_of kvs k"
| "jget _ k = None"

fun upd_assoc :: "string \<Rightarrow> jval \<Rightarrow> (string \<times> jval) list \<Rightarrow> (string \<times> jval) list" where
  "upd_assoc k v [] = [(k, v)]"
| "upd_assoc k v ((k', v') # kvs) =
     (if k = k' then (k, v) # kvs else (k', v') # upd_assoc k v kvs)"

text \<open>
  \<^verbatim>\<open>Object.assign(o, {k: v})\<close>: an existing property keeps its position, a new one is
  appended. A property set to \<^verbatim>\<open>undefined\<close> is dropped: \<^verbatim>\<open>JSON.stringify\<close>
  omits it and a later read gives \<^verbatim>\<open>undefined\<close> either way.
\<close>

definition obj_set :: "(string \<times> jval) list \<Rightarrow> string \<Rightarrow> jval option \<Rightarrow> (string \<times> jval) list" where
  "obj_set kvs k v = (case v of
      None \<Rightarrow> filter (\<lambda>kv. fst kv \<noteq> k) kvs
    | Some x \<Rightarrow> upd_assoc k x kvs)"

text \<open>An object literal \<^verbatim>\<open>{k1: v1, ...}\<close> whose values may be \<^verbatim>\<open>undefined\<close>.\<close>

definition obj_lit :: "(string \<times> jval option) list \<Rightarrow> jval" where
  "obj_lit kvs = JObj (foldl (\<lambda>acc (k, v). obj_set acc k v) [] kvs)"

subsection \<open>String conversion\<close>

text \<open>\<^verbatim>\<open>Array.prototype.join(sep)\<close> on strings.\<close>

fun js_join :: "string \<Rightarrow> string list \<Rightarrow> string" where
  "js_join sep [] = []"
| "js_join sep [x] = x"
| "js_join sep (x # y # xs) = x @ sep @ js_join sep (y # xs)"

fun nat_str :: "nat \<Rightarrow> string" where
  "nat_str n = (if n < 10 then [char_of (48 + n)] else nat_str (n div 10) @ [char_of (48 + n mod 10)])"

declare nat_str.simps [simp del]

definition int_str :: "int \<Rightarrow> string" where
  "int_str i = (if i < 0 then CHR ''-'' # nat_str (nat (- i)) else nat_str (nat i))"

text \<open>
  \<^verbatim>\<open>String(v)\<close> and \<^verbatim>\<open>`${v}`\<close>: an array is joined with commas, its
  \<^verbatim>\<open>null\<close> elements printing as the empty string; an object prints as
  \<^verbatim>\<open>[object Object]\<close>; \<^verbatim>\<open>undefined\<close> prints as \<^verbatim>\<open>undefined\<close>.
\<close>

fun js_str :: "jval \<Rightarrow> string" where
  "js_str JNull = ''null''"
| "js_str (JBool b) = (if b then ''true'' else ''false'')"
| "js_str (JNum n) = int_str n"
| "js_str (JStr s) = s"
| "js_str (JArr xs) = js_join '','' (map (\<lambda>x. if x = JNull then [] else js_str x) xs)"
| "js_str (JObj kvs) = ''[object Object]''"

definition js_string_of :: "jval option \<Rightarrow> string" where
  "js_string_of v = (case v of None \<Rightarrow> ''undefined'' | Some x \<Rightarrow> js_str x)"

subsection \<open>\<^verbatim>\<open>JSON.stringify\<close>\<close>

definition hex_digit :: "nat \<Rightarrow> char" where
  "hex_digit k = (if k < 10 then char_of (48 + k) else char_of (87 + k))"

definition esc_char :: "char \<Rightarrow> string" where
  "esc_char c =
     (if c = CHR 0x22 then [CHR 0x5C, CHR 0x22]
      else if c = CHR 0x5C then [CHR 0x5C, CHR 0x5C]
      else if c = CHR 0x08 then [CHR 0x5C, CHR ''b'']
      else if c = CHR 0x0C then [CHR 0x5C, CHR ''f'']
      else if c = CHR 0x0A then [CHR 0x5C, CHR ''n'']
      else if c = CHR 0x0D then [CHR 0x5C, CHR ''r'']
      else if c = CHR 0x09 then [CHR 0x5C, CHR ''t'']
      else if of_char c < (32::nat)
      then [CHR 0x5C, CHR ''u'', CHR ''0'', CHR ''0'',
            hex_digit (of_char c div 16), hex_digit (of_char c mod 16)]
      else [c])"

definition json_quote :: "string \<Rightarrow> string" where
  "json_quote s = CHR 0x22 # concat (map esc_char s) @ [CHR 0x22]"

fun json_stringify :: "jval \<Rightarrow> string" where
  "json_stringify JNull = ''null''"
| "json_stringify (JBool b) = (if b then ''true'' else ''false'')"
| "json_stringify (JNum n) = int_str n"
| "json_stringify (JStr s) = json_quote s"
| "json_stringify (JArr xs) =
     CHR ''['' # js_join '','' (map json_stringify xs) @ '']''"
| "json_stringify (JObj kvs) =
     CHR ''{'' # js_join '',''
        (map (\<lambda>kv. json_quote (fst kv) @ '':'' @ json_stringify (snd kv)) kvs) @ ''}''"

text \<open>
  \<^verbatim>\<open>JSON.stringify(v, null, space)\<close>: the serialisation of ECMAScript's
  SerializeJSONObject and SerializeJSONArray with the indentation unit \<open>gap\<close> and the
  current indentation \<open>ind\<close>. With an empty gap it is \<open>json_stringify\<close>; otherwise
  every member goes on a line of its own, indented one more gap, the closing bracket on
  a line indented as the opening one, and a space follows each colon.
\<close>

definition json_lf :: string where
  "json_lf = [CHR 0x0A]"

definition json_brk :: "string \<Rightarrow> string \<Rightarrow> string" where
  "json_brk gap ind = (if gap = [] then [] else json_lf @ ind)"

definition json_colon :: "string \<Rightarrow> string" where
  "json_colon gap = CHR '':'' # (if gap = [] then [] else [CHR 0x20])"

fun json_gap :: "string \<Rightarrow> string \<Rightarrow> jval \<Rightarrow> string" where
  "json_gap gap ind (JArr xs) =
     (if xs = [] then ''[]''
      else CHR ''['' # json_brk gap (ind @ gap) @
           js_join ('','' @ json_brk gap (ind @ gap)) (map (json_gap gap (ind @ gap)) xs) @
           json_brk gap ind @ '']'')"
| "json_gap gap ind (JObj kvs) =
     (if kvs = [] then ''{}''
      else CHR ''{'' # json_brk gap (ind @ gap) @
           js_join ('','' @ json_brk gap (ind @ gap))
             (map (\<lambda>kv. json_quote (fst kv) @ json_colon gap @ json_gap gap (ind @ gap) (snd kv)) kvs) @
           json_brk gap ind @ ''}'')"
| "json_gap gap ind v = json_stringify v"

subsection \<open>\<^verbatim>\<open>JSON.parse\<close>\<close>

text \<open>
  A recursive-descent parser for JSON text. It accepts whitespace between tokens, the
  escapes of \<^verbatim>\<open>JSON.stringify\<close> and \<^verbatim>\<open>\uXXXX\<close> for code points below 256,
  and integers without leading zeros; a fraction or an exponent is a syntax error here
  (no number the worker parses has one). A duplicated key overwrites the earlier value in
  place, as \<^verbatim>\<open>JSON.parse\<close> does. The three mutually recursive functions spend one
  unit of fuel per call; \<open>json_parse\<close> gives one more unit than the text has
  characters, which is enough (each call consumes a character or is directly followed by
  one that does, see \<open>Json_Codec\<close>).
\<close>

definition is_ws :: "char \<Rightarrow> bool" where
  "is_ws c \<longleftrightarrow> c = CHR 0x20 \<or> c = CHR 0x09 \<or> c = CHR 0x0A \<or> c = CHR 0x0D"

definition skip_ws :: "string \<Rightarrow> string" where
  "skip_ws s = dropWhile is_ws s"

definition is_digit :: "char \<Rightarrow> bool" where
  "is_digit c \<longleftrightarrow> (48::nat) \<le> of_char c \<and> of_char c \<le> (57::nat)"

definition digit_val :: "char \<Rightarrow> nat" where
  "digit_val c = of_char c - 48"

definition hex_val :: "char \<Rightarrow> nat option" where
  "hex_val c =
     (if is_digit c then Some (digit_val c)
      else if (97::nat) \<le> of_char c \<and> of_char c \<le> (102::nat) then Some (of_char c - 87)
      else if (65::nat) \<le> of_char c \<and> of_char c \<le> (70::nat) then Some (of_char c - 55)
      else None)"

definition hex4_val :: "char \<Rightarrow> char \<Rightarrow> char \<Rightarrow> char \<Rightarrow> nat option" where
  "hex4_val a b c d =
     (case (hex_val a, hex_val b, hex_val c, hex_val d) of
        (Some w, Some x, Some y, Some z) \<Rightarrow> Some (((w * 16 + x) * 16 + y) * 16 + z)
      | _ \<Rightarrow> None)"

text \<open>The character a one-letter escape \<^verbatim>\<open>\e\<close> stands for.\<close>

definition unesc :: "char \<Rightarrow> char option" where
  "unesc e =
     (if e = CHR 0x22 then Some (CHR 0x22)
      else if e = CHR 0x5C then Some (CHR 0x5C)
      else if e = CHR ''/'' then Some (CHR ''/'')
      else if e = CHR ''b'' then Some (CHR 0x08)
      else if e = CHR ''f'' then Some (CHR 0x0C)
      else if e = CHR ''n'' then Some (CHR 0x0A)
      else if e = CHR ''r'' then Some (CHR 0x0D)
      else if e = CHR ''t'' then Some (CHR 0x09)
      else None)"

definition cons_fst :: "char \<Rightarrow> (string \<times> string) option \<Rightarrow> (string \<times> string) option" where
  "cons_fst c r = map_option (\<lambda>(s, rest). (c # s, rest)) r"

text \<open>The body of a string literal after its opening quote: the decoded string and the
  text after the closing quote.\<close>

fun parse_str :: "string \<Rightarrow> (string \<times> string) option"
and parse_esc :: "string \<Rightarrow> (string \<times> string) option" where
  "parse_str [] = None"
| "parse_str (c # cs) =
     (if c = CHR 0x22 then Some ([], cs)
      else if c = CHR 0x5C then parse_esc cs
      else if of_char c < (32::nat) then None
      else cons_fst c (parse_str cs))"
| "parse_esc [] = None"
| "parse_esc (e # cs) =
     (if e = CHR ''u'' then
        (case cs of
           a # b # c # d # rest \<Rightarrow>
             (case hex4_val a b c d of
                Some n \<Rightarrow> if n < 256 then cons_fst (char_of n) (parse_str rest) else None
              | None \<Rightarrow> None)
         | _ \<Rightarrow> None)
      else (case unesc e of Some c \<Rightarrow> cons_fst c (parse_str cs) | None \<Rightarrow> None))"

definition digits_val :: "string \<Rightarrow> nat" where
  "digits_val ds = foldl (\<lambda>acc d. 10 * acc + digit_val d) 0 ds"

text \<open>An integer: an optional minus sign and digits, no leading zero.\<close>

definition parse_nat :: "string \<Rightarrow> (nat \<times> string) option" where
  "parse_nat s =
     (let ds = takeWhile is_digit s in
      if ds = [] \<or> (hd ds = CHR ''0'' \<and> length ds > 1) then None
      else Some (digits_val ds, dropWhile is_digit s))"

definition parse_num :: "string \<Rightarrow> (jval \<times> string) option" where
  "parse_num s =
     (if s \<noteq> [] \<and> hd s = CHR ''-''
      then map_option (\<lambda>(n, r). (JNum (- int n), r)) (parse_nat (tl s))
      else map_option (\<lambda>(n, r). (JNum (int n), r)) (parse_nat s))"

fun parse_value :: "nat \<Rightarrow> string \<Rightarrow> (jval \<times> string) option"
and parse_elems :: "nat \<Rightarrow> jval list \<Rightarrow> string \<Rightarrow> (jval \<times> string) option"
and parse_members :: "nat \<Rightarrow> (string \<times> jval) list \<Rightarrow> string \<Rightarrow> (jval \<times> string) option" where
  "parse_value 0 s = None"
| "parse_value (Suc n) s =
     (case skip_ws s of
        [] \<Rightarrow> None
      | c # cs \<Rightarrow>
          if c = CHR ''n'' then (if take 3 cs = ''ull'' then Some (JNull, drop 3 cs) else None)
          else if c = CHR ''t'' then (if take 3 cs = ''rue'' then Some (JBool True, drop 3 cs) else None)
          else if c = CHR ''f'' then (if take 4 cs = ''alse'' then Some (JBool False, drop 4 cs) else None)
          else if c = CHR 0x22 then map_option (\<lambda>(str, r). (JStr str, r)) (parse_str cs)
          else if c = CHR ''['' then
            (let r = skip_ws cs in
             if r \<noteq> [] \<and> hd r = CHR '']'' then Some (JArr [], tl r) else parse_elems n [] r)
          else if c = CHR ''{'' then
            (let r = skip_ws cs in
             if r \<noteq> [] \<and> hd r = CHR ''}'' then Some (JObj [], tl r) else parse_members n [] r)
          else parse_num (c # cs))"
| "parse_elems 0 acc s = None"
| "parse_elems (Suc n) acc s =
     (case parse_value n s of
        None \<Rightarrow> None
      | Some (v, r) \<Rightarrow>
          (let r' = skip_ws r in
           if r' = [] then None
           else if hd r' = CHR '','' then parse_elems n (acc @ [v]) (tl r')
           else if hd r' = CHR '']'' then Some (JArr (acc @ [v]), tl r')
           else None))"
| "parse_members 0 acc s = None"
| "parse_members (Suc n) acc s =
     (let s1 = skip_ws s in
      if s1 = [] \<or> hd s1 \<noteq> CHR 0x22 then None
      else (case parse_str (tl s1) of
        None \<Rightarrow> None
      | Some (k, r) \<Rightarrow>
          (let r1 = skip_ws r in
           if r1 = [] \<or> hd r1 \<noteq> CHR '':'' then None
           else (case parse_value n (tl r1) of
             None \<Rightarrow> None
           | Some (v, r2) \<Rightarrow>
               (let r3 = skip_ws r2; acc' = upd_assoc k v acc in
                if r3 = [] then None
                else if hd r3 = CHR '','' then parse_members n acc' (tl r3)
                else if hd r3 = CHR ''}'' then Some (JObj acc', tl r3)
                else None)))))"

definition json_parse :: "string \<Rightarrow> jval option" where
  "json_parse s =
     (case parse_value (Suc (length s)) s of
        None \<Rightarrow> None
      | Some (v, r) \<Rightarrow> if skip_ws r = [] then Some v else None)"

subsection \<open>Reading back what was written\<close>

named_theorems jobj_simps "property reads of objects built by the worker"

lemma map_of_upd_assoc [jobj_simps]:
  "map_of (upd_assoc k v kvs) k' = (if k' = k then Some v else map_of kvs k')"
  by (induction kvs) auto

lemma map_of_filter_key:
  "map_of (filter (\<lambda>kv. fst kv \<noteq> k) kvs) k' = (if k' = k then None else map_of kvs k')"
  by (induction kvs) auto

lemma map_of_obj_set [jobj_simps]:
  "map_of (obj_set kvs k v) k' = (if k' = k then v else map_of kvs k')"
  by (cases v) (simp_all add: obj_set_def map_of_upd_assoc map_of_filter_key)

lemma map_of_foldl_obj_set:
  "map_of (foldl (\<lambda>acc (k, v). obj_set acc k v) acc kvs) k' =
     (case map_of (rev kvs) k' of Some v \<Rightarrow> v | None \<Rightarrow> map_of acc k')"
  by (induction kvs arbitrary: acc) (auto simp: map_of_obj_set map_of_append split: option.split)

text \<open>A property of an object literal is its last binding in the literal.\<close>

lemma jget_obj_lit [jobj_simps]:
  "jget (obj_lit kvs) k = (case map_of (rev kvs) k of Some v \<Rightarrow> v | None \<Rightarrow> None)"
  by (simp add: obj_lit_def map_of_foldl_obj_set split: option.split)

lemma js_or_truthy [simp]: "js_truthy a \<Longrightarrow> js_or a b = a"
  by (simp add: js_or_def)

lemma js_or_falsy [simp]: "\<not> js_truthy a \<Longrightarrow> js_or a b = b"
  by (simp add: js_or_def)

lemma js_truthy_the: "js_truthy v \<Longrightarrow> Some (the v) = v"
  by (cases v) auto

lemma json_parse_Nil [simp]: "json_parse [] = None"
  by (simp add: json_parse_def skip_ws_def)

lemma js_truthy_Some_JStr [simp]: "js_truthy (Some (JStr s)) = (s \<noteq> [])"
  by simp

text \<open>The definitions a closed JSON text unfolds through, for evaluation by \<open>simp\<close>.\<close>

lemmas json_eval = json_parse_def skip_ws_def is_ws_def parse_num_def parse_nat_def is_digit_def
  digits_val_def digit_val_def cons_fst_def hex4_val_def hex_val_def unesc_def
  json_quote_def esc_char_def int_str_def nat_str.simps char_of_eq_iff

end
