(* ===== verification/Json_Codec.thy ===== *)
theory Json_Codec
  imports Json
begin

text \<open>
  The round trip of the JSON codec of \<open>Json\<close>: \<open>JSON.parse(JSON.stringify(v))\<close> gives
  back \<open>v\<close> exactly for the values JavaScript can build (\<open>jwf\<close>: no object with a repeated
  key), and the parser builds only such values, whatever the text. The worker stores its
  token records with \<^verbatim>\<open>JSON.stringify\<close> and reads them back with \<^verbatim>\<open>JSON.parse\<close>
  (\<^verbatim>\<open>src/worker/index.js\<close> lines 63-68, 89-92, 150), and the browser page keeps its
  to-dos, notes and reminders in \<^verbatim>\<open>localStorage\<close> the same way
  (\<^verbatim>\<open>src/public/app.js\<close> lines 4-7): both rely on this lemma. The fuel the parser is
  given, one more than the length of the text, is shown to be enough: every nesting level
  consumes at least one character.
\<close>

text \<open>After a value, the text the parser stops at: anything but a digit.\<close>

definition json_stop :: "string \<Rightarrow> bool" where
  "json_stop rest \<longleftrightarrow> (case rest of [] \<Rightarrow> True | c # _ \<Rightarrow> \<not> is_digit c)"

fun jwf :: "jval \<Rightarrow> bool" where
  "jwf (JArr xs) = list_all jwf xs"
| "jwf (JObj kvs) = (distinct (map fst kvs) \<and> list_all (\<lambda>kv. jwf (snd kv)) kvs)"
| "jwf _ = True"

text \<open>The value \<^verbatim>\<open>JSON.parse\<close> builds from the text of \<open>v\<close>: a repeated key keeps its
  first position and its last value.\<close>

definition obj_merge :: "(string \<times> jval) list \<Rightarrow> (string \<times> jval) list \<Rightarrow> (string \<times> jval) list" where
  "obj_merge acc kvs = foldl (\<lambda>a kv. upd_assoc (fst kv) (snd kv) a) acc kvs"

fun json_norm :: "jval \<Rightarrow> jval" where
  "json_norm (JArr xs) = JArr (map json_norm xs)"
| "json_norm (JObj kvs) = JObj (obj_merge [] (map (\<lambda>kv. (fst kv, json_norm (snd kv))) kvs))"
| "json_norm v = v"

lemma hex_val_hex_digit: "k < 16 \<Longrightarrow> hex_val (hex_digit k) = Some k"
  by (auto simp: hex_val_def hex_digit_def is_digit_def digit_val_def)

lemma hex_val_zero: "hex_val (CHR ''0'') = Some 0"
  by (simp add: hex_val_def is_digit_def digit_val_def)

lemma parse_str_esc_control:
  assumes "of_char c < (32::nat)"
  shows "parse_str ([CHR 0x5C, CHR ''u'', CHR ''0'', CHR ''0'',
            hex_digit (of_char c div 16), hex_digit (of_char c mod 16)] @ t) = cons_fst c (parse_str t)"
proof -
  have d: "of_char c div 16 < (16::nat)" using assms by auto
  have "hex4_val (CHR ''0'') (CHR ''0'') (hex_digit (of_char c div 16)) (hex_digit (of_char c mod 16)) =
        Some (of_char c)"
    using d by (simp add: hex4_val_def hex_val_zero hex_val_hex_digit)
  with assms show ?thesis by simp
qed

lemma parse_str_esc_char: "parse_str (esc_char c @ t) = cons_fst c (parse_str t)"
proof -
  consider "c = CHR 0x22" | "c = CHR 0x5C" | "c = CHR 0x08" | "c = CHR 0x0C" | "c = CHR 0x0A"
    | "c = CHR 0x0D" | "c = CHR 0x09"
    | "c \<notin> {CHR 0x22, CHR 0x5C, CHR 0x08, CHR 0x0C, CHR 0x0A, CHR 0x0D, CHR 0x09}" "of_char c < (32::nat)"
    | "c \<notin> {CHR 0x22, CHR 0x5C, CHR 0x08, CHR 0x0C, CHR 0x0A, CHR 0x0D, CHR 0x09}" "\<not> of_char c < (32::nat)"
    by blast
  then show ?thesis
  proof cases
    case 8
    then have "esc_char c = [CHR 0x5C, CHR ''u'', CHR ''0'', CHR ''0'',
            hex_digit (of_char c div 16), hex_digit (of_char c mod 16)]"
      by (simp add: esc_char_def)
    with 8 show ?thesis by (simp only: parse_str_esc_control)
  next
    case 9
    then have "esc_char c = [c]" by (simp add: esc_char_def)
    with 9 show ?thesis by auto
  qed (simp_all add: esc_char_def unesc_def)
qed

lemma parse_str_esc:
  "parse_str (concat (map esc_char s) @ CHR 0x22 # rest) = Some (s, rest)"
  by (induction s) (simp_all add: parse_str_esc_char cons_fst_def)

subsection \<open>Integers\<close>

lemma digit_char: "k < 10 \<Longrightarrow> is_digit (char_of (48 + k)) \<and> digit_val (char_of (48 + k)) = k"
  by (simp add: is_digit_def digit_val_def)

lemma nat_str_unfold:
  "nat_str n = (if n < 10 then [char_of (48 + n)] else nat_str (n div 10) @ [char_of (48 + n mod 10)])"
  by (rule nat_str.simps)

lemma nat_str_digits: "c \<in> set (nat_str n) \<Longrightarrow> is_digit c"
proof (induction n rule: nat_str.induct)
  case (1 n)
  then show ?case
    by (cases "n < 10") (auto simp: nat_str_unfold [of n] digit_char)
qed

lemma nat_str_not_Nil [simp]: "nat_str n \<noteq> []"
  by (subst nat_str_unfold) simp

lemma digits_val_snoc: "digits_val (xs @ [d]) = 10 * digits_val xs + digit_val d"
  by (simp add: digits_val_def)

lemma digits_val_nat_str: "digits_val (nat_str n) = n"
proof (induction n rule: nat_str.induct)
  case (1 n)
  show ?case
  proof (cases "n < 10")
    case True
    then show ?thesis by (simp add: nat_str_unfold [of n] digits_val_def digit_char)
  next
    case False
    with "1.IH" show ?thesis by (simp add: nat_str_unfold [of n] digits_val_snoc digit_char)
  qed
qed

lemma hd_nat_str_zero: "hd (nat_str n) = CHR ''0'' \<Longrightarrow> nat_str n = [CHR ''0'']"
proof (induction n rule: nat_str.induct)
  case (1 n)
  show ?case
  proof (cases "n < 10")
    case True
    with "1.prems" show ?thesis by (simp add: nat_str_unfold [of n])
  next
    case False
    with "1.prems" have "hd (nat_str (n div 10)) = CHR ''0''"
      by (simp add: nat_str_unfold [of n])
    with False "1.IH" have "nat_str (n div 10) = [CHR ''0'']" by simp
    then have "digits_val (nat_str (n div 10)) = 0" by (simp add: digits_val_def digit_val_def)
    with False show ?thesis by (simp add: digits_val_nat_str)
  qed
qed

lemma takeWhile_digits_stop:
  assumes "json_stop rest"
  shows "takeWhile is_digit (nat_str n @ rest) = nat_str n"
proof -
  have "takeWhile is_digit (nat_str n @ rest) = nat_str n @ takeWhile is_digit rest"
    by (rule takeWhile_append2) (rule nat_str_digits)
  moreover have "takeWhile is_digit rest = []"
    using assms by (cases rest) (auto simp: json_stop_def)
  ultimately show ?thesis by simp
qed

lemma dropWhile_digits_stop:
  assumes "json_stop rest"
  shows "dropWhile is_digit (nat_str n @ rest) = rest"
proof -
  have "dropWhile is_digit (nat_str n @ rest) = dropWhile is_digit rest"
    by (rule dropWhile_append2) (rule nat_str_digits)
  moreover have "dropWhile is_digit rest = rest"
    using assms by (cases rest) (auto simp: json_stop_def)
  ultimately show ?thesis by simp
qed

lemma parse_nat_nat_str: "json_stop rest \<Longrightarrow> parse_nat (nat_str n @ rest) = Some (n, rest)"
proof -
  assume stop: "json_stop rest"
  have "\<not> (hd (nat_str n) = CHR ''0'' \<and> length (nat_str n) > 1)"
    using hd_nat_str_zero by fastforce
  with stop show ?thesis
    by (simp add: parse_nat_def Let_def takeWhile_digits_stop dropWhile_digits_stop digits_val_nat_str)
qed

lemma hd_nat_str_digit: "is_digit (hd (nat_str n))"
  using nat_str_digits [of "hd (nat_str n)" n] by simp

lemma parse_num_int_str: "json_stop rest \<Longrightarrow> parse_num (int_str i @ rest) = Some (JNum i, rest)"
proof (cases "i < 0")
  case True
  assume "json_stop rest"
  with True show ?thesis by (simp add: int_str_def parse_num_def parse_nat_nat_str)
next
  case False
  assume stop: "json_stop rest"
  have "hd (nat_str (nat i)) \<noteq> CHR ''-''"
    using hd_nat_str_digit [of "nat i"] by (auto simp: is_digit_def)
  with False stop show ?thesis
    by (simp add: int_str_def parse_num_def parse_nat_nat_str hd_append)
qed

subsection \<open>Values\<close>

lemma js_join_Cons:
  "js_join sep (x # xs) = x @ (if xs = [] then [] else sep @ js_join sep xs)"
  by (cases xs) simp_all

lemma dropWhile_hd_stop: "xs \<noteq> [] \<Longrightarrow> \<not> P (hd xs) \<Longrightarrow> dropWhile P (xs @ ys) = xs @ ys"
  by (cases xs) simp_all

lemma json_stringify_not_Nil [simp]: "json_stringify v \<noteq> []"
  by (cases v) (simp_all add: int_str_def json_quote_def)

lemma hd_json_stringify:
  "hd (json_stringify v) \<in> {CHR ''n'', CHR ''t'', CHR ''f'', CHR 0x22, CHR ''['', CHR ''{'', CHR ''-''} \<or>
   is_digit (hd (json_stringify v))"
  by (cases v) (auto simp: int_str_def json_quote_def hd_nat_str_digit)

lemma hd_json_stringify_not_ws: "\<not> is_ws (hd (json_stringify v))"
  using hd_json_stringify [of v] by (auto simp: is_ws_def is_digit_def)

lemma hd_json_stringify_not_close:
  "hd (json_stringify v) \<noteq> CHR '']'' \<and> hd (json_stringify v) \<noteq> CHR ''}''"
  using hd_json_stringify [of v] by (auto simp: is_digit_def)

lemma skip_ws_stringify [simp]: "skip_ws (json_stringify v @ rest) = json_stringify v @ rest"
  by (simp add: skip_ws_def dropWhile_hd_stop hd_json_stringify_not_ws)

lemma skip_ws_Cons_nonws [simp]: "\<not> is_ws c \<Longrightarrow> skip_ws (c # cs) = c # cs"
  by (simp add: skip_ws_def)

lemma json_stop_punct [simp]:
  "json_stop (CHR '','' # r)" "json_stop (CHR '']'' # r)" "json_stop (CHR ''}'' # r)" "json_stop []"
  by (simp_all add: json_stop_def is_digit_def)

lemma parse_value_num:
  assumes "c = CHR ''-'' \<or> is_digit c"
  shows "parse_value (Suc n) (c # cs) = parse_num (c # cs)"
proof -
  have "\<not> is_ws c" and "c \<notin> {CHR ''n'', CHR ''t'', CHR ''f'', CHR 0x22, CHR ''['', CHR ''{''}"
    using assms by (auto simp: is_ws_def is_digit_def)
  then show ?thesis by simp
qed

lemma upd_assoc_fresh: "k \<notin> set (map fst kvs) \<Longrightarrow> upd_assoc k v kvs = kvs @ [(k, v)]"
  by (induction kvs) auto

lemma skip_ws_punct [simp]:
  "skip_ws (CHR '','' # r) = CHR '','' # r" "skip_ws (CHR '']'' # r) = CHR '']'' # r"
  "skip_ws (CHR ''}'' # r) = CHR ''}'' # r" "skip_ws (CHR '':'' # r) = CHR '':'' # r"
  "skip_ws (CHR 0x22 # r) = CHR 0x22 # r"
  "skip_ws (CHR ''['' # r) = CHR ''['' # r" "skip_ws (CHR ''{'' # r) = CHR ''{'' # r"
  by (simp_all add: skip_ws_def is_ws_def)

lemma json_gap_compact: "json_gap [] ind v = json_stringify v"
proof (induction "[]::string" ind v rule: json_gap.induct)
  case (1 ind xs)
  then show ?case by (simp add: json_brk_def cong: map_cong)
next
  case (2 ind kvs)
  then show ?case by (simp add: json_brk_def json_colon_def cong: map_cong)
qed simp_all

lemma json_brk_ws: "list_all is_ws ind \<Longrightarrow> list_all is_ws (json_brk gap ind)"
  by (simp add: json_brk_def json_lf_def is_ws_def)

lemma skip_ws_ws_prefix: "list_all is_ws w \<Longrightarrow> skip_ws (w @ s) = skip_ws s"
  by (induction w) (simp_all add: skip_ws_def)

lemma parse_value_ws: "list_all is_ws w \<Longrightarrow> parse_value n (w @ s) = parse_value n s"
  by (cases n) (simp_all only: parse_value.simps skip_ws_ws_prefix)

lemma ws_not_digit: "is_ws c \<Longrightarrow> \<not> is_digit c"
  by (auto simp: is_ws_def is_digit_def)

lemma json_stop_ws: "list_all is_ws w \<Longrightarrow> json_stop (c # r) \<Longrightarrow> json_stop (w @ c # r)"
  by (cases w) (simp_all add: json_stop_def ws_not_digit)

lemma hd_json_gap: "json_gap gap ind v \<noteq> [] \<and> hd (json_gap gap ind v) = hd (json_stringify v)"
  by (cases v) (simp_all add: int_str_def json_quote_def)

lemma skip_ws_gap [simp]: "skip_ws (json_gap gap ind v @ rest) = json_gap gap ind v @ rest"
  using hd_json_gap [of gap ind v]
  by (simp add: skip_ws_def dropWhile_hd_stop hd_json_stringify_not_ws)

lemma parse_elems_layout:
  assumes IH: "\<And>x m r. x \<in> set xs \<Longrightarrow> length (P x) < m \<Longrightarrow> json_stop r \<Longrightarrow>
                 parse_value m (P x @ r) = Some (json_norm x, r)"
    and ws: "list_all is_ws a" "list_all is_ws b" "list_all is_ws c" and ne: "xs \<noteq> []"
    and fuel: "length (js_join ('','' @ b) (map P xs)) + 1 < m"
  shows "parse_elems m acc (a @ js_join ('','' @ b) (map P xs) @ c @ CHR '']'' # rest) =
         Some (JArr (acc @ map json_norm xs), rest)"
  using IH ws(1) ne fuel
proof (induction xs arbitrary: m acc a)
  case Nil
  then show ?case by simp
next
  case (Cons x xs)
  obtain m' where m: "m = Suc m'" using Cons.prems(4) by (cases m) auto
  have px: "parse_value m' (a @ P x @ r) = Some (json_norm x, r)"
    if "json_stop r" "length (P x) < m'" for r
    using Cons.prems(1) [of x m' r] Cons.prems(2) that by (simp add: parse_value_ws)
  show ?case
  proof (cases "xs = []")
    case True
    have "length (P x) < m'" using Cons.prems(4) m True by simp
    then have "parse_value m' (a @ P x @ c @ CHR '']'' # rest) = Some (json_norm x, c @ CHR '']'' # rest)"
      using ws(3) by (intro px json_stop_ws) simp_all
    with m True ws(3) show ?thesis by (simp add: Let_def skip_ws_ws_prefix)
  next
    case False
    let ?tl = "js_join ('','' @ b) (map P xs)"
    have len: "length (P x) + length b + length ?tl + 2 < m"
      using Cons.prems(4) False by (simp add: js_join_Cons)
    then have "parse_value m' (a @ P x @ CHR '','' # b @ ?tl @ c @ CHR '']'' # rest) =
          Some (json_norm x, CHR '','' # b @ ?tl @ c @ CHR '']'' # rest)"
      using m by (intro px) simp_all
    moreover have "parse_elems m' (acc @ [json_norm x]) (b @ ?tl @ c @ CHR '']'' # rest) =
                   Some (JArr ((acc @ [json_norm x]) @ map json_norm xs), rest)"
    proof (rule Cons.IH)
      show "\<And>y k r. y \<in> set xs \<Longrightarrow> length (P y) < k \<Longrightarrow> json_stop r \<Longrightarrow>
              parse_value k (P y @ r) = Some (json_norm y, r)"
        using Cons.prems(1) by simp
      show "list_all is_ws b" by (rule ws(2))
      show "xs \<noteq> []" by (rule False)
      show "length ?tl + 1 < m'" using len m by simp
    qed
    ultimately show ?thesis using m False by (simp add: js_join_Cons Let_def)
  qed
qed

lemma parse_members_layout:
  assumes IH: "\<And>kv m r. kv \<in> set kvs \<Longrightarrow> length (P (snd kv)) < m \<Longrightarrow> json_stop r \<Longrightarrow>
                 parse_value m (P (snd kv) @ r) = Some (json_norm (snd kv), r)"
    and ws: "list_all is_ws a" "list_all is_ws b" "list_all is_ws c" "list_all is_ws sp"
    and ne: "kvs \<noteq> []"
    and fuel: "length (js_join ('','' @ b) (map (\<lambda>kv. json_quote (fst kv) @ CHR '':'' # sp @ P (snd kv)) kvs)) + 1 < m"
  shows "parse_members m acc
           (a @ js_join ('','' @ b) (map (\<lambda>kv. json_quote (fst kv) @ CHR '':'' # sp @ P (snd kv)) kvs) @
            c @ CHR ''}'' # rest) =
         Some (JObj (obj_merge acc (map (\<lambda>kv. (fst kv, json_norm (snd kv))) kvs)), rest)"
  using IH ws(1) ne fuel
proof (induction kvs arbitrary: m acc a)
  case Nil
  then show ?case by simp
next
  case (Cons kv kvs)
  obtain k v where kv: "kv = (k, v)" by (cases kv)
  obtain m' where m: "m = Suc m'" using Cons.prems(4) by (cases m) auto
  have pv: "parse_value m' (sp @ P v @ r) = Some (json_norm v, r)"
    if "json_stop r" "length (P v) < m'" for r
    using Cons.prems(1) [of kv m' r] kv ws(4) that by (simp add: parse_value_ws)
  have key: "skip_ws (a @ json_quote k @ t) = CHR 0x22 # concat (map esc_char k) @ CHR 0x22 # t"
            "parse_str (concat (map esc_char k) @ CHR 0x22 # t) = Some (k, t)" for t
    using Cons.prems(2) by (simp_all add: json_quote_def skip_ws_ws_prefix parse_str_esc)
  let ?mem = "\<lambda>kv. json_quote (fst kv) @ CHR '':'' # sp @ P (snd kv)"
  show ?case
  proof (cases "kvs = []")
    case True
    have "length (P v) < m'" using Cons.prems(4) m True kv by simp
    then have "parse_value m' (sp @ P v @ c @ CHR ''}'' # rest) = Some (json_norm v, c @ CHR ''}'' # rest)"
      using ws(3) by (intro pv json_stop_ws) simp_all
    with m True kv key ws(3) show ?thesis
      by (simp add: Let_def obj_merge_def skip_ws_ws_prefix)
  next
    case False
    let ?tl = "js_join ('','' @ b) (map ?mem kvs)"
    have len: "length (?mem (k, v)) + length b + length ?tl + 2 < m"
      using Cons.prems(4) False kv by (simp add: js_join_Cons)
    then have "parse_value m' (sp @ P v @ CHR '','' # b @ ?tl @ c @ CHR ''}'' # rest) =
          Some (json_norm v, CHR '','' # b @ ?tl @ c @ CHR ''}'' # rest)"
      using m by (intro pv) simp_all
    moreover have "parse_members m' (upd_assoc k (json_norm v) acc) (b @ ?tl @ c @ CHR ''}'' # rest) =
                   Some (JObj (obj_merge (upd_assoc k (json_norm v) acc) (map (\<lambda>kv. (fst kv, json_norm (snd kv))) kvs)), rest)"
    proof (rule Cons.IH)
      show "\<And>kv m r. kv \<in> set kvs \<Longrightarrow> length (P (snd kv)) < m \<Longrightarrow>
              json_stop r \<Longrightarrow> parse_value m (P (snd kv) @ r) = Some (json_norm (snd kv), r)"
        using Cons.prems(1) by simp
      show "list_all is_ws b" by (rule ws(2))
      show "kvs \<noteq> []" by (rule False)
      show "length ?tl + 1 < m'" using len m by simp
    qed
    ultimately show ?thesis using m False kv key
      by (simp add: js_join_Cons Let_def obj_merge_def)
  qed
qed

lemma parse_value_open_ws:
  assumes "list_all is_ws w" "x \<noteq> []" "\<not> is_ws (hd x)"
  shows "hd x \<noteq> CHR '']'' \<Longrightarrow> parse_value (Suc n) (CHR ''['' # w @ x) = parse_elems n [] x"
    and "hd x \<noteq> CHR ''}'' \<Longrightarrow> parse_value (Suc n) (CHR ''{'' # w @ x) = parse_members n [] x"
  using assms by (cases x; simp add: Let_def skip_ws_ws_prefix)+

lemma gap_body_start:
  assumes "xs \<noteq> []"
  shows "js_join sep (map (json_gap gap ind) xs) @ r \<noteq> [] \<and>
         \<not> is_ws (hd (js_join sep (map (json_gap gap ind) xs) @ r)) \<and>
         hd (js_join sep (map (json_gap gap ind) xs) @ r) \<noteq> CHR '']''"
proof -
  obtain y ys where xs: "xs = y # ys" using assms by (cases xs) auto
  have "json_gap gap ind y \<noteq> []" and "hd (json_gap gap ind y) = hd (json_stringify y)"
    using hd_json_gap by blast+
  then show ?thesis
    using xs hd_json_stringify_not_ws [of y] hd_json_stringify_not_close [of y]
    by (simp add: js_join_Cons)
qed

lemma parse_value_scalar:
  "length (json_stringify JNull) < n \<Longrightarrow> json_stop rest \<Longrightarrow>
   parse_value n (json_stringify JNull @ rest) = Some (JNull, rest)"
  "length (json_stringify (JBool b)) < n \<Longrightarrow> json_stop rest \<Longrightarrow>
   parse_value n (json_stringify (JBool b) @ rest) = Some (JBool b, rest)"
  "length (json_stringify (JNum i)) < n \<Longrightarrow> json_stop rest \<Longrightarrow>
   parse_value n (json_stringify (JNum i) @ rest) = Some (JNum i, rest)"
  "length (json_stringify (JStr t)) < n \<Longrightarrow> json_stop rest \<Longrightarrow>
   parse_value n (json_stringify (JStr t) @ rest) = Some (JStr t, rest)"
proof -
  show "length (json_stringify JNull) < n \<Longrightarrow> json_stop rest \<Longrightarrow>
        parse_value n (json_stringify JNull @ rest) = Some (JNull, rest)"
    by (cases n) (simp_all add: is_ws_def)
  show "length (json_stringify (JBool b)) < n \<Longrightarrow> json_stop rest \<Longrightarrow>
        parse_value n (json_stringify (JBool b) @ rest) = Some (JBool b, rest)"
    by (cases n; cases b) (simp_all add: is_ws_def)
  show "length (json_stringify (JStr t)) < n \<Longrightarrow> json_stop rest \<Longrightarrow>
        parse_value n (json_stringify (JStr t) @ rest) = Some (JStr t, rest)"
    by (cases n) (simp_all add: json_quote_def parse_str_esc)
  assume len: "length (json_stringify (JNum i)) < n" and stop: "json_stop rest"
  then obtain n' where n: "n = Suc n'" by (cases n) auto
  obtain c cs where ics: "int_str i = c # cs"
    using json_stringify_not_Nil [of "JNum i"] by (cases "int_str i") auto
  have "c = CHR ''-'' \<or> is_digit c"
    using hd_nat_str_digit [of "nat (- i)"] hd_nat_str_digit [of "nat i"] ics
    by (auto simp: int_str_def split: if_splits)
  then have "parse_value n (int_str i @ rest) = parse_num (int_str i @ rest)"
    using n ics by (simp add: parse_value_num del: parse_value.simps)
  with stop show "parse_value n (json_stringify (JNum i) @ rest) = Some (JNum i, rest)"
    by (simp add: parse_num_int_str)
qed

lemma parse_value_gap:
  "list_all is_ws gap \<Longrightarrow> list_all is_ws ind \<Longrightarrow> length (json_gap gap ind v) < n \<Longrightarrow> json_stop rest \<Longrightarrow>
   parse_value n (json_gap gap ind v @ rest) = Some (json_norm v, rest)"
proof (induction gap ind v arbitrary: n rest rule: json_gap.induct)
  case (1 gap ind xs)
  then obtain n' where n: "n = Suc n'" by (cases n) auto
  show ?case
  proof (cases "xs = []")
    case True
    with n show ?thesis by simp
  next
    case False
    let ?brk = "json_brk gap (ind @ gap)"
    let ?body = "js_join ('','' @ ?brk) (map (json_gap gap (ind @ gap)) xs)"
    have ws: "list_all is_ws ?brk" "list_all is_ws (json_brk gap ind)"
      using "1.prems"(1,2) by (simp_all add: json_brk_ws)
    have "parse_elems n' [] ([] @ ?body @ json_brk gap ind @ CHR '']'' # rest) =
          Some (JArr ([] @ map json_norm xs), rest)"
    proof (rule parse_elems_layout)
      show "parse_value m (json_gap gap (ind @ gap) x @ r) = Some (json_norm x, r)"
        if "x \<in> set xs" "length (json_gap gap (ind @ gap) x) < m" "json_stop r" for x m r
        using "1.IH" [OF False that(1)] "1.prems"(1,2) that(2,3) by simp
      show "length ?body + 1 < n'" using "1.prems"(3) n False by simp
    qed (use ws False in simp_all)
    moreover have "parse_value (Suc n') (CHR ''['' # ?brk @ ?body @ json_brk gap ind @ CHR '']'' # rest) =
                   parse_elems n' [] (?body @ json_brk gap ind @ CHR '']'' # rest)"
      using gap_body_start [OF False] ws(1) by (intro parse_value_open_ws(1)) simp_all
    ultimately show ?thesis using n False by (simp del: parse_value.simps)
  qed
next
  case (2 gap ind kvs)
  then obtain n' where n: "n = Suc n'" by (cases n) auto
  show ?case
  proof (cases "kvs = []")
    case True
    with n show ?thesis by (simp add: obj_merge_def)
  next
    case False
    let ?brk = "json_brk gap (ind @ gap)"
    let ?sp = "if gap = [] then [] else [CHR 0x20]"
    let ?mem = "\<lambda>kv. json_quote (fst kv) @ CHR '':'' # ?sp @ json_gap gap (ind @ gap) (snd kv)"
    let ?body = "js_join ('','' @ ?brk) (map ?mem kvs)"
    have ws: "list_all is_ws ?brk" "list_all is_ws (json_brk gap ind)" "list_all is_ws ?sp"
      using "2.prems"(1,2) by (simp_all add: json_brk_ws) (simp add: is_ws_def)
    have mem: "(\<lambda>kv. json_quote (fst kv) @ json_colon gap @ json_gap gap (ind @ gap) (snd kv)) = ?mem"
      by (simp add: json_colon_def)
    have "parse_members n' [] ([] @ ?body @ json_brk gap ind @ CHR ''}'' # rest) =
          Some (JObj (obj_merge [] (map (\<lambda>kv. (fst kv, json_norm (snd kv))) kvs)), rest)"
    proof (rule parse_members_layout)
      show "parse_value m (json_gap gap (ind @ gap) (snd kv) @ r) = Some (json_norm (snd kv), r)"
        if "kv \<in> set kvs" "length (json_gap gap (ind @ gap) (snd kv)) < m" "json_stop r" for kv m r
        using "2.IH" [OF False that(1)] "2.prems"(1,2) that(2,3) by (cases kv) simp
      show "length ?body + 1 < n'" using "2.prems"(3) n False mem by simp
    qed (use ws False in simp_all)
    moreover obtain kv kvs' where kvs: "kvs = kv # kvs'" using False by (cases kvs) auto
    then have "parse_value (Suc n') (CHR ''{'' # ?brk @ ?body @ json_brk gap ind @ CHR ''}'' # rest) =
               parse_members n' [] (?body @ json_brk gap ind @ CHR ''}'' # rest)"
      using ws(1) by (intro parse_value_open_ws(2)) (simp_all add: js_join_Cons json_quote_def is_ws_def)
    ultimately show ?thesis using n False mem by (simp del: parse_value.simps)
  qed
qed (simp_all only: json_gap.simps json_norm.simps parse_value_scalar)

lemma parse_value_stringify:
  "length (json_stringify v) < n \<Longrightarrow> json_stop rest \<Longrightarrow>
   parse_value n (json_stringify v @ rest) = Some (json_norm v, rest)"
  using parse_value_gap [of "[]" "[]" v n rest] by (simp add: json_gap_compact)

text \<open>\<^verbatim>\<open>JSON.parse(JSON.stringify(v, null, space))\<close> never fails, whatever the
  (white-space) indentation: it gives \<open>json_norm v\<close>, which is \<open>v\<close> itself for every
  well-formed value.\<close>

lemma json_parse_gap:
  assumes "list_all is_ws gap" "list_all is_ws ind"
  shows "json_parse (json_gap gap ind v) = Some (json_norm v)"
proof -
  have "parse_value (Suc (length (json_gap gap ind v))) (json_gap gap ind v @ []) = Some (json_norm v, [])"
    using assms by (intro parse_value_gap) simp_all
  then show ?thesis by (simp add: json_parse_def skip_ws_def del: parse_value.simps)
qed

lemma json_parse_stringify_norm: "json_parse (json_stringify v) = Some (json_norm v)"
  using json_parse_gap [of "[]" "[]" v] by (simp add: json_gap_compact)

lemma obj_merge_fresh: "distinct (map fst (acc @ kvs)) \<Longrightarrow> obj_merge acc kvs = acc @ kvs"
  by (induction kvs arbitrary: acc) (auto simp: obj_merge_def upd_assoc_fresh)

lemma json_norm_jwf: "jwf v \<Longrightarrow> json_norm v = v"
proof (induction v rule: json_norm.induct)
  case (1 xs)
  then show ?case by (auto simp: list_all_iff intro: map_idI)
next
  case (2 kvs)
  then have "map (\<lambda>kv. (fst kv, json_norm (snd kv))) kvs = kvs"
    by (auto simp: list_all_iff intro!: map_idI)
  with 2 show ?case by (simp add: obj_merge_fresh)
qed simp_all

lemma json_parse_stringify: "jwf v \<Longrightarrow> json_parse (json_stringify v) = Some v"
  by (simp add: json_parse_stringify_norm json_norm_jwf)

subsection \<open>The parser builds only well-formed values\<close>

lemma map_fst_upd_assoc:
  "map fst (upd_assoc k v kvs) = (if k \<in> set (map fst kvs) then map fst kvs else map fst kvs @ [k])"
  by (induction k v kvs rule: upd_assoc.induct) auto

lemma upd_assoc_distinct: "distinct (map fst kvs) \<Longrightarrow> distinct (map fst (upd_assoc k v kvs))"
  by (simp add: map_fst_upd_assoc)

lemma set_upd_assoc: "set (upd_assoc k v kvs) \<subseteq> insert (k, v) (set kvs)"
  by (induction k v kvs rule: upd_assoc.induct) auto

lemma upd_assoc_list_all:
  "P v \<Longrightarrow> list_all (\<lambda>kv. P (snd kv)) kvs \<Longrightarrow> list_all (\<lambda>kv. P (snd kv)) (upd_assoc k v kvs)"
  using set_upd_assoc [of k v kvs] by (auto simp: list_all_iff)

lemma parse_jwf:
  "parse_value n s = Some (v, r) \<Longrightarrow> jwf v"
  "parse_elems n acc s = Some (v, r) \<Longrightarrow> list_all jwf acc \<Longrightarrow> jwf v"
  "parse_members n kvs s = Some (v, r) \<Longrightarrow> jwf (JObj kvs) \<Longrightarrow> jwf v"
proof (induction n s and n acc s and n kvs s arbitrary: v r and v r and v r
       rule: parse_value_parse_elems_parse_members.induct)
  case (2 n s)
  then show ?case
    by (auto simp: Let_def parse_num_def split: list.splits if_splits option.splits)
next
  case (4 n acc s)
  then show ?case
    by (auto simp: Let_def split: if_splits option.splits)
next
  case (6 n acc s)
  then show ?case
    by (auto simp: Let_def upd_assoc_distinct upd_assoc_list_all split: if_splits option.splits)
qed simp_all

lemma json_parse_jwf: "json_parse s = Some v \<Longrightarrow> jwf v"
  by (auto simp: json_parse_def split: option.splits if_splits intro: parse_jwf(1) simp del: parse_value.simps)

text \<open>\<^verbatim>\<open>JSON.parse(JSON.stringify(v))\<close> returns \<open>v\<close> if and only if \<open>v\<close> is a value
  JavaScript can build (no object repeats a key); on such values the codec is a round trip.\<close>

theorem json_roundtrip: "json_parse (json_stringify v) = Some v \<longleftrightarrow> jwf v"
  using json_parse_stringify json_parse_jwf by blast

end
