(* ===== verification/Runtime.thy ===== *)
theory Runtime
  imports Json_Codec
begin

text \<open>
  The platform the worker runs on, as the worker uses it: exceptions, the
  \<^verbatim>\<open>fetch\<close> API towards Google and Gemini, the \<^verbatim>\<open>TOKENS\<close> key-value namespace,
  \<^verbatim>\<open>crypto.randomUUID\<close>, \<^verbatim>\<open>Date.now\<close>, incoming requests and outgoing responses.
  \<^item> The outside world is the record \<open>worker_env\<close>: the bindings of \<^verbatim>\<open>env\<close>
    (client id and secret, whether \<^verbatim>\<open>TOKENS\<close> is bound, the Gemini URL and key), the
    network as a function from the requests already sent and the new request to a
    response or a network error (so a provider may answer differently the second time),
    and the random source as a sequence of UUIDs.
  \<^item> The state the worker changes is the record \<open>wstate\<close>: the namespace
    (\<open>string \<rightharpoonup> string\<close>, as Workers KV stores strings), the number of UUIDs drawn,
    the clock, and the log of every request sent, in order.
  \<^item> A handler is a computation \<open>'a wm\<close> of the exception-state monad of
    \<open>Prelude\<close> over \<open>wstate\<close>; a JavaScript exception is \<open>JsError name message\<close>.
\<close>

datatype exn = JsError string string

text \<open>\<^verbatim>\<open>String(err)\<close> of an Error object (\<^verbatim>\<open>Error.prototype.toString\<close>):
  \<^verbatim>\<open>name: message\<close>, the name alone when the message is empty, the message alone
  when the name is.\<close>

definition exn_string :: "exn \<Rightarrow> string" where
  "exn_string e = (case e of JsError n m \<Rightarrow> if n = [] then m else if m = [] then n else n @ '': '' @ m)"

datatype req_body = NoBody | FormBody "(string \<times> string) list" | TextBody string

record fetch_req =
  fr_url :: string
  fr_method :: string
  fr_headers :: "(string \<times> string) list"
  fr_body :: req_body

record fetch_resp =
  fr_status :: int
  fr_text :: string

record worker_env =
  google_client_id :: "string option"
  google_client_secret :: "string option"
  tokens_bound :: bool
  gemini_api_url :: "string option"
  gemini_api_key :: "string option"
  net :: "fetch_req list \<Rightarrow> fetch_req \<Rightarrow> string + fetch_resp"
  uuid_of :: "nat \<Rightarrow> string"

record wstate =
  kv :: "string \<rightharpoonup> string"
  uuid_ctr :: nat
  clock :: int
  sent :: "fetch_req list"

type_synonym 'a wm = "(exn, wstate, 'a) est"

record request =
  rq_origin :: string
  rq_path :: string
  rq_params :: "(string \<times> string) list"
  rq_method :: string
  rq_cookie :: "string option"
  rq_body :: string

record response =
  rs_status :: int
  rs_body :: string
  rs_headers :: "(string \<times> string) list"

subsection \<open>Values of \<^verbatim>\<open>env\<close>\<close>

text \<open>An unset binding reads as \<^verbatim>\<open>undefined\<close>; interpolated or form-encoded it prints so.\<close>

definition env_str :: "string option \<Rightarrow> string" where
  "env_str v = (case v of None \<Rightarrow> ''undefined'' | Some s \<Rightarrow> s)"

definition env_truthy :: "string option \<Rightarrow> bool" where
  "env_truthy v \<longleftrightarrow> v \<noteq> None \<and> v \<noteq> Some []"

subsection \<open>Primitive operations\<close>

definition type_error :: "string \<Rightarrow> exn" where
  "type_error m = JsError ''TypeError'' m"

text \<open>\<^verbatim>\<open>v.k\<close>: reading a property of \<^verbatim>\<open>null\<close> throws; of an object, looks it up;
  of any other value, gives \<^verbatim>\<open>undefined\<close> (the worker reads no property of those that
  exists).\<close>

definition get_prop :: "jval \<Rightarrow> string \<Rightarrow> (exn, 's, jval option) est" where
  "get_prop v k = (if v = JNull then st_throw (type_error (''Cannot read properties of null (reading '' @ k @ '')''))
               else st_return (jget v k))"

text \<open>\<^verbatim>\<open>await fetch(req)\<close>: the request is sent (and logged) whatever the outcome; a
  network failure rejects with a \<^verbatim>\<open>TypeError\<close>.\<close>

definition fetch :: "worker_env \<Rightarrow> fetch_req \<Rightarrow> fetch_resp wm" where
  "fetch env r = (\<lambda>s.
     (case net env (sent s) r of
        Inl m \<Rightarrow> Inl (type_error m)
      | Inr resp \<Rightarrow> Inr resp, s\<lparr>sent := sent s @ [r]\<rparr>))"

definition json_syntax_error :: exn where
  "json_syntax_error = JsError ''SyntaxError'' ''Unexpected token in JSON''"

text \<open>\<^verbatim>\<open>JSON.parse(text)\<close> and \<^verbatim>\<open>await res.json()\<close>.\<close>

definition parse_json :: "string \<Rightarrow> (exn, 's, jval) est" where
  "parse_json t = (case json_parse t of None \<Rightarrow> st_throw json_syntax_error | Some v \<Rightarrow> st_return v)"

definition res_json :: "fetch_resp \<Rightarrow> jval wm" where
  "res_json r = parse_json (fr_text r)"

definition res_text :: "fetch_resp \<Rightarrow> string wm" where
  "res_text r = st_return (fr_text r)"

text \<open>\<^verbatim>\<open>await env.TOKENS.get(k)\<close> and \<^verbatim>\<open>await env.TOKENS.put(k, v)\<close>; a value that
  is not a string is refused with a \<^verbatim>\<open>TypeError\<close>.\<close>

definition kv_get :: "string \<Rightarrow> string option wm" where
  "kv_get k = st_gets (\<lambda>s. kv s k)"

definition kv_put :: "string \<Rightarrow> string \<Rightarrow> unit wm" where
  "kv_put k v = st_modify (\<lambda>s. s\<lparr>kv := (kv s)(k \<mapsto> v)\<rparr>)"

definition kv_put_value :: "string \<Rightarrow> jval \<Rightarrow> unit wm" where
  "kv_put_value k v = (case v of
      JStr x \<Rightarrow> kv_put k x
    | _ \<Rightarrow> st_throw (type_error ''KV put() accepts only strings, ArrayBuffers, ArrayBufferViews, and ReadableStreams as values.''))"

definition random_uuid :: "worker_env \<Rightarrow> string wm" where
  "random_uuid env = (\<lambda>s. (Inr (uuid_of env (uuid_ctr s)), s\<lparr>uuid_ctr := Suc (uuid_ctr s)\<rparr>))"

definition date_now :: "int wm" where
  "date_now = st_gets clock"

text \<open>\<^verbatim>\<open>url.searchParams.get(k)\<close>: the first value of the parameter, or \<^verbatim>\<open>null\<close>.\<close>

definition param_get :: "request \<Rightarrow> string \<Rightarrow> string option" where
  "param_get r k = map_of (rq_params r) k"

definition str_truthy :: "string option \<Rightarrow> bool" where
  "str_truthy v \<longleftrightarrow> v \<noteq> None \<and> v \<noteq> Some []"

subsection \<open>Responses\<close>

definition text_response :: "int \<Rightarrow> string \<Rightarrow> response" where
  "text_response st b = \<lparr>rs_status = st, rs_body = b, rs_headers = []\<rparr>"

definition json_response :: "int \<Rightarrow> string \<Rightarrow> response" where
  "json_response st b = \<lparr>rs_status = st, rs_body = b, rs_headers = [(''Content-Type'', ''application/json'')]\<rparr>"

definition redirect_response :: "string \<Rightarrow> int \<Rightarrow> response" where
  "redirect_response u st = \<lparr>rs_status = st, rs_body = [], rs_headers = [(''Location'', u)]\<rparr>"

subsection \<open>\<^verbatim>\<open>encodeURIComponent\<close>\<close>

text \<open>Every byte of the UTF-8 text except the unreserved marks is percent-encoded with
  upper-case hex digits (an Isabelle \<open>char\<close> is a byte).\<close>

definition uri_unreserved :: "char \<Rightarrow> bool" where
  "uri_unreserved c \<longleftrightarrow>
     (let n = (of_char c :: nat) in
      (65 \<le> n \<and> n \<le> 90) \<or> (97 \<le> n \<and> n \<le> 122) \<or> (48 \<le> n \<and> n \<le> 57) \<or>
      c \<in> set ''-_.!~*()'' \<or> c = CHR 0x27)"

definition hex_upper :: "nat \<Rightarrow> char" where
  "hex_upper k = (if k < 10 then char_of (48 + k) else char_of (55 + k))"

definition uri_encode :: "string \<Rightarrow> string" where
  "uri_encode s = concat (map (\<lambda>c. if uri_unreserved c then [c]
     else [CHR ''%'', hex_upper (of_char c div 16), hex_upper (of_char c mod 16)]) s)"

subsection \<open>Effects of the primitives\<close>

named_theorems rt_simps "effects of the runtime primitives"

lemma fetch_apply [rt_simps]:
  "fetch env r s = (case net env (sent s) r of Inl m \<Rightarrow> Inl (type_error m) | Inr resp \<Rightarrow> Inr resp,
                    s\<lparr>sent := sent s @ [r]\<rparr>)"
  by (simp add: fetch_def)

lemma fetch_Inr [rt_simps]:
  "net env (sent s) r = Inr resp \<Longrightarrow> fetch env r s = (Inr resp, s\<lparr>sent := sent s @ [r]\<rparr>)"
  by (simp add: fetch_def)

lemma fetch_Inl [rt_simps]:
  "net env (sent s) r = Inl m \<Longrightarrow> fetch env r s = (Inl (type_error m), s\<lparr>sent := sent s @ [r]\<rparr>)"
  by (simp add: fetch_def)

lemma parse_json_apply [rt_simps]:
  "parse_json t s = (case json_parse t of None \<Rightarrow> (Inl json_syntax_error, s) | Some v \<Rightarrow> (Inr v, s))"
  by (simp add: parse_json_def split: option.split)

lemma get_prop_apply [rt_simps]:
  "get_prop v k s = (if v = JNull then (Inl (type_error (''Cannot read properties of null (reading '' @ k @ '')'')), s)
                 else (Inr (jget v k), s))"
  by (simp add: get_prop_def)

lemma kv_get_apply [rt_simps]: "kv_get k s = (Inr (kv s k), s)"
  by (simp add: kv_get_def)

lemma kv_put_apply [rt_simps]: "kv_put k v s = (Inr (), s\<lparr>kv := (kv s)(k \<mapsto> v)\<rparr>)"
  by (simp add: kv_put_def)

lemma random_uuid_apply [rt_simps]:
  "random_uuid env s = (Inr (uuid_of env (uuid_ctr s)), s\<lparr>uuid_ctr := Suc (uuid_ctr s)\<rparr>)"
  by (simp add: random_uuid_def)

lemma date_now_apply [rt_simps]: "date_now s = (Inr (clock s), s)"
  by (simp add: date_now_def)

lemma res_text_apply [rt_simps]: "res_text r s = (Inr (fr_text r), s)"
  by (simp add: res_text_def)

lemma res_json_eq [rt_simps]: "res_json r = parse_json (fr_text r)"
  by (simp add: res_json_def)

lemma pres_get_prop [st_ok_rules]: "st_pres P (get_prop v k)"
  by (rule st_pres_same) (simp add: get_prop_apply)

lemma pres_parse_json [st_ok_rules]: "st_pres P (parse_json t)"
  by (rule st_pres_same) (simp add: parse_json_apply split: option.split)

end
