(* ===== verification/Store.thy ===== *)
theory Store
  imports Runtime
begin

text \<open>
  The Token Store: the \<^verbatim>\<open>TOKENS\<close> namespace as the worker lays it out. A token
  record of an identity lives under \<^verbatim>\<open>google:<email>\<close> as the JSON text of an object
  (lines 60 and 117 of \<^verbatim>\<open>src/worker/index.js\<close>); a session lives under
  \<^verbatim>\<open>session:<id>\<close> as the bare email (line 66). The two prefixes differ in their first
  character, so the two kinds of key never collide, and each prefix determines its suffix.
\<close>

definition token_key :: "jval \<Rightarrow> string" where
  "token_key email = ''google:'' @ js_str email"

definition session_key :: "string \<Rightarrow> string" where
  "session_key sid = ''session:'' @ sid"

lemma token_key_neq_session_key [simp]: "token_key e \<noteq> session_key sid"
  by (simp add: token_key_def session_key_def)

lemma session_key_neq_token_key [simp]: "session_key sid \<noteq> token_key e"
  by (simp add: token_key_def session_key_def)

lemma session_key_inj [simp]: "(session_key a = session_key b) = (a = b)"
  by (simp add: session_key_def)

lemma token_key_JStr: "token_key (JStr e) = ''google:'' @ e"
  by (simp add: token_key_def)

end
