(* ===== verification/Cookie.thy ===== *)
theory Cookie
  imports Runtime
begin

text \<open>
  The session cookie. The callback (\<^verbatim>\<open>src/worker/index.js\<close> line 70) sets
  \<^verbatim>\<open>ca_session=<id>; Path=/; Secure; HttpOnly; SameSite=Lax; Max-Age=2592000\<close>; the
  Drive and chat handlers (lines 88 and 140) read it back from the \<^verbatim>\<open>Cookie\<close> header
  with the regular expression \<^verbatim>\<open>/(?:^|; )ca_session=([^;]+)/\<close>.
  \<open>cookie_session\<close> is that regular expression as a leftmost-first scan:
  \<open>session_at\<close> is the match of \<^verbatim>\<open>ca_session=([^;]+)\<close> at one position (the
  capture is greedy, so it is the longest run of non-\<^verbatim>\<open>;\<close> characters, and it must
  not be empty), \<open>session_scan\<close> tries the alternative \<^verbatim>\<open>; \<close> at every position
  from left to right, and \<open>cookie_session\<close> first tries the anchor \<^verbatim>\<open>^\<close> at
  position 0. Its specification \<open>cookie_lookup\<close> reads the header as the browser
  writes it, a list of \<open>name=value\<close> pairs joined by \<^verbatim>\<open>; \<close>: the value of the
  first pair named \<^verbatim>\<open>ca_session\<close> whose value is not empty.
\<close>

definition session_cookie_name :: string where
  "session_cookie_name = ''ca_session''"

definition session_at :: "string \<Rightarrow> string option" where
  "session_at s =
     (if take 11 s = ''ca_session=''
      then (let v = takeWhile (\<lambda>c. c \<noteq> CHR '';'') (drop 11 s) in if v = [] then None else Some v)
      else None)"

fun session_scan :: "string \<Rightarrow> string option" where
  "session_scan [] = None"
| "session_scan (c # cs) =
     (if c = CHR '';'' \<and> take 1 cs = '' '' \<and> session_at (drop 1 cs) \<noteq> None
      then session_at (drop 1 cs) else session_scan cs)"

definition cookie_session :: "string \<Rightarrow> string option" where
  "cookie_session h = (case session_at h of Some v \<Rightarrow> Some v | None \<Rightarrow> session_scan h)"

text \<open>\<^verbatim>\<open>request.headers.get('Cookie') || ''\<close> followed by the match.\<close>

definition request_session :: "request \<Rightarrow> string option" where
  "request_session r = cookie_session (case rq_cookie r of None \<Rightarrow> [] | Some h \<Rightarrow> h)"

text \<open>The \<^verbatim>\<open>Set-Cookie\<close> value of line 70; \<^verbatim>\<open>60*60*24*30\<close> is thirty days in seconds.\<close>

definition session_max_age :: nat where
  "session_max_age = 60 * 60 * 24 * 30"

definition set_cookie_value :: "string \<Rightarrow> string" where
  "set_cookie_value sid =
     ''ca_session='' @ sid @ ''; Path=/; Secure; HttpOnly; SameSite=Lax; Max-Age='' @ nat_str session_max_age"

subsection \<open>Specification: the header as the browser sends it\<close>

definition cookie_header :: "(string \<times> string) list \<Rightarrow> string" where
  "cookie_header cs = js_join ''; '' (map (\<lambda>(n, v). n @ ''='' @ v) cs)"

definition cookie_lookup :: "(string \<times> string) list \<Rightarrow> string option" where
  "cookie_lookup cs = map_option snd (find (\<lambda>(n, v). n = ''ca_session'' \<and> v \<noteq> []) cs)"

text \<open>A pair the browser can send: no \<^verbatim>\<open>;\<close> anywhere, no \<^verbatim>\<open>=\<close> in the name.\<close>

definition cookie_pair_ok :: "string \<times> string \<Rightarrow> bool" where
  "cookie_pair_ok p \<longleftrightarrow> CHR '';'' \<notin> set (fst p) \<and> CHR '';'' \<notin> set (snd p) \<and> CHR ''='' \<notin> set (fst p)"

text \<open>The pair a browser stores from a \<^verbatim>\<open>Set-Cookie\<close> value: the text before the first
  \<^verbatim>\<open>;\<close>, split at the first \<^verbatim>\<open>=\<close>.\<close>

definition set_cookie_pair :: "string \<Rightarrow> string \<times> string" where
  "set_cookie_pair h =
     (let p = takeWhile (\<lambda>c. c \<noteq> CHR '';'') h
      in (takeWhile (\<lambda>c. c \<noteq> CHR ''='') p, drop 1 (dropWhile (\<lambda>c. c \<noteq> CHR ''='') p)))"

subsection \<open>The scan against the lookup\<close>

lemma take_name_eq:
  assumes "CHR ''='' \<notin> set n"
  shows "take 11 (n @ CHR ''='' # t) = ''ca_session='' \<longleftrightarrow> n = ''ca_session''"
proof
  assume h: "take 11 (n @ CHR ''='' # t) = ''ca_session=''"
  consider "length n < 10" | "length n = 10" | "length n > 10" by linarith
  then show "n = ''ca_session''"
  proof cases
    case 1
    then have "take 11 (n @ CHR ''='' # t) ! length n = CHR ''=''" by (simp add: nth_append take_Cons')
    then have "''ca_session='' ! length n = CHR ''=''" using h by simp
    with 1 show ?thesis by (simp add: nth_Cons' split: if_splits)
  next
    case 2
    then have "take 10 (take 11 (n @ CHR ''='' # t)) = n" by simp
    with h show ?thesis by simp
  next
    case 3
    then have "take 11 n = ''ca_session=''" using h by simp
    then have "CHR ''='' \<in> set n" by (metis in_set_takeD list.set_intros(1) set_ConsD append_Cons in_set_conv_decomp)
    with assms show ?thesis by simp
  qed
qed simp

lemma session_at_pair:
  assumes "cookie_pair_ok (n, v)" "rest = [] \<or> hd rest = CHR '';''"
  shows "session_at (n @ ''='' @ v @ rest) = (if n = ''ca_session'' \<and> v \<noteq> [] then Some v else None)"
proof (cases "n = ''ca_session''")
  case True
  have v: "\<And>x. x \<in> set v \<Longrightarrow> x \<noteq> CHR '';''" using assms(1) by (auto simp: cookie_pair_ok_def)
  have "takeWhile (\<lambda>c. c \<noteq> CHR '';'') (v @ rest) = v"
  proof (cases rest)
    case Nil
    then show ?thesis using v by (simp add: takeWhile_all)
  next
    case (Cons a list)
    then show ?thesis using assms(2) takeWhile_append_stop [of v "\<lambda>c. c \<noteq> CHR '';''" a list] v by simp
  qed
  with True show ?thesis by (simp add: session_at_def)
next
  case False
  then have "take 11 (n @ CHR ''='' # v @ rest) \<noteq> ''ca_session=''"
    using take_name_eq [of n "v @ rest"] assms(1) by (simp add: cookie_pair_ok_def)
  with False show ?thesis by (simp add: session_at_def)
qed

lemma session_scan_skip: "CHR '';'' \<notin> set xs \<Longrightarrow> session_scan (xs @ ys) = session_scan ys"
  by (induction xs) auto

lemma session_scan_sep: "session_scan (''; '' @ h) = cookie_session h"
  by (simp add: cookie_session_def split: option.split)

text \<open>C10: On every header the browser can send (pairs without \<^verbatim>\<open>;\<close>, names without
  \<^verbatim>\<open>=\<close>, joined by \<^verbatim>\<open>; \<close>), the worker's regular expression finds exactly the value of
  the first \<^verbatim>\<open>ca_session\<close> pair with a non-empty value: the scan is equivalent to the
  lookup.\<close>

theorem cookie_session_lookup:
  "list_all cookie_pair_ok cs \<Longrightarrow> cookie_session (cookie_header cs) = cookie_lookup cs"
proof (induction cs)
  case Nil
  then show ?case by (simp add: cookie_header_def cookie_session_def session_at_def cookie_lookup_def)
next
  case (Cons c cs)
  obtain n v where c: "c = (n, v)" by (cases c)
  have ok: "cookie_pair_ok (n, v)" and oks: "list_all cookie_pair_ok cs" using Cons.prems c by simp_all
  have noscol: "CHR '';'' \<notin> set (n @ ''='' @ v)" using ok by (simp add: cookie_pair_ok_def)
  have look: "cookie_lookup ((n, v) # cs) = (if n = ''ca_session'' \<and> v \<noteq> [] then Some v else cookie_lookup cs)"
    by (simp add: cookie_lookup_def)
  show ?case
  proof (cases "cs = []")
    case True
    have "session_at (n @ ''='' @ v @ []) = (if n = ''ca_session'' \<and> v \<noteq> [] then Some v else None)"
      by (rule session_at_pair [OF ok]) simp
    moreover have "session_scan (n @ ''='' @ v) = None"
      using session_scan_skip [OF noscol, of "[]"] by simp
    ultimately show ?thesis using True c look
      by (simp add: cookie_header_def cookie_session_def cookie_lookup_def)
  next
    case False
    let ?h = "cookie_header cs"
    have hdr: "cookie_header ((n, v) # cs) = n @ ''='' @ v @ ''; '' @ ?h"
      using False by (simp add: cookie_header_def js_join_Cons)
    have "session_at (n @ ''='' @ v @ ''; '' @ ?h) = (if n = ''ca_session'' \<and> v \<noteq> [] then Some v else None)"
      by (rule session_at_pair [OF ok]) simp
    moreover have "session_scan ((n @ ''='' @ v) @ ''; '' @ ?h) = cookie_session ?h"
      using session_scan_skip [OF noscol] session_scan_sep by simp
    ultimately show ?thesis using Cons.IH oks c look hdr
      by (simp add: cookie_session_def split: option.split)
  qed
qed

lemma cookie_header_append:
  "cookie_header (cs1 @ cs2) =
     (if cs1 = [] then cookie_header cs2 else if cs2 = [] then cookie_header cs1
      else cookie_header cs1 @ ''; '' @ cookie_header cs2)"
  by (induction cs1 rule: induct_list012) (auto simp: cookie_header_def js_join_Cons)

lemma cookie_prefix_skip:
  "list_all cookie_pair_ok cs \<Longrightarrow> cookie_lookup cs = None \<Longrightarrow> cs \<noteq> [] \<Longrightarrow>
   cookie_session (cookie_header cs @ ''; '' @ h) = cookie_session h"
proof (induction cs)
  case Nil
  then show ?case by simp
next
  case (Cons c cs)
  obtain n v where c: "c = (n, v)" by (cases c)
  have ok: "cookie_pair_ok (n, v)" using Cons.prems c by simp
  have nm: "\<not> (n = ''ca_session'' \<and> v \<noteq> [])" and rest: "cookie_lookup cs = None"
    using Cons.prems(2) c by (auto simp: cookie_lookup_def split: if_splits)
  have noscol: "CHR '';'' \<notin> set (n @ ''='' @ v)" using ok by (simp add: cookie_pair_ok_def)
  show ?case
  proof (cases "cs = []")
    case True
    have "session_at (n @ ''='' @ v @ ''; '' @ h) = None"
      using session_at_pair [OF ok, of "''; '' @ h"] nm by simp
    moreover have "session_scan ((n @ ''='' @ v) @ ''; '' @ h) = cookie_session h"
      using session_scan_skip [OF noscol] session_scan_sep by simp
    ultimately show ?thesis using True c by (simp add: cookie_header_def cookie_session_def)
  next
    case False
    let ?t = "cookie_header cs @ ''; '' @ h"
    have hdr: "cookie_header ((n, v) # cs) @ ''; '' @ h = n @ ''='' @ v @ ''; '' @ ?t"
      using False by (simp add: cookie_header_def js_join_Cons)
    have "session_at (n @ ''='' @ v @ ''; '' @ ?t) = None"
      using session_at_pair [OF ok, of "''; '' @ ?t"] nm by simp
    moreover have "session_scan ((n @ ''='' @ v) @ ''; '' @ ?t) = cookie_session ?t"
      using session_scan_skip [OF noscol] session_scan_sep by simp
    ultimately show ?thesis using Cons.IH Cons.prems(1) rest False c hdr
      by (simp add: cookie_session_def)
  qed
qed

lemma set_cookie_pair_value:
  "CHR '';'' \<notin> set sid \<Longrightarrow> set_cookie_pair (set_cookie_value sid) = (''ca_session'', sid)"
proof -
  assume a: "CHR '';'' \<notin> set sid"
  have t: "takeWhile (\<lambda>c. c \<noteq> CHR '';'') (sid @ CHR '';'' # x) = sid" for x
    using a by (intro takeWhile_append_stop) auto
  have "takeWhile (\<lambda>c. c \<noteq> CHR '';'') (set_cookie_value sid) = ''ca_session='' @ sid"
    by (simp add: set_cookie_value_def t)
  then show ?thesis by (simp add: set_cookie_pair_def)
qed

text \<open>C11: The cookie the callback sets, stored by the browser and sent back among other
  cookies, none of them an earlier non-empty \<^verbatim>\<open>ca_session\<close>, is read back by the worker as
  the same session id (any id without \<^verbatim>\<open>;\<close>, as a UUID is).\<close>

theorem session_cookie_roundtrip:
  "CHR '';'' \<notin> set sid \<Longrightarrow> sid \<noteq> [] \<Longrightarrow> list_all cookie_pair_ok (cs1 @ cs2) \<Longrightarrow> cookie_lookup cs1 = None \<Longrightarrow>
   cookie_session (cookie_header (cs1 @ set_cookie_pair (set_cookie_value sid) # cs2)) = Some sid"
proof -
  assume a: "CHR '';'' \<notin> set sid" "sid \<noteq> []" "list_all cookie_pair_ok (cs1 @ cs2)" "cookie_lookup cs1 = None"
  have ok: "cookie_pair_ok (''ca_session'', sid)" using a(1) by (simp add: cookie_pair_ok_def)
  let ?rest = "if cs2 = [] then [] else ''; '' @ cookie_header cs2"
  have first: "cookie_session (cookie_header ((''ca_session'', sid) # cs2)) = Some sid"
  proof -
    have "cookie_header ((''ca_session'', sid) # cs2) = ''ca_session'' @ ''='' @ sid @ ?rest"
      by (simp add: cookie_header_def js_join_Cons)
    moreover have "session_at (''ca_session'' @ ''='' @ sid @ ?rest) = Some sid"
      using session_at_pair [OF ok, of ?rest] a(2) by simp
    ultimately show ?thesis by (simp add: cookie_session_def)
  qed
  show ?thesis
  proof (cases "cs1 = []")
    case True
    then show ?thesis using first a(1) by (simp add: set_cookie_pair_value)
  next
    case False
    then have "cookie_header (cs1 @ (''ca_session'', sid) # cs2) =
               cookie_header cs1 @ ''; '' @ cookie_header ((''ca_session'', sid) # cs2)"
      by (simp add: cookie_header_append)
    then show ?thesis using cookie_prefix_skip [of cs1] a False first by (simp add: set_cookie_pair_value)
  qed
qed

end
