(* ===== verification/OAuth.thy ===== *)
theory OAuth
  imports Store Cookie
begin

text \<open>
  The OAuth Flow Controller: the routes \<^verbatim>\<open>/auth/google/start\<close> (lines 11-20 of
  \<^verbatim>\<open>src/worker/index.js\<close>) and \<^verbatim>\<open>/auth/google/callback\<close> (lines 22-82).
  \<open>handle_start\<close> draws a UUID as the OAuth \<^verbatim>\<open>state\<close> and redirects to Google's
  consent screen. \<open>handle_callback\<close> exchanges the authorization code at the token
  endpoint, fetches the user's profile, stores the token record under
  \<^verbatim>\<open>google:<email>\<close>, draws a second UUID as the session id, stores
  \<^verbatim>\<open>session:<id>\<close>, and answers with the page that notifies the opener and the
  session cookie. The \<^verbatim>\<open>state\<close> parameter is read (line 25) and never used.
\<close>

definition google_auth_endpoint :: string where
  "google_auth_endpoint = ''https://accounts.google.com/o/oauth2/v2/auth''"

definition google_token_endpoint :: string where
  "google_token_endpoint = ''https://oauth2.googleapis.com/token''"

definition google_userinfo_endpoint :: string where
  "google_userinfo_endpoint = ''https://www.googleapis.com/oauth2/v3/userinfo''"

definition callback_uri :: "request \<Rightarrow> string" where
  "callback_uri r = rq_origin r @ ''/auth/google/callback''"

definition oauth_scope :: string where
  "oauth_scope = ''openid email profile https://www.googleapis.com/auth/drive.readonly''"

subsection \<open>Start\<close>

definition auth_url :: "worker_env \<Rightarrow> request \<Rightarrow> string \<Rightarrow> string" where
  "auth_url env r st =
     google_auth_endpoint @ ''?client_id='' @ uri_encode (env_str (google_client_id env)) @
     ''&redirect_uri='' @ uri_encode (callback_uri r) @
     ''&response_type=code&scope='' @ uri_encode oauth_scope @
     ''&access_type=offline&prompt=consent&state='' @ uri_encode st"

definition handle_start :: "worker_env \<Rightarrow> request \<Rightarrow> response wm" where
  "handle_start env r =
     st_bind (random_uuid env) (\<lambda>st. st_return (redirect_response (auth_url env r st) 302))"

subsection \<open>Callback\<close>

definition token_exchange_req :: "worker_env \<Rightarrow> request \<Rightarrow> string \<Rightarrow> fetch_req" where
  "token_exchange_req env r code =
     \<lparr>fr_url = google_token_endpoint, fr_method = ''POST'',
      fr_headers = [(''Content-Type'', ''application/x-www-form-urlencoded'')],
      fr_body = FormBody [(''code'', code), (''client_id'', env_str (google_client_id env)),
        (''client_secret'', env_str (google_client_secret env)), (''redirect_uri'', callback_uri r),
        (''grant_type'', ''authorization_code'')]\<rparr>"

text \<open>The \<^verbatim>\<open>Authorization\<close> header \<^verbatim>\<open>`Bearer ${t}`\<close>.\<close>

definition bearer :: "jval option \<Rightarrow> (string \<times> string) list" where
  "bearer t = [(''Authorization'', ''Bearer '' @ js_string_of t)]"

definition userinfo_req :: "jval option \<Rightarrow> fetch_req" where
  "userinfo_req at =
     \<lparr>fr_url = google_userinfo_endpoint, fr_method = ''GET'', fr_headers = bearer at, fr_body = NoBody\<rparr>"

text \<open>\<^verbatim>\<open>userJson.email || userJson.sub || 'unknown'\<close> (line 47); \<^verbatim>\<open>sub\<close> is read only
  when \<^verbatim>\<open>email\<close> is falsy.\<close>

definition resolve_email :: "jval \<Rightarrow> jval wm" where
  "resolve_email u =
     st_bind (get_prop u ''email'') (\<lambda>e.
       if js_truthy e then st_return (the e)
       else st_bind (get_prop u ''sub'') (\<lambda>sub.
         st_return (if js_truthy sub then the sub else JStr ''unknown'')))"

text \<open>The object \<^verbatim>\<open>save\<close> of lines 50-57; a field the provider did not send is
  \<^verbatim>\<open>undefined\<close> and left out.\<close>

definition token_record :: "jval \<Rightarrow> jval \<Rightarrow> int \<Rightarrow> jval" where
  "token_record email tj now =
     obj_lit [(''email'', Some email), (''access_token'', jget tj ''access_token''),
              (''refresh_token'', jget tj ''refresh_token''), (''scope'', jget tj ''scope''),
              (''expires_in'', jget tj ''expires_in''), (''obtained_at'', Some (JNum now))]"

text \<open>The page of lines 71-79, with \<^verbatim>\<open>${JSON.stringify(email)}\<close> and \<^verbatim>\<open>${email}\<close>
  interpolated.\<close>

definition nl :: string where
  "nl = [CHR 0x0A]"

definition callback_page :: "jval \<Rightarrow> string" where
  "callback_page email =
     ''<!doctype html><html><head><meta charset=\"utf-8\"><title>Auth complete</title></head><body>'' @ nl @
     ''        <script>'' @ nl @
     ''          try {'' @ nl @
     ''            window.opener.postMessage({ type: 'cloudassistant:gauth', email: '' @
       json_stringify email @ '' }, '*');'' @ nl @
     ''          } catch(e) {}'' @ nl @
     ''          document.write('Authentication successful for '' @ js_str email @
       ''. You can close this window.');'' @ nl @
     ''          setTimeout(()=>window.close(), 1200);'' @ nl @
     ''        </script>'' @ nl @
     ''        </body></html>''"

definition callback_response :: "jval \<Rightarrow> string \<Rightarrow> response" where
  "callback_response email sid =
     \<lparr>rs_status = 200, rs_body = callback_page email,
      rs_headers = [(''Content-Type'', ''text/html''), (''Set-Cookie'', set_cookie_value sid)]\<rparr>"

definition handle_callback :: "worker_env \<Rightarrow> request \<Rightarrow> response wm" where
  "handle_callback env r =
     (let code = param_get r ''code''; state = param_get r ''state'' in
      if \<not> str_truthy code then st_return (text_response 400 ''Missing code'')
      else
        st_bind (fetch env (token_exchange_req env r (the code))) (\<lambda>tokenRes.
        st_bind (res_json tokenRes) (\<lambda>tokenJson.
        st_bind (get_prop tokenJson ''error'') (\<lambda>err.
        if js_truthy err then st_return (json_response 500 (json_stringify tokenJson))
        else
          st_bind (get_prop tokenJson ''access_token'') (\<lambda>accessToken.
          st_bind (fetch env (userinfo_req accessToken)) (\<lambda>userRes.
          st_bind (res_json userRes) (\<lambda>userJson.
          st_bind (resolve_email userJson) (\<lambda>email.
          st_bind date_now (\<lambda>now.
          st_bind (st_when (tokens_bound env)
                     (kv_put (token_key email) (json_stringify (token_record email tokenJson now)))) (\<lambda>_.
          st_bind (random_uuid env) (\<lambda>sessionId.
          st_bind (st_when (tokens_bound env) (kv_put_value (session_key sessionId) email)) (\<lambda>_.
          st_return (callback_response email sessionId)))))))))))))"

subsection \<open>Properties of the callback\<close>

text \<open>
  \<^verbatim>\<open>userJson.email || userJson.sub || 'unknown'\<close>, every branch: a \<^verbatim>\<open>null\<close>
  profile throws, otherwise the first truthy of the two fields, else \<^verbatim>\<open>'unknown'\<close>.
\<close>

lemma resolve_email_result:
  "resolve_email u s =
     (if u = JNull then (Inl (type_error ''Cannot read properties of null (reading email)''), s)
      else (Inr (if js_truthy (jget u ''email'') then the (jget u ''email'')
                 else if js_truthy (jget u ''sub'') then the (jget u ''sub'') else JStr ''unknown''), s))"
  by (simp add: resolve_email_def rt_simps)

text \<open>
  C12: without a (non-empty) \<^verbatim>\<open>code\<close> parameter the callback answers 400
  \<^verbatim>\<open>Missing code\<close> and changes nothing: no request is sent, no UUID drawn, no key
  written.
\<close>

theorem callback_missing_code:
  "\<not> str_truthy (param_get r ''code'') \<Longrightarrow>
   handle_callback env r s = (Inr (text_response 400 ''Missing code''), s)"
  by (simp add: handle_callback_def)

text \<open>
  C13: when the token endpoint answers with a truthy \<^verbatim>\<open>error\<close>, the callback answers
  500 with the provider's JSON re-serialised, after exactly one request (the code
  exchange), and writes nothing to the store.
\<close>

theorem callback_token_error:
  assumes "param_get r ''code'' = Some c" "c \<noteq> []"
    and "net env (sent s) (token_exchange_req env r c) = Inr rtok"
    and "json_parse (fr_text rtok) = Some tj" "js_truthy (jget tj ''error'')"
  shows "handle_callback env r s =
           (Inr (json_response 500 (json_stringify tj)), s\<lparr>sent := sent s @ [token_exchange_req env r c]\<rparr>)"
proof -
  have "tj \<noteq> JNull" using assms(5) by auto
  then show ?thesis
    using assms by (simp add: handle_callback_def str_truthy_def rt_simps)
qed

text \<open>
  C7: the callback's whole behaviour (response, store, requests sent, UUIDs drawn)
  depends on the request only through its origin and its \<^verbatim>\<open>code\<close> parameter; in
  particular the OAuth \<^verbatim>\<open>state\<close> that \<^verbatim>\<open>start\<close> issued is never checked, so a
  callback carrying a forged or missing \<^verbatim>\<open>state\<close> completes the same way.
\<close>

theorem callback_ignores_state:
  assumes "rq_origin ra = rq_origin rb" and "param_get ra ''code'' = param_get rb ''code''"
  shows "handle_callback env ra = handle_callback env rb"
  using assms by (simp add: handle_callback_def token_exchange_req_def callback_uri_def Let_def)

text \<open>
  C1: a callback with a code that the provider exchanges without error, whose profile
  carries an email, with the store bound: the response is the notification page with the
  cookie \<^verbatim>\<open>ca_session=<id>\<close>, where \<open>id\<close> is the next UUID; the store gains
  exactly the token record under \<^verbatim>\<open>google:<email>\<close> and the session
  \<^verbatim>\<open>session:<id>\<close> \<open>\<mapsto>\<close> email; exactly two requests are sent, the code exchange
  and the profile fetch with the new access token, in that order.
\<close>

theorem callback_stores_token_and_session:
  assumes code: "param_get r ''code'' = Some c" "c \<noteq> []"
    and tok: "net env (sent s) (token_exchange_req env r c) = Inr rtok"
      "json_parse (fr_text rtok) = Some tj" "tj \<noteq> JNull" "\<not> js_truthy (jget tj ''error'')"
    and usr: "net env (sent s @ [token_exchange_req env r c]) (userinfo_req (jget tj ''access_token'')) = Inr rusr"
      "json_parse (fr_text rusr) = Some uj" "jget uj ''email'' = Some (JStr e)" "e \<noteq> []"
    and bound: "tokens_bound env"
  shows "handle_callback env r s =
     (Inr (callback_response (JStr e) (uuid_of env (uuid_ctr s))),
      s\<lparr>kv := (kv s)(''google:'' @ e \<mapsto> json_stringify (token_record (JStr e) tj (clock s)),
                    session_key (uuid_of env (uuid_ctr s)) \<mapsto> e),
        uuid_ctr := Suc (uuid_ctr s),
        sent := sent s @ [token_exchange_req env r c, userinfo_req (jget tj ''access_token'')]\<rparr>)"
proof -
  have "uj \<noteq> JNull" using usr(3) by auto
  then show ?thesis
    using code tok usr bound
    by (simp add: handle_callback_def str_truthy_def rt_simps resolve_email_def kv_put_value_def token_key_JStr)
qed

end
