(* ===== verification/Drive.thy ===== *)
theory Drive
  imports OAuth
begin

text \<open>
  The Session Resolver and the Resource Proxy's file listing:
  \<^verbatim>\<open>/api/drive/list\<close> (lines 84-128 of \<^verbatim>\<open>src/worker/index.js\<close>) and
  \<^verbatim>\<open>refreshGoogleToken\<close> (lines 204-224).
  \<open>session_email\<close> resolves the \<^verbatim>\<open>ca_session\<close> cookie to the email stored under
  \<^verbatim>\<open>session:<id>\<close> (lines 86-94). \<open>handle_drive_list\<close> falls back to the
  \<^verbatim>\<open>email\<close> query parameter, loads the token record, lists the files, and on a 401
  with a refresh token runs \<open>refresh_and_retry\<close> once: \<open>refresh_google_token\<close>,
  the merge of the renewed credential into the record (\<open>merge_refreshed\<close>), the write
  back to the store and one more listing. A failure anywhere in that block is answered
  with 500 and the exception's text; the listing's JSON is returned with status 200
  whatever the listing's own status was.
\<close>

subsection \<open>Session Resolver\<close>

definition session_email :: "worker_env \<Rightarrow> request \<Rightarrow> string option wm" where
  "session_email env r =
     (case request_session r of
        None \<Rightarrow> st_return None
      | Some sid \<Rightarrow> if tokens_bound env then kv_get (session_key sid) else st_return None)"

subsection \<open>\<^verbatim>\<open>refreshGoogleToken\<close>\<close>

definition refresh_req :: "worker_env \<Rightarrow> jval \<Rightarrow> fetch_req" where
  "refresh_req env rt =
     \<lparr>fr_url = google_token_endpoint, fr_method = ''POST'',
      fr_headers = [(''Content-Type'', ''application/x-www-form-urlencoded'')],
      fr_body = FormBody [(''client_id'', env_str (google_client_id env)),
        (''client_secret'', env_str (google_client_secret env)), (''refresh_token'', js_str rt),
        (''grant_type'', ''refresh_token'')]\<rparr>"

definition refresh_error :: "jval \<Rightarrow> exn" where
  "refresh_error j = JsError ''Error'' (''Refresh failed: '' @ json_stringify j)"

text \<open>The object returned by lines 218-223; \<^verbatim>\<open>json\<close> is not \<^verbatim>\<open>null\<close> there
  (reading \<^verbatim>\<open>json.error\<close> would have thrown), so its reads cannot throw.\<close>

definition refreshed_record :: "jval \<Rightarrow> jval \<Rightarrow> int \<Rightarrow> jval" where
  "refreshed_record j refreshToken now =
     obj_lit [(''access_token'', jget j ''access_token''),
              (''refresh_token'', js_or (jget j ''refresh_token'') (Some refreshToken)),
              (''expires_in'', jget j ''expires_in''), (''obtained_at'', Some (JNum now))]"

text \<open>The third argument, the redirect URI, is passed by the caller and never used.\<close>

definition refresh_google_token :: "worker_env \<Rightarrow> jval \<Rightarrow> string \<Rightarrow> jval wm" where
  "refresh_google_token env refreshToken redirectUri =
     st_bind (fetch env (refresh_req env refreshToken)) (\<lambda>res.
     st_bind (res_json res) (\<lambda>j.
     st_bind (get_prop j ''error'') (\<lambda>err.
     if js_truthy err then st_throw (refresh_error j)
     else st_bind date_now (\<lambda>now. st_return (refreshed_record j refreshToken now)))))"

subsection \<open>The listing\<close>

definition drive_list_url :: string where
  "drive_list_url = ''https://www.googleapis.com/drive/v3/files?pageSize=20&fields=files(id,name,mimeType,modifiedTime)''"

definition drive_list_req :: "jval option \<Rightarrow> fetch_req" where
  "drive_list_req at = \<lparr>fr_url = drive_list_url, fr_method = ''GET'', fr_headers = bearer at, fr_body = NoBody\<rparr>"

text \<open>\<^verbatim>\<open>Object.assign({}, token, {...})\<close> of lines 111-116: the own properties of the
  stored record (an object; the index properties a string or an array would contribute
  are not modelled), then the four renewed ones in the source's order.\<close>

definition assign_base :: "jval \<Rightarrow> (string \<times> jval) list" where
  "assign_base v = (case v of JObj kvs \<Rightarrow> kvs | _ \<Rightarrow> [])"

definition merge_refreshed :: "jval \<Rightarrow> jval \<Rightarrow> int \<Rightarrow> jval" where
  "merge_refreshed token refreshed now =
     JObj (obj_set (obj_set (obj_set (obj_set (assign_base token)
       ''access_token'' (jget refreshed ''access_token''))
       ''expires_in'' (jget refreshed ''expires_in''))
       ''obtained_at'' (Some (JNum now)))
       ''refresh_token'' (js_or (jget refreshed ''refresh_token'') (jget token ''refresh_token'')))"

text \<open>The body of the \<^verbatim>\<open>try\<close> of lines 108-119. Its value is the new listing
  response; an early \<^verbatim>\<open>return\<close> of the handler is \<open>Inl\<close>.\<close>

definition refresh_and_retry ::
  "worker_env \<Rightarrow> request \<Rightarrow> string \<Rightarrow> jval \<Rightarrow> jval \<Rightarrow> (response + fetch_resp) wm" where
  "refresh_and_retry env r email token rt =
     st_bind (refresh_google_token env rt (callback_uri r)) (\<lambda>refreshed.
     st_bind date_now (\<lambda>now.
     st_bind (st_when (tokens_bound env)
                (kv_put (''google:'' @ email) (json_stringify (merge_refreshed token refreshed now)))) (\<lambda>_.
     st_bind (fetch env (drive_list_req (jget (merge_refreshed token refreshed now) ''access_token''))) (\<lambda>filesRes.
     st_return (Inr filesRes)))))"

definition refresh_failed :: "exn \<Rightarrow> response" where
  "refresh_failed e = text_response 500 (''Failed to refresh Google token: '' @ exn_string e)"

definition handle_drive_list :: "worker_env \<Rightarrow> request \<Rightarrow> response wm" where
  "handle_drive_list env r =
     st_bind (session_email env r) (\<lambda>em.
     let email = (if str_truthy em then em else param_get r ''email'') in
     if \<not> str_truthy email
     then st_return (text_response 401 ''Missing authenticated session or email param'')
     else
       st_bind (if tokens_bound env then kv_get (''google:'' @ the email) else st_return None) (\<lambda>tokenRaw.
       if \<not> str_truthy tokenRaw
       then st_return (text_response 401 ''No tokens for this user. Authenticate first.'')
       else
         st_bind (parse_json (the tokenRaw)) (\<lambda>token.
         st_bind (get_prop token ''access_token'') (\<lambda>at.
         st_bind (fetch env (drive_list_req at)) (\<lambda>filesRes.
         st_bind (if fr_status filesRes = 401 then get_prop token ''refresh_token'' else st_return None) (\<lambda>rt.
         st_bind (if fr_status filesRes = 401 \<and> js_truthy rt
                  then st_catch (refresh_and_retry env r (the email) token (the rt))
                         (\<lambda>e. st_return (Inl (refresh_failed e)))
                  else st_return (Inr filesRes)) (\<lambda>res.
         case res of
           Inl resp \<Rightarrow> st_return resp
         | Inr filesRes' \<Rightarrow>
             st_bind (res_json filesRes') (\<lambda>filesJson.
             st_return (json_response 200 (json_stringify filesJson))))))))))"

subsection \<open>The merge of a renewed credential\<close>

text \<open>
  Field by field, the merged record is the stored one with the four renewed properties
  overwritten (an \<^verbatim>\<open>undefined\<close> value removing the property).
\<close>

lemma merge_refreshed_fields:
  "jget (merge_refreshed token refreshed now) =
     (jget token)(''access_token'' := jget refreshed ''access_token'',
                  ''expires_in'' := jget refreshed ''expires_in'',
                  ''obtained_at'' := Some (JNum now),
                  ''refresh_token'' := js_or (jget refreshed ''refresh_token'') (jget token ''refresh_token''))"
  by (rule ext) (simp add: merge_refreshed_def assign_base_def map_of_obj_set split: jval.split)

lemma merge_refreshed_access_token:
  "jget (merge_refreshed token (refreshed_record j rt now) now) ''access_token'' = jget j ''access_token''"
  by (simp add: merge_refreshed_fields refreshed_record_def jget_obj_lit)

text \<open>
  C4: the record written back after a refresh refines the token-record contract of the
  design (TokenRecord, section 3 of the spec): every property other than the access
  token, its lifetime, its issue time and the refresh token is kept (the email and the
  scope in particular); the access token and the lifetime are replaced wholesale by the
  provider's; the issue time is now; the refresh token is the provider's new one when it
  sent one and the stored one otherwise.
\<close>

theorem refresh_merge_refines:
  assumes "jget token ''refresh_token'' = Some rt" "js_truthy (Some rt)"
  shows "jget (merge_refreshed token (refreshed_record j rt now) now) =
     (jget token)(''access_token'' := jget j ''access_token'',
                  ''expires_in'' := jget j ''expires_in'',
                  ''obtained_at'' := Some (JNum now),
                  ''refresh_token'' := Some (if js_truthy (jget j ''refresh_token'')
                                             then the (jget j ''refresh_token'') else rt))"
  using assms
  by (auto simp: merge_refreshed_fields refreshed_record_def jget_obj_lit js_or_def js_truthy_the)

subsection \<open>The listing\<close>

text \<open>
  C2: a listing request whose cookie names no stored session (or that has no cookie)
  and that carries no \<^verbatim>\<open>email\<close> parameter is answered 401 and changes nothing.
\<close>

theorem drive_list_unauthenticated:
  assumes "\<not> str_truthy (param_get r ''email'')"
    and "case request_session r of None \<Rightarrow> True | Some sid \<Rightarrow> kv s (session_key sid) = None"
  shows "handle_drive_list env r s =
           (Inr (text_response 401 ''Missing authenticated session or email param''), s)"
  using assms
  by (auto simp: handle_drive_list_def session_email_def str_truthy_def rt_simps split: option.splits)

text \<open>
  C3: refresh-and-retry. When the stored access token of the session's identity is
  refused (401) and the record has a refresh token that the provider renews without
  error, the worker sends exactly three requests, in order: the listing, one refresh, one
  more listing with the renewed access token; it writes the merged record back under
  \<^verbatim>\<open>google:<email>\<close> and nothing else; and it answers 200 with the second listing's
  JSON.
\<close>

theorem drive_list_refresh_retry_once:
  assumes sess: "request_session r = Some sid" "kv s (session_key sid) = Some e" "e \<noteq> []"
      "tokens_bound env"
    and tok: "kv s (''google:'' @ e) = Some raw" "json_parse raw = Some (JObj kvs)"
    and first: "net env (sent s) (drive_list_req (map_of kvs ''access_token'')) = Inr rlist"
      "fr_status rlist = 401"
    and rt: "map_of kvs ''refresh_token'' = Some rt" "js_truthy (Some rt)"
    and refresh: "net env (sent s @ [drive_list_req (map_of kvs ''access_token'')]) (refresh_req env rt) = Inr rref"
      "json_parse (fr_text rref) = Some j" "j \<noteq> JNull" "\<not> js_truthy (jget j ''error'')"
    and retry: "net env (sent s @ [drive_list_req (map_of kvs ''access_token''), refresh_req env rt])
                  (drive_list_req (jget j ''access_token'')) = Inr rretry"
      "json_parse (fr_text rretry) = Some fj"
  shows "handle_drive_list env r s =
    (Inr (json_response 200 (json_stringify fj)),
     s\<lparr>kv := (kv s)(''google:'' @ e \<mapsto>
                     json_stringify (merge_refreshed (JObj kvs) (refreshed_record j rt (clock s)) (clock s))),
       sent := sent s @ [drive_list_req (map_of kvs ''access_token''), refresh_req env rt,
                         drive_list_req (jget j ''access_token'')]\<rparr>)"
proof -
  have "raw \<noteq> []" using tok(2) by auto
  then show ?thesis
    using sess tok first rt refresh retry merge_refreshed_access_token
    by (simp add: handle_drive_list_def session_email_def str_truthy_def rt_simps refresh_and_retry_def
                  refresh_google_token_def)
qed

text \<open>
  C14: when the provider refuses the refresh (its answer has a truthy \<^verbatim>\<open>error\<close>), the
  worker answers 500 with \<^verbatim>\<open>Failed to refresh Google token: Error: Refresh failed: \<close>
  and the provider's JSON, after exactly the listing and the refresh request, and the
  stored record is left as it was.
\<close>

theorem drive_list_refresh_error:
  assumes sess: "request_session r = Some sid" "kv s (session_key sid) = Some e" "e \<noteq> []"
      "tokens_bound env"
    and tok: "kv s (''google:'' @ e) = Some raw" "json_parse raw = Some (JObj kvs)"
    and first: "net env (sent s) (drive_list_req (map_of kvs ''access_token'')) = Inr rlist"
      "fr_status rlist = 401"
    and rt: "map_of kvs ''refresh_token'' = Some rt" "js_truthy (Some rt)"
    and refresh: "net env (sent s @ [drive_list_req (map_of kvs ''access_token'')]) (refresh_req env rt) = Inr rref"
      "json_parse (fr_text rref) = Some j" "js_truthy (jget j ''error'')"
  shows "handle_drive_list env r s =
    (Inr (text_response 500 (''Failed to refresh Google token: Error: Refresh failed: '' @ json_stringify j)),
     s\<lparr>sent := sent s @ [drive_list_req (map_of kvs ''access_token''), refresh_req env rt]\<rparr>)"
proof -
  have "raw \<noteq> []" and "j \<noteq> JNull" using tok(2) refresh(3) by auto
  then show ?thesis
    using sess tok first rt refresh
    by (simp add: handle_drive_list_def session_email_def str_truthy_def rt_simps refresh_and_retry_def
                  refresh_google_token_def refresh_failed_def refresh_error_def exn_string_def)
qed

text \<open>
  C8: the \<^verbatim>\<open>email\<close> query parameter alone authenticates. A request with no session
  cookie that names an identity with a stored record gets that identity's file listing
  (when the listing is not refused): the fallback the design calls lower-trust is
  treated exactly like a session.
\<close>

theorem drive_list_email_param_grants_access:
  assumes "request_session r = None" "param_get r ''email'' = Some e" "e \<noteq> []" "tokens_bound env"
    and "kv s (''google:'' @ e) = Some raw" "json_parse raw = Some (JObj kvs)"
    and "net env (sent s) (drive_list_req (map_of kvs ''access_token'')) = Inr resp"
      "fr_status resp \<noteq> 401" "json_parse (fr_text resp) = Some fj"
  shows "handle_drive_list env r s =
    (Inr (json_response 200 (json_stringify fj)),
     s\<lparr>sent := sent s @ [drive_list_req (map_of kvs ''access_token'')]\<rparr>)"
proof -
  have "raw \<noteq> []" using assms(6) by auto
  then show ?thesis
    using assms by (simp add: handle_drive_list_def session_email_def str_truthy_def rt_simps)
qed

text \<open>
  C15: a refused listing (401) of a record without a refresh token is not surfaced as an
  error: the worker answers 200 with the provider's error JSON, after a single request,
  without writing to the store.
\<close>

theorem drive_list_401_without_refresh_token:
  assumes sess: "request_session r = Some sid" "kv s (session_key sid) = Some e" "e \<noteq> []"
      "tokens_bound env"
    and tok: "kv s (''google:'' @ e) = Some raw" "json_parse raw = Some (JObj kvs)"
    and "\<not> js_truthy (map_of kvs ''refresh_token'')"
    and "net env (sent s) (drive_list_req (map_of kvs ''access_token'')) = Inr resp"
      "fr_status resp = 401" "json_parse (fr_text resp) = Some fj"
  shows "handle_drive_list env r s =
    (Inr (json_response 200 (json_stringify fj)),
     s\<lparr>sent := sent s @ [drive_list_req (map_of kvs ''access_token'')]\<rparr>)"
proof -
  have "raw \<noteq> []" using tok(2) by auto
  then show ?thesis
    using assms by (simp add: handle_drive_list_def session_email_def str_truthy_def rt_simps)
qed

end
