(* ===== verification/Chat.thy ===== *)
theory Chat
  imports Drive
begin

text \<open>
  The Resource Proxy's chat route \<^verbatim>\<open>POST /api/chat/gemini\<close> (lines 131-195 of
  \<^verbatim>\<open>src/worker/index.js\<close>). \<open>handle_chat\<close> reads the prompt from the JSON body
  (an unparsable body counts as \<^verbatim>\<open>{}\<close>), resolves the session as the listing does,
  computes the enrichment (\<open>chat_enrichment\<close>) and forwards prompt and enrichment to
  the configured Gemini endpoint, whose body it returns with status 200.
  The enrichment, when the session resolves and a token record is stored, is the
  \<^verbatim>\<open>try\<close> block of lines 151-176 (\<open>enrich_body\<close>): one listing of at most five
  files rendered one per line (\<open>file_line\<close>), then, for at most the first two files, one
  content request each (\<open>one_snippet\<close>, inside its own \<^verbatim>\<open>try\<close>, run by
  \<open>snippet_loop\<close>), each non-empty content cut to 800 characters. An exception in the
  block leaves the enrichment empty: after the assignment of line 155 nothing in the
  block can throw (the loop reads an array that \<^verbatim>\<open>map\<close> has just accepted, and its
  body catches everything), so the \<^verbatim>\<open>catch\<close> of line 177 is \<open>st_catch\<close> around
  the whole block with the empty string as its value. The record itself is parsed
  outside the \<^verbatim>\<open>try\<close> (line 150): a corrupt record is a 500.
  Strings are byte strings here, so \<^verbatim>\<open>content.slice(0, 800)\<close> counts bytes where
  JavaScript counts UTF-16 code units.
\<close>

definition drive_files5_url :: string where
  "drive_files5_url = ''https://www.googleapis.com/drive/v3/files?pageSize=5&fields=files(id,name,mimeType)''"

definition google_doc_mime :: string where
  "google_doc_mime = ''application/vnd.google-apps.document''"

definition bearer_get :: "string \<Rightarrow> jval option \<Rightarrow> fetch_req" where
  "bearer_get u at = \<lparr>fr_url = u, fr_method = ''GET'', fr_headers = bearer at, fr_body = NoBody\<rparr>"

definition export_url :: "jval option \<Rightarrow> string" where
  "export_url fid = ''https://www.googleapis.com/drive/v3/files/'' @ js_string_of fid @ ''/export?mimeType=text/plain''"

definition download_url :: "jval option \<Rightarrow> string" where
  "download_url fid = ''https://www.googleapis.com/drive/v3/files/'' @ js_string_of fid @ ''?alt=media''"

definition snippet_limit :: nat where
  "snippet_limit = 800"

definition max_snippets :: nat where
  "max_snippets = 2"

text \<open>\<^verbatim>\<open>f => `- ${f.name} (${f.mimeType})`\<close>\<close>

definition file_line :: "jval \<Rightarrow> string wm" where
  "file_line f =
     st_bind (get_prop f ''name'') (\<lambda>n.
     st_bind (get_prop f ''mimeType'') (\<lambda>m.
     st_return (''- '' @ js_string_of n @ '' ('' @ js_string_of m @ '')'')))"

text \<open>\<^verbatim>\<open>(files.files || []).map(...)\<close>: only an array has a \<^verbatim>\<open>map\<close> method.\<close>

definition files_array :: "jval option \<Rightarrow> jval list wm" where
  "files_array ff =
     (if js_truthy ff
      then (case ff of
              Some (JArr xs) \<Rightarrow> st_return xs
            | _ \<Rightarrow> st_throw (type_error ''(files.files || []).map is not a function''))
      else st_return [])"

text \<open>The inner \<^verbatim>\<open>try\<close> of lines 161-172 for one file: its name and the first 800
  characters of its content, when the content is not empty.\<close>

definition one_snippet :: "worker_env \<Rightarrow> jval option \<Rightarrow> jval \<Rightarrow> (jval option \<times> string) option wm" where
  "one_snippet env at f =
     st_bind (get_prop f ''mimeType'') (\<lambda>mt.
     st_bind (if mt = Some (JStr google_doc_mime)
              then st_bind (get_prop f ''id'') (\<lambda>fid.
                   st_bind (fetch env (bearer_get (export_url fid) at)) (\<lambda>exp. res_text exp))
              else st_bind (get_prop f ''id'') (\<lambda>fid.
                   st_bind (fetch env (bearer_get (download_url fid) at)) (\<lambda>down. res_text down))) (\<lambda>content.
     if content \<noteq> []
     then st_bind (get_prop f ''name'') (\<lambda>n. st_return (Some (n, take snippet_limit content)))
     else st_return None))"

fun snippet_loop :: "worker_env \<Rightarrow> jval option \<Rightarrow> jval list \<Rightarrow> (jval option \<times> string) list wm" where
  "snippet_loop env at [] = st_return []"
| "snippet_loop env at (f # fs) =
     st_bind (st_catch (one_snippet env at f) (\<lambda>_. st_return None)) (\<lambda>r.
     st_bind (snippet_loop env at fs) (\<lambda>rs.
     st_return (case r of None \<Rightarrow> rs | Some x \<Rightarrow> x # rs)))"

definition render_snippet :: "jval option \<times> string \<Rightarrow> string" where
  "render_snippet sn = ''--- '' @ js_string_of (fst sn) @ '' ---'' @ nl @ snd sn @ nl"

definition enrich_body :: "worker_env \<Rightarrow> jval \<Rightarrow> string wm" where
  "enrich_body env tok =
     st_bind (get_prop tok ''access_token'') (\<lambda>at.
     st_bind (fetch env (bearer_get drive_files5_url at)) (\<lambda>filesRes.
     st_bind (res_json filesRes) (\<lambda>files.
     st_bind (get_prop files ''files'') (\<lambda>ff.
     st_bind (files_array ff) (\<lambda>xs.
     st_bind (st_mapM file_line xs) (\<lambda>lines.
     st_bind (snippet_loop env at (take max_snippets xs)) (\<lambda>snips.
     st_return (nl @ nl @ ''[User Drive files]'' @ nl @ js_join nl lines @
                (if snips \<noteq> [] then nl @ nl @ ''[File snippets]'' @ nl @ js_join nl (map render_snippet snips)
                 else [])))))))))"

definition chat_enrichment :: "worker_env \<Rightarrow> string option \<Rightarrow> string wm" where
  "chat_enrichment env email =
     (if str_truthy email \<and> tokens_bound env
      then st_bind (kv_get (''google:'' @ the email)) (\<lambda>tokenRaw.
           if str_truthy tokenRaw
           then st_bind (parse_json (the tokenRaw)) (\<lambda>tok. st_catch (enrich_body env tok) (\<lambda>_. st_return []))
           else st_return [])
      else st_return [])"

text \<open>\<^verbatim>\<open>await request.json().catch(()=>({}))\<close>\<close>

definition request_json :: "request \<Rightarrow> jval" where
  "request_json r = (case json_parse (rq_body r) of None \<Rightarrow> JObj [] | Some v \<Rightarrow> v)"

definition gemini_req :: "worker_env \<Rightarrow> string \<Rightarrow> fetch_req" where
  "gemini_req env p =
     \<lparr>fr_url = env_str (gemini_api_url env), fr_method = ''POST'',
      fr_headers = [(''Content-Type'', ''application/json''),
                    (''Authorization'', ''Bearer '' @ env_str (gemini_api_key env))],
      fr_body = TextBody (json_stringify (JObj [(''prompt'', JStr p)]))\<rparr>"

definition gemini_configured :: "worker_env \<Rightarrow> bool" where
  "gemini_configured env \<longleftrightarrow> env_truthy (gemini_api_url env) \<and> env_truthy (gemini_api_key env)"

definition not_configured_msg :: string where
  "not_configured_msg = ''Gemini API not configured on this Worker (set GEMINI_API_URL and GEMINI_API_KEY).''"

definition handle_chat :: "worker_env \<Rightarrow> request \<Rightarrow> response wm" where
  "handle_chat env r =
     st_bind (get_prop (request_json r) ''prompt'') (\<lambda>p.
     let prompt = (if js_truthy p then the p else JStr []) in
     st_bind (session_email env r) (\<lambda>email.
     st_bind (chat_enrichment env email) (\<lambda>enrichment.
     let finalPrompt = js_str prompt @ enrichment in
     if \<not> gemini_configured env
     then st_return (text_response 500 not_configured_msg)
     else
       st_bind (fetch env (gemini_req env finalPrompt)) (\<lambda>gRes.
       st_bind (res_text gRes) (\<lambda>gText.
       st_return (json_response 200 gText))))))"

subsection \<open>How many requests a chat sends\<close>

text \<open>\<open>sends_le k m\<close>: \<open>m\<close> sends at most \<open>k\<close> requests, whether it returns or throws.
  The bounds add up along \<open>st_bind\<close> and \<open>st_catch\<close>.\<close>

definition sends_le :: "nat \<Rightarrow> (exn, wstate, 'a) est \<Rightarrow> bool" where
  "sends_le k m \<longleftrightarrow> (\<forall>s. length (sent (snd (m s))) \<le> length (sent s) + k)"

lemma sends_bind: "sends_le a m \<Longrightarrow> (\<And>x. sends_le b (f x)) \<Longrightarrow> sends_le (a + b) (st_bind m f)"
  unfolding sends_le_def
proof (intro allI)
  fix s
  assume m: "\<forall>s. length (sent (snd (m s))) \<le> length (sent s) + a"
    and f: "\<And>x. \<forall>s. length (sent (snd (f x s))) \<le> length (sent s) + b"
  obtain r s1 where ms: "m s = (r, s1)" by (cases "m s")
  have a1: "length (sent s1) \<le> length (sent s) + a" using m ms by (metis snd_conv)
  show "length (sent (snd (st_bind m f s))) \<le> length (sent s) + (a + b)"
  proof (cases r)
    case (Inl e)
    then show ?thesis using ms a1 by simp
  next
    case (Inr x)
    have "length (sent (snd (f x s1))) \<le> length (sent s1) + b" using f by blast
    then show ?thesis using ms a1 Inr by simp
  qed
qed

lemma sends_catch: "sends_le a m \<Longrightarrow> (\<And>e. sends_le b (h e)) \<Longrightarrow> sends_le (a + b) (st_catch m h)"
  unfolding sends_le_def
proof (intro allI)
  fix s
  assume m: "\<forall>s. length (sent (snd (m s))) \<le> length (sent s) + a"
    and h: "\<And>e. \<forall>s. length (sent (snd (h e s))) \<le> length (sent s) + b"
  obtain r s1 where ms: "m s = (r, s1)" by (cases "m s")
  have a1: "length (sent s1) \<le> length (sent s) + a" using m ms by (metis snd_conv)
  show "length (sent (snd (st_catch m h s))) \<le> length (sent s) + (a + b)"
  proof (cases r)
    case (Inl e)
    have "length (sent (snd (h e s1))) \<le> length (sent s1) + b" using h by blast
    then show ?thesis using ms a1 Inl by simp
  next
    case (Inr x)
    then show ?thesis using ms a1 by simp
  qed
qed

lemma sends_mono: "sends_le a m \<Longrightarrow> a \<le> b \<Longrightarrow> sends_le b m"
  unfolding sends_le_def by (meson add_left_mono order_trans)

lemma sends_if: "sends_le a m1 \<Longrightarrow> sends_le a m2 \<Longrightarrow> sends_le a (if c then m1 else m2)"
  by simp

lemma sends_frame: "(\<And>s. sent (snd (m s)) = sent s) \<Longrightarrow> sends_le 0 m"
  by (simp add: sends_le_def)

lemma sends_fetch: "sends_le 1 (fetch env r)"
  by (simp add: sends_le_def fetch_apply)

lemma sends_none:
  "sends_le 0 (st_return x)" "sends_le 0 (st_throw e)" "sends_le 0 (get_prop v k)"
  "sends_le 0 (parse_json t)" "sends_le 0 (res_json fr)" "sends_le 0 (res_text fr)" "sends_le 0 (kv_get key)"
  "sends_le 0 (session_email env r)" "sends_le 0 (file_line f)" "sends_le 0 (files_array ff)"
  by (rule sends_frame;
      auto simp: get_prop_apply parse_json_apply res_json_eq res_text_apply kv_get_apply session_email_def
                 file_line_def files_array_def split: option.split jval.split)+

lemma sends_bind0: "sends_le 0 m \<Longrightarrow> (\<And>x. sends_le b (f x)) \<Longrightarrow> sends_le b (st_bind m f)"
  using sends_bind [of 0 m b f] by simp

lemma sends_bind_then0: "sends_le a m \<Longrightarrow> (\<And>x. sends_le 0 (f x)) \<Longrightarrow> sends_le a (st_bind m f)"
  using sends_bind [of a m 0 f] by simp

lemma sends_weaken0: "sends_le 0 m \<Longrightarrow> sends_le k m"
  by (erule sends_mono) simp

lemma sends_bind_sum: "sends_le a m \<Longrightarrow> (\<And>x. sends_le b (f x)) \<Longrightarrow> a + b = k \<Longrightarrow> sends_le k (st_bind m f)"
  using sends_bind by blast

lemma sends_catch_sum: "sends_le a m \<Longrightarrow> (\<And>e. sends_le b (h e)) \<Longrightarrow> a + b = k \<Longrightarrow> sends_le k (st_catch m h)"
  using sends_catch by blast

lemma sends_mapM0: "(\<And>x. sends_le 0 (f x)) \<Longrightarrow> sends_le 0 (st_mapM f xs)"
  by (induction xs) (simp_all add: sends_none sends_bind0)

lemma sends_one_snippet: "sends_le 1 (one_snippet env at f)"
  unfolding one_snippet_def
  apply (rule sends_bind0, rule sends_none)
  apply (rule sends_bind_then0)
   apply (rule sends_if; rule sends_bind0, rule sends_none, rule sends_bind_then0, rule sends_fetch, rule sends_none)
  apply (rule sends_if)
   apply (rule sends_bind0, rule sends_none, rule sends_none)
  apply (rule sends_none)
  done

lemma sends_snippet_loop: "sends_le (length fs) (snippet_loop env at fs)"
proof (induction fs)
  case Nil
  show ?case by (simp only: snippet_loop.simps list.size) (rule sends_none)
next
  case (Cons f fs)
  have c: "sends_le (1 + 0) (st_catch (one_snippet env at f) (\<lambda>_. st_return None))"
    by (rule sends_catch, rule sends_one_snippet, rule sends_none)
  have "sends_le (length (f # fs))
          (st_bind (st_catch (one_snippet env at f) (\<lambda>_. st_return None)) (\<lambda>r.
           st_bind (snippet_loop env at fs) (\<lambda>rs. st_return (case r of None \<Rightarrow> rs | Some x \<Rightarrow> x # rs))))"
    by (rule sends_bind_sum [OF c], rule sends_bind_then0, rule Cons.IH, rule sends_none) simp
  then show ?case by (simp only: snippet_loop.simps)
qed

lemma sends_enrich_body: "sends_le 3 (enrich_body env tok)"
  unfolding enrich_body_def
  apply (rule sends_bind0, rule sends_none)
  apply (rule sends_bind_sum [where a = 1 and b = 2], rule sends_fetch)
   apply (rule sends_bind0, rule sends_none)+
   apply (rule sends_bind0, rule sends_mapM0, rule sends_none)
   apply (rule sends_bind_then0, rule sends_mono, rule sends_snippet_loop)
    apply (simp add: max_snippets_def)
   apply (rule sends_none)
  apply simp
  done

lemma sends_chat_enrichment: "sends_le 3 (chat_enrichment env email)"
  unfolding chat_enrichment_def
  apply (rule sends_if)
   apply (rule sends_bind0, rule sends_none)
   apply (rule sends_if)
    apply (rule sends_bind0, rule sends_none)
    apply (rule sends_catch_sum [where a = 3 and b = 0], rule sends_enrich_body, rule sends_none, simp)
   apply (rule sends_weaken0, rule sends_none)+
  done

lemma sends_handle_chat: "sends_le 4 (handle_chat env r)"
  unfolding handle_chat_def Let_def
  apply (rule sends_bind0, rule sends_none)+
  apply (rule sends_bind_sum [where a = 3 and b = 1], rule sends_chat_enrichment)
   apply (rule sends_if)
    apply (rule sends_weaken0, rule sends_none)
   apply (rule sends_bind_then0, rule sends_fetch)
   apply (rule sends_bind0, rule sends_none, rule sends_none)
  apply simp
  done

text \<open>C6: A chat request makes the worker send at most four requests, whatever the
  session, the store and the answers: the Drive listing, at most two content requests and
  the Gemini call. (Without a Gemini configuration the first three are still sent, before
  the configuration is checked.)\<close>

theorem chat_sends_at_most_four:
  "length (sent (snd (handle_chat env r s))) \<le> length (sent s) + 4"
  using sends_handle_chat by (simp add: sends_le_def)

end
