(* ===== verification/Worker_Store.thy ===== *)
theory Worker_Store
  imports Chat
begin

text \<open>
  The invariant of the Token Store across the worker's routes: every value under a
  \<^verbatim>\<open>google:\<close> key is the JSON text of an object. The worker writes that namespace at
  two places, the callback (\<^verbatim>\<open>src/worker/index.js\<close> line 60) and the renewal in the
  listing (line 117), both with \<^verbatim>\<open>JSON.stringify\<close> of an object literal; the session
  write (line 66) goes to a \<^verbatim>\<open>session:\<close> key. Every route reads the namespace with
  \<^verbatim>\<open>JSON.parse(raw)\<close> and then reads properties of the result, so the invariant is
  what keeps those reads from throwing a \<^verbatim>\<open>SyntaxError\<close> on the worker's own data.
  Each handler is shown to keep the invariant, whether it returns or throws, by the
  rules \<open>st_ok_rules\<close> of \<open>Prelude\<close> over the primitives of \<open>Runtime\<close>.
\<close>

definition token_text_ok :: "string \<Rightarrow> bool" where
  "token_text_ok t = (case json_parse t of Some (JObj _) \<Rightarrow> True | _ \<Rightarrow> False)"

definition store_ok :: "wstate \<Rightarrow> bool" where
  "store_ok s \<longleftrightarrow> (\<forall>e t. kv s (''google:'' @ e) = Some t \<longrightarrow> token_text_ok t)"

subsection \<open>The primitives\<close>

lemma token_text_ok_obj: "token_text_ok (json_stringify (JObj kvs))"
  unfolding token_text_ok_def json_parse_stringify_norm by simp

lemma store_ok_kv_frame: "(\<And>s. kv (snd (m s)) = kv s) \<Longrightarrow> st_pres store_ok m"
  by (simp add: st_pres_def store_ok_def)

lemma pres_kv_put: "(\<And>e. k = ''google:'' @ e \<Longrightarrow> token_text_ok v) \<Longrightarrow> st_pres store_ok (kv_put k v)"
  by (auto simp: st_pres_def store_ok_def kv_put_apply)

lemma pres_kv_put_obj [st_ok_rules]: "st_pres store_ok (kv_put k (json_stringify (JObj kvs)))"
  by (rule pres_kv_put) (rule token_text_ok_obj)

lemma pres_kv_put_session [st_ok_rules]: "st_pres store_ok (kv_put_value (session_key sid) v)"
  unfolding kv_put_value_def
  by (auto split: jval.split intro!: st_ok_rules pres_kv_put simp: session_key_def)

lemma pres_fetch [st_ok_rules]: "st_pres store_ok (fetch env r)"
  by (rule store_ok_kv_frame) (simp add: fetch_apply)

lemma pres_random_uuid [st_ok_rules]: "st_pres store_ok (random_uuid env)"
  by (rule store_ok_kv_frame) (simp add: random_uuid_apply)

lemma pres_date_now [st_ok_rules]: "st_pres store_ok date_now"
  by (rule st_pres_same) (simp add: date_now_apply)

lemma pres_kv_get [st_ok_rules]: "st_pres store_ok (kv_get k)"
  by (rule st_pres_same) (simp add: kv_get_apply)

lemma pres_res [st_ok_rules]: "st_pres store_ok (res_json r)" "st_pres store_ok (res_text r)"
  by (simp add: res_json_eq pres_parse_json) (rule st_pres_same, simp add: res_text_apply)

lemma token_record_obj: "\<exists>kvs. token_record e tj now = JObj kvs"
  by (simp add: token_record_def obj_lit_def)

lemma merge_refreshed_obj: "\<exists>kvs. merge_refreshed t r now = JObj kvs"
  by (simp add: merge_refreshed_def)

subsection \<open>The handlers\<close>

lemma pres_resolve_email [st_ok_rules]: "st_pres store_ok (resolve_email u)"
  unfolding resolve_email_def by (intro st_ok_rules)

lemma pres_handle_start: "st_pres store_ok (handle_start env r)"
  unfolding handle_start_def by (intro st_ok_rules)

lemma pres_handle_callback: "st_pres store_ok (handle_callback env r)"
proof -
  have put: "st_pres store_ok (kv_put (token_key email) (json_stringify (token_record email tj now)))"
    for email tj now
    using token_record_obj [of email tj now] pres_kv_put_obj by metis
  show ?thesis
    unfolding handle_callback_def Let_def by (intro st_ok_rules put)
qed

lemma pres_refresh_google_token [st_ok_rules]: "st_pres store_ok (refresh_google_token env rt u)"
  unfolding refresh_google_token_def by (intro st_ok_rules)

lemma pres_refresh_and_retry [st_ok_rules]: "st_pres store_ok (refresh_and_retry env r e t rt)"
proof -
  have put: "st_pres store_ok (kv_put k (json_stringify (merge_refreshed t x now)))" for k x now
    using merge_refreshed_obj [of t x now] pres_kv_put_obj by metis
  show ?thesis
    unfolding refresh_and_retry_def by (intro st_ok_rules put)
qed

lemma pres_session_email [st_ok_rules]: "st_pres store_ok (session_email env r)"
  unfolding session_email_def by (auto split: option.split intro!: st_ok_rules)

lemma pres_handle_drive_list: "st_pres store_ok (handle_drive_list env r)"
  unfolding handle_drive_list_def Let_def
  by (intro st_ok_rules; auto split: sum.split intro!: st_ok_rules)

lemma pres_file_line [st_ok_rules]: "st_pres store_ok (file_line f)"
  unfolding file_line_def by (intro st_ok_rules)

lemma pres_files_array [st_ok_rules]: "st_pres store_ok (files_array ff)"
  unfolding files_array_def by (auto split: option.split jval.split intro!: st_ok_rules)

lemma pres_one_snippet [st_ok_rules]: "st_pres store_ok (one_snippet env at f)"
  unfolding one_snippet_def by (intro st_ok_rules)

lemma pres_snippet_loop [st_ok_rules]: "st_pres store_ok (snippet_loop env at fs)"
proof (induction fs)
  case Nil
  show ?case by (simp only: snippet_loop.simps) (rule st_pres_return)
next
  case (Cons f fs)
  then show ?case by (simp only: snippet_loop.simps) (intro st_ok_rules Cons.IH)
qed

lemma pres_enrich_body [st_ok_rules]: "st_pres store_ok (enrich_body env tok)"
  unfolding enrich_body_def by (intro st_ok_rules)

lemma pres_chat_enrichment [st_ok_rules]: "st_pres store_ok (chat_enrichment env email)"
  unfolding chat_enrichment_def by (intro st_ok_rules)

lemma pres_handle_chat: "st_pres store_ok (handle_chat env r)"
  unfolding handle_chat_def Let_def by (intro st_ok_rules)

end
