(* ===== verification/Worker_Responses.thy ===== *)
theory Worker_Responses
  imports Chat
begin

text \<open>
  The responses the worker's routes build (\<^verbatim>\<open>new Response\<close> and
  \<^verbatim>\<open>Response.redirect\<close> in \<^verbatim>\<open>src/worker/index.js\<close>, lines 8-199), typed by
  their status and header names: a plain text body answers 400, 401, 404 or 500, a JSON
  body 200 or 500, the redirect 302 with \<^verbatim>\<open>Location\<close> only, and the callback page
  200 with \<^verbatim>\<open>Content-Type\<close> and \<^verbatim>\<open>Set-Cookie\<close>. Each handler returns only typed
  responses, by the rules \<open>st_res_rules\<close> of \<open>Prelude\<close>; the listing passes the
  response of a failed renewal through an \<open>Inl\<close> value, which \<open>left_typed\<close> types.
\<close>

definition resp_typed :: "response \<Rightarrow> bool" where
  "resp_typed r \<longleftrightarrow> (case map fst (rs_headers r) of
      [] \<Rightarrow> rs_status r \<in> {400, 401, 404, 500}
    | [h] \<Rightarrow> (h = ''Content-Type'' \<and> rs_status r \<in> {200, 500}) \<or> (h = ''Location'' \<and> rs_status r = 302)
    | [h, h'] \<Rightarrow> h = ''Content-Type'' \<and> h' = ''Set-Cookie'' \<and> rs_status r = 200
    | _ \<Rightarrow> False)"

definition left_typed :: "response + 'a \<Rightarrow> bool" where
  "left_typed x = (case x of Inl resp \<Rightarrow> resp_typed resp | Inr _ \<Rightarrow> True)"

lemma typed_responses [simp]:
  "resp_typed (text_response st b) \<longleftrightarrow> st \<in> {400, 401, 404, 500}"
  "resp_typed (json_response st b) \<longleftrightarrow> st \<in> {200, 500}"
  "resp_typed (redirect_response u 302)"
  "resp_typed (callback_response email sid)"
  by (simp_all add: resp_typed_def text_response_def json_response_def redirect_response_def callback_response_def)

lemma res_handle_start: "st_res resp_typed (handle_start env r)"
  unfolding handle_start_def by (intro st_res_rules) simp

lemma res_handle_callback: "st_res resp_typed (handle_callback env r)"
  unfolding handle_callback_def Let_def by (auto intro!: st_res_rules)

lemma res_refresh_and_retry: "st_res left_typed (refresh_and_retry env r e t rt)"
  unfolding refresh_and_retry_def by (intro st_res_rules) (simp add: left_typed_def)

lemma res_retry_step:
  "st_res left_typed (if c then st_catch (refresh_and_retry env r e t rt) (\<lambda>x. st_return (Inl (refresh_failed x)))
                       else st_return (Inr f))"
  by (auto intro!: st_res_rules res_refresh_and_retry simp: left_typed_def refresh_failed_def)

lemma res_retry_tail:
  "st_res resp_typed
     (st_bind (if c then st_catch (refresh_and_retry env r e t rt) (\<lambda>x. st_return (Inl (refresh_failed x)))
               else st_return (Inr f))
        (\<lambda>res. case res of Inl resp \<Rightarrow> st_return resp
               | Inr f' \<Rightarrow> st_bind (res_json f') (\<lambda>j. st_return (json_response 200 (json_stringify j)))))"
  by (rule st_res_bind_post [OF res_retry_step]) (auto simp: left_typed_def split: sum.split intro!: st_res_rules)

lemma res_handle_drive_list: "st_res resp_typed (handle_drive_list env r)"
  unfolding handle_drive_list_def Let_def by (auto intro!: res_retry_tail st_res_rules)

lemma res_handle_chat: "st_res resp_typed (handle_chat env r)"
  unfolding handle_chat_def Let_def by (auto intro!: st_res_rules)

end
