(* ===== verification/Regex.thy ===== *)
theory Regex
  imports Runtime
begin

text \<open>
  The part of JavaScript's string handling the browser page relies on:
  \<^verbatim>\<open>String.prototype.trim\<close> (\<open>js_trim\<close>) and the regular expressions of
  \<^verbatim>\<open>assistantReply\<close> (\<^verbatim>\<open>src/public/app.js\<close> lines 49-82), run by a backtracking matcher
  with JavaScript's priorities. \<open>mt r s c\<close> lists every way the expression \<open>r\<close> can
  match a prefix of \<open>s\<close> (with the captures \<open>c\<close> so far), in the order a JavaScript
  engine tries them: the left alternative before the right, a greedy quantifier's longest
  run first, an optional part present before absent. \<open>rx_search\<close> is
  \<^verbatim>\<open>String.prototype.match\<close> without the \<^verbatim>\<open>g\<close> flag: the first start position with
  a match, and that position's first match. The expressions of the page use only
  literals, classes, \<^verbatim>\<open>|\<close>, \<^verbatim>\<open>?\<close>, \<^verbatim>\<open>*\<close> and \<^verbatim>\<open>+\<close> on single classes, and
  capturing groups; the engine has exactly these. All of them carry the \<^verbatim>\<open>i\<close> flag,
  which without the \<^verbatim>\<open>u\<close> flag folds exactly the ASCII letters (\<open>ci_char\<close>).
  Texts are UTF-8 byte strings: \<^verbatim>\<open>\s\<close> and \<^verbatim>\<open>.\<close> read one code point, of one to
  three bytes for the whitespace and line terminators, of its encoded length for the
  dot. Every literal of the page's expressions is ASCII, so a match never starts inside
  a multi-byte code point and the byte positions give the matches of the code-unit ones.
\<close>

subsection \<open>Whitespace and \<^verbatim>\<open>trim\<close>\<close>

text \<open>The whitespace and line terminators of \<^verbatim>\<open>String.prototype.trim\<close> and \<^verbatim>\<open>\s\<close>,
  in UTF-8: the length of the one at the start of the text, 0 if there is none.\<close>

definition ws1 :: "char \<Rightarrow> bool" where
  "ws1 c \<longleftrightarrow> c \<in> {CHR 0x09, CHR 0x0A, CHR 0x0B, CHR 0x0C, CHR 0x0D, CHR '' ''}"

definition ws2 :: "char \<Rightarrow> char \<Rightarrow> bool" where
  "ws2 a b \<longleftrightarrow> a = CHR 0xC2 \<and> b = CHR 0xA0"

definition ws3 :: "char \<Rightarrow> char \<Rightarrow> char \<Rightarrow> bool" where
  "ws3 a b c \<longleftrightarrow>
     [a, b, c] \<in> {[CHR 0xEF, CHR 0xBB, CHR 0xBF], [CHR 0xE1, CHR 0x9A, CHR 0x80],
                  [CHR 0xE2, CHR 0x80, CHR 0xA8], [CHR 0xE2, CHR 0x80, CHR 0xA9],
                  [CHR 0xE2, CHR 0x80, CHR 0xAF], [CHR 0xE2, CHR 0x81, CHR 0x9F],
                  [CHR 0xE3, CHR 0x80, CHR 0x80]} \<or>
     (a = CHR 0xE2 \<and> b = CHR 0x80 \<and> (0x80::nat) \<le> of_char c \<and> of_char c \<le> (0x8A::nat))"

fun ws_len :: "string \<Rightarrow> nat" where
  "ws_len (a # b # c # _) = (if ws1 a then 1 else if ws2 a b then 2 else if ws3 a b c then 3 else 0)"
| "ws_len [a, b] = (if ws1 a then 1 else if ws2 a b then 2 else 0)"
| "ws_len [a] = (if ws1 a then 1 else 0)"
| "ws_len [] = 0"

function trim_start :: "string \<Rightarrow> string" where
  "trim_start s = (if ws_len s = 0 then s else trim_start (drop (ws_len s) s))"
  by auto
termination
proof (relation "measure length")
  show "wf (measure length)" by simp
  fix s :: string
  assume "\<not> ws_len s = 0"
  then have "s \<noteq> []" by auto
  then show "(drop (ws_len s) s, s) \<in> measure length" using \<open>\<not> ws_len s = 0\<close> by simp
qed

declare trim_start.simps [simp del]

text \<open>The whitespace at the end of a text, read back to front: the shortest suffix that is
  one whole whitespace code point.\<close>

definition ws_suffix_len :: "string \<Rightarrow> nat" where
  "ws_suffix_len s =
     (if length s \<ge> 1 \<and> ws_len (drop (length s - 1) s) = 1 then 1
      else if length s \<ge> 2 \<and> ws_len (drop (length s - 2) s) = 2 then 2
      else if length s \<ge> 3 \<and> ws_len (drop (length s - 3) s) = 3 then 3
      else 0)"

function trim_end :: "string \<Rightarrow> string" where
  "trim_end s = (if ws_suffix_len s = 0 then s else trim_end (take (length s - ws_suffix_len s) s))"
  by auto
termination
  by (relation "measure length") (auto simp: ws_suffix_len_def split: if_splits)

declare trim_end.simps [simp del]

definition js_trim :: "string \<Rightarrow> string" where
  "js_trim s = trim_end (trim_start s)"

subsection \<open>The matcher\<close>

text \<open>A token consumes a number of bytes at the front of the text, or fails.\<close>

type_synonym tok = "string \<Rightarrow> nat option"

type_synonym caps = "nat \<Rightarrow> string option"

datatype rx =
    RTok tok
  | RSeq rx rx
  | RAlt rx rx
  | ROpt rx
  | RStar tok
  | RPlus tok
  | RGroup nat rx

text \<open>The texts left after zero, one, two, ... repetitions of a token, as long as it
  consumes something.\<close>

function tok_runs :: "tok \<Rightarrow> string \<Rightarrow> string list" where
  "tok_runs t s = s # (case t s of
      Some n \<Rightarrow> if 0 < n \<and> n \<le> length s then tok_runs t (drop n s) else []
    | None \<Rightarrow> [])"
  by auto
termination
  by (relation "measure (\<lambda>(t, s). length s)") auto

declare tok_runs.simps [simp del]

fun mt :: "rx \<Rightarrow> string \<Rightarrow> caps \<Rightarrow> (string \<times> caps) list" where
  "mt (RTok t) s c = (case t s of Some n \<Rightarrow> if n \<le> length s then [(drop n s, c)] else [] | None \<Rightarrow> [])"
| "mt (RSeq a b) s c = concat (map (\<lambda>(s', c'). mt b s' c') (mt a s c))"
| "mt (RAlt a b) s c = mt a s c @ mt b s c"
| "mt (ROpt a) s c = mt a s c @ [(s, c)]"
| "mt (RStar t) s c = map (\<lambda>s'. (s', c)) (rev (tok_runs t s))"
| "mt (RPlus t) s c = map (\<lambda>s'. (s', c)) (rev (tl (tok_runs t s)))"
| "mt (RGroup n a) s c = map (\<lambda>(s', c'). (s', c'(n := Some (take (length s - length s') s)))) (mt a s c)"

fun rx_search :: "rx \<Rightarrow> string \<Rightarrow> caps option" where
  "rx_search r s = (case mt r s (\<lambda>_. None) of
      m # _ \<Rightarrow> Some (snd m)
    | [] \<Rightarrow> (case s of [] \<Rightarrow> None | _ # s' \<Rightarrow> rx_search r s'))"

declare rx_search.simps [simp del]

definition rx_test :: "rx \<Rightarrow> string \<Rightarrow> bool" where
  "rx_test r s \<longleftrightarrow> rx_search r s \<noteq> None"

subsection \<open>Tokens and expressions\<close>

definition ascii_lower :: "char \<Rightarrow> char" where
  "ascii_lower c = (if (65::nat) \<le> of_char c \<and> of_char c \<le> (90::nat) then char_of (of_char c + (32::nat)) else c)"

definition ci_char :: "char \<Rightarrow> tok" where
  "ci_char d s = (case s of c # _ \<Rightarrow> if ascii_lower c = ascii_lower d then Some 1 else None | [] \<Rightarrow> None)"

definition rx_eps :: rx where
  "rx_eps = RTok (\<lambda>_. Some 0)"

fun rx_cat :: "rx list \<Rightarrow> rx" where
  "rx_cat [] = rx_eps"
| "rx_cat [r] = r"
| "rx_cat (r # rs) = RSeq r (rx_cat rs)"

fun rx_alts :: "rx list \<Rightarrow> rx" where
  "rx_alts [] = RTok (\<lambda>_. None)"
| "rx_alts [r] = r"
| "rx_alts (r # rs) = RAlt r (rx_alts rs)"

text \<open>A literal under the \<^verbatim>\<open>i\<close> flag.\<close>

definition ci :: "string \<Rightarrow> rx" where
  "ci w = rx_cat (map (\<lambda>d. RTok (ci_char d)) w)"

text \<open>\<^verbatim>\<open>\s\<close>, \<^verbatim>\<open>\d\<close>, \<^verbatim>\<open>.\<close> and \<^verbatim>\<open>[: ]\<close>.\<close>

definition tok_ws :: tok where
  "tok_ws s = (if ws_len s = 0 then None else Some (ws_len s))"

definition tok_digit :: tok where
  "tok_digit s = (case s of c # _ \<Rightarrow> if is_digit c then Some 1 else None | [] \<Rightarrow> None)"

definition utf8_len :: "char \<Rightarrow> nat" where
  "utf8_len c = (let n = (of_char c :: nat) in if n < 0xC0 then 1 else if n < 0xE0 then 2 else if n < 0xF0 then 3 else 4)"

definition tok_dot :: tok where
  "tok_dot s = (case s of
      [] \<Rightarrow> None
    | c # _ \<Rightarrow> if c = CHR 0x0A \<or> c = CHR 0x0D \<or> take 3 s = [CHR 0xE2, CHR 0x80, CHR 0xA8]
                  \<or> take 3 s = [CHR 0xE2, CHR 0x80, CHR 0xA9]
              then None else Some (min (utf8_len c) (length s)))"

definition tok_colon_space :: tok where
  "tok_colon_space s = (case s of c # _ \<Rightarrow> if c = CHR '':'' \<or> c = CHR '' '' then Some 1 else None | [] \<Rightarrow> None)"

text \<open>A text without line terminators: \<^verbatim>\<open>.\<close> reads all of it.\<close>

fun line_free :: "string \<Rightarrow> bool" where
  "line_free [] = True"
| "line_free (c # cs) =
     (c \<noteq> CHR 0x0A \<and> c \<noteq> CHR 0x0D \<and> take 3 (c # cs) \<noteq> [CHR 0xE2, CHR 0x80, CHR 0xA8] \<and>
      take 3 (c # cs) \<noteq> [CHR 0xE2, CHR 0x80, CHR 0xA9] \<and> line_free cs)"

subsection \<open>Lemmas\<close>

lemmas rx_eval = ci_def rx_search.simps tok_runs.simps tok_dot_def tok_ws_def tok_colon_space_def
  tok_digit_def ci_char_def ascii_lower_def rx_eps_def ws1_def ws2_def ws3_def utf8_len_def is_digit_def
  char_of_eq_iff

lemmas trim_eval = js_trim_def trim_start.simps trim_end.simps ws_suffix_len_def ws1_def ws2_def ws3_def

lemma tok_runs_None: "t s = None \<Longrightarrow> tok_runs t s = [s]"
  by (simp add: tok_runs.simps)

lemma tok_runs_Some: "t s = Some n \<Longrightarrow> 0 < n \<Longrightarrow> n \<le> length s \<Longrightarrow> tok_runs t s = s # tok_runs t (drop n s)"
  by (simp add: tok_runs.simps)

lemma line_free_drop: "line_free s \<Longrightarrow> line_free (drop n s)"
  by (induction s arbitrary: n) (auto simp: drop_Cons split: nat.split)

lemma tok_dot_line_free:
  "line_free s \<Longrightarrow> s \<noteq> [] \<Longrightarrow> \<exists>n. tok_dot s = Some n \<and> 0 < n \<and> n \<le> length s"
  by (cases s) (auto simp: tok_dot_def utf8_len_def Let_def)

lemma tok_runs_dot_last: "line_free s \<Longrightarrow> tok_runs tok_dot s \<noteq> [] \<and> last (tok_runs tok_dot s) = []"
proof (induction "length s" arbitrary: s rule: less_induct)
  case less
  show ?case
  proof (cases "s = []")
    case True
    then show ?thesis by (simp add: tok_runs_None tok_dot_def)
  next
    case False
    then obtain n where n: "tok_dot s = Some n" "0 < n" "n \<le> length s"
      using tok_dot_line_free less.prems by blast
    then have "tok_runs tok_dot (drop n s) \<noteq> [] \<and> last (tok_runs tok_dot (drop n s)) = []"
      using less.hyps [of "drop n s"] less.prems line_free_drop by simp
    then show ?thesis using n by (simp add: tok_runs_Some)
  qed
qed

text \<open>\<^verbatim>\<open>.+\<close> on a non-empty text without line terminators: the greedy first try takes all
  of it.\<close>

lemma plus_dot_greedy:
  assumes "line_free s" "s \<noteq> []"
  shows "\<exists>rest. rev (tl (tok_runs tok_dot s)) = [] # rest"
proof -
  obtain n where n: "tok_dot s = Some n" "0 < n" "n \<le> length s"
    using tok_dot_line_free assms by blast
  have "tok_runs tok_dot (drop n s) \<noteq> [] \<and> last (tok_runs tok_dot (drop n s)) = []"
    using tok_runs_dot_last line_free_drop assms(1) by blast
  then have "\<exists>rest. rev (tok_runs tok_dot (drop n s)) = [] # rest"
    by (metis last_rev list.collapse rev_is_Nil_conv hd_rev)
  then show ?thesis using n by (simp add: tok_runs_Some)
qed

end
