(* ===== verification/Page.thy ===== *)
theory Page
  imports Regex
begin

text \<open>
  The browser page of \<^verbatim>\<open>src/public/app.js\<close>: its \<^verbatim>\<open>localStorage\<close> helper (lines 4-7),
  the to-dos (lines 103-129), notes (lines 132-142) and reminders (lines 145-167) kept there
  as JSON, their rendering into the page, and the timers the reminders and the chat set.
  \<^item> The page's state is the record \<open>page\<close>: \<^verbatim>\<open>localStorage\<close> as a string map
    (\<open>ls\<close>), the clock \<^verbatim>\<open>Date.now()\<close>, the chat log (one pair of bubble class and
    text per \<^verbatim>\<open>appendMessage\<close>), the pending \<^verbatim>\<open>setTimeout\<close> callbacks with their due
    times (\<open>timers\<close>, kept in firing order: by due time, then by registration), the rendered
    lists (\<open>todo_view\<close>, \<open>note_view\<close>, \<open>rem_view\<close>: the text of each list item and the
    id its buttons act on), the notifications shown, the signed-in label, the worker base,
    the URLs fetched and the windows opened.
  \<^item> The browser's part is the record \<open>page_env\<close>: \<^verbatim>\<open>toLocaleString\<close> of a date, the
    reading of the reminder form's date-time field, whether notifications are granted,
    whether a popup may open, and the network as a function of the URLs already fetched.
  \<^item> A handler is a computation \<open>'a pm\<close> of the exception-state monad over \<open>page\<close>.
    Stored data the page did not write itself (a list that is not an array, an item that
    is \<^verbatim>\<open>null\<close>) makes the code throw; those exceptions are values of the model.
  Strings are UTF-8 byte strings as in the rest of the development; \<^verbatim>\<open>trim\<close> and the
  regular expressions read the whitespace and line-terminator code points of that encoding.
\<close>

datatype task = TReply string | TDeliver jval

record page_env =
  locale_str :: "jval option \<Rightarrow> string"
  date_parse :: "string \<Rightarrow> int"
  notif_granted :: bool
  popup_ok :: bool
  page_net :: "string list \<Rightarrow> string \<Rightarrow> string + fetch_resp"

record page =
  ls :: "string \<rightharpoonup> string"
  pclock :: int
  chat_log :: "(string \<times> string) list"
  timers :: "(int \<times> task) list"
  todo_view :: "(string \<times> string \<times> jval option) list"
  note_view :: "string list"
  rem_view :: "(string \<times> jval option) list"
  notified :: "string list"
  signed_user :: "string option"
  worker_base :: "jval option"
  fetched :: "string list"
  opened :: "string list"
  alerts :: "string list"
  wired :: bool

type_synonym 'a pm = "(exn, page, 'a) est"

subsection \<open>JavaScript operations the page uses\<close>

text \<open>\<^verbatim>\<open>a === b\<close> on the values the page compares: primitives by value, \<^verbatim>\<open>undefined\<close>
  only with itself, an object or array only with itself (two parses never give the same
  object).\<close>

fun js_seq :: "jval option \<Rightarrow> jval option \<Rightarrow> bool" where
  "js_seq None None = True"
| "js_seq (Some (JArr _)) _ = False"
| "js_seq (Some (JObj _)) _ = False"
| "js_seq (Some a) (Some b) = (a = b)"
| "js_seq _ _ = False"

text \<open>\<^verbatim>\<open>Number(v)\<close> as the subtraction of \<^verbatim>\<open>scheduleTimeout\<close> applies it; \<open>None\<close> is
  \<^verbatim>\<open>NaN\<close>. A string converts when it is, after trimming, empty (0) or an optionally signed
  decimal integer; the other numeric syntaxes (fractions, exponents, hexadecimal,
  \<^verbatim>\<open>Infinity\<close>) are outside the integer numbers of the model and read as \<^verbatim>\<open>NaN\<close>.\<close>

definition str_number :: "string \<Rightarrow> int option" where
  "str_number s =
     (let t = js_trim s;
          dec = (\<lambda>ds. if ds \<noteq> [] \<and> list_all is_digit ds then Some (int (digits_val ds)) else None) in
      if t = [] then Some 0
      else if hd t = CHR ''-'' then map_option uminus (dec (tl t))
      else if hd t = CHR ''+'' then dec (tl t)
      else dec t)"

fun js_number :: "jval option \<Rightarrow> int option" where
  "js_number None = None"
| "js_number (Some JNull) = Some 0"
| "js_number (Some (JBool b)) = Some (if b then 1 else 0)"
| "js_number (Some (JNum n)) = Some n"
| "js_number (Some (JStr s)) = str_number s"
| "js_number (Some (JArr xs)) = str_number (js_str (JArr xs))"
| "js_number (Some (JObj kvs)) = None"

text \<open>Calling an array method: only an array has it. A value without the method makes the
  call a \<^verbatim>\<open>TypeError\<close> (\<^verbatim>\<open>undefined\<close> and \<^verbatim>\<open>null\<close> have no properties at all).\<close>

definition js_array :: "string \<Rightarrow> string \<Rightarrow> jval option \<Rightarrow> jval list pm" where
  "js_array recv meth v = (case v of
      Some (JArr xs) \<Rightarrow> st_return xs
    | None \<Rightarrow> st_throw (type_error (''Cannot read properties of undefined (reading '' @ meth @ '')''))
    | Some JNull \<Rightarrow> st_throw (type_error (''Cannot read properties of null (reading '' @ meth @ '')''))
    | _ \<Rightarrow> st_throw (type_error (recv @ ''.'' @ meth @ '' is not a function'')))"

text \<open>\<^verbatim>\<open>{...t}\<close>: the own properties of \<open>t\<close>; an array or string spreads its indices.\<close>

fun js_spread :: "jval \<Rightarrow> (string \<times> jval) list" where
  "js_spread (JObj kvs) = kvs"
| "js_spread (JArr xs) = zip (map nat_str [0..<length xs]) xs"
| "js_spread (JStr s) = zip (map nat_str [0..<length s]) (map (\<lambda>c. JStr [c]) s)"
| "js_spread _ = []"

subsection \<open>\<^verbatim>\<open>storage\<close> (lines 4-7) and the chat log (lines 37-43)\<close>

text \<open>\<^verbatim>\<open>JSON.parse(localStorage.getItem(key)) ?? fallback\<close> inside \<^verbatim>\<open>try\<close>: a missing
  key (\<^verbatim>\<open>JSON.parse(null)\<close> is \<^verbatim>\<open>null\<close>), a stored \<^verbatim>\<open>null\<close> and a text that does not
  parse all give the fallback.\<close>

definition ls_value :: "string option \<Rightarrow> jval option \<Rightarrow> jval option" where
  "ls_value t fb = (case t of
      None \<Rightarrow> fb
    | Some x \<Rightarrow> (case json_parse x of None \<Rightarrow> fb | Some JNull \<Rightarrow> fb | Some v \<Rightarrow> Some v))"

definition storage_get :: "string \<Rightarrow> jval option \<Rightarrow> jval option pm" where
  "storage_get k fb = st_gets (\<lambda>p. ls_value (ls p k) fb)"

definition storage_set :: "string \<Rightarrow> jval \<Rightarrow> unit pm" where
  "storage_set k v = st_modify (\<lambda>p. p\<lparr>ls := (ls p)(k \<mapsto> json_stringify v)\<rparr>)"

definition append_message :: "string \<Rightarrow> string \<Rightarrow> unit pm" where
  "append_message text who =
     st_modify (\<lambda>p. p\<lparr>chat_log := chat_log p @ [(if who = ''user'' then ''user'' else ''assistant'', text)]\<rparr>)"

definition page_now :: "int pm" where
  "page_now = st_gets pclock"

text \<open>\<^verbatim>\<open>setTimeout(f, d)\<close>: the callback is queued behind every callback due no later.\<close>

definition queue_timer :: "int \<Rightarrow> task \<Rightarrow> (int \<times> task) list \<Rightarrow> (int \<times> task) list" where
  "queue_timer due t q = takeWhile (\<lambda>x. fst x \<le> due) q @ (due, t) # dropWhile (\<lambda>x. fst x \<le> due) q"

definition add_timer :: "int \<Rightarrow> task \<Rightarrow> unit pm" where
  "add_timer d t = st_modify (\<lambda>p. p\<lparr>timers := queue_timer (pclock p + d) t (timers p)\<rparr>)"

text \<open>The check mark after a done to-do and the dash between date and text, in UTF-8.\<close>

definition nb_hyphen :: string where
  "nb_hyphen = [CHR 0xE2, CHR 0x80, CHR 0x91]"

definition em_dash :: string where
  "em_dash = [CHR 0xE2, CHR 0x80, CHR 0x94]"

definition check_mark :: string where
  "check_mark = [CHR '' '', CHR 0xE2, CHR 0x9C, CHR 0x93]"

definition em_sep :: string where
  "em_sep = CHR '' '' # em_dash @ '' ''"

text \<open>\<^verbatim>\<open>list.push(x)\<close> and \<^verbatim>\<open>list.unshift(x)\<close> on the array just read: the new array.\<close>

definition js_push :: "string \<Rightarrow> jval option \<Rightarrow> jval \<Rightarrow> jval pm" where
  "js_push recv v x = st_bind (js_array recv ''push'' v) (\<lambda>xs. st_return (JArr (xs @ [x])))"

definition js_unshift :: "string \<Rightarrow> jval option \<Rightarrow> jval \<Rightarrow> jval pm" where
  "js_unshift recv v x = st_bind (js_array recv ''unshift'' v) (\<lambda>xs. st_return (JArr (x # xs)))"

subsection \<open>To-dos (lines 103-129)\<close>

definition get_todos :: "jval option pm" where
  "get_todos = storage_get ''ca_todos'' (Some (JArr []))"

text \<open>One list item of \<^verbatim>\<open>renderTodos\<close>: the text with a check mark when done, the
  toggle button's label, and the id both buttons' handlers pass on.\<close>

definition todo_row :: "jval \<Rightarrow> unit pm" where
  "todo_row t =
     st_bind (get_prop t ''text'') (\<lambda>tx.
     st_bind (get_prop t ''done'') (\<lambda>d.
     st_modify (\<lambda>p. p\<lparr>todo_view := todo_view p @
       [(js_string_of tx @ (if js_truthy d then check_mark else []),
         if js_truthy d then ''Undo'' else ''Done'', jget t ''id'')]\<rparr>)))"

definition render_todos :: "unit pm" where
  "render_todos =
     st_bind (st_modify (\<lambda>p. p\<lparr>todo_view := []\<rparr>)) (\<lambda>_.
     st_bind get_todos (\<lambda>v.
     st_bind (js_array ''getTodos(...)'' ''forEach'' v) (\<lambda>xs.
     st_forM todo_row xs)))"

definition save_todos :: "jval \<Rightarrow> unit pm" where
  "save_todos v = st_bind (storage_set ''ca_todos'' v) (\<lambda>_. render_todos)"

definition todo_obj :: "string \<Rightarrow> int \<Rightarrow> jval" where
  "todo_obj text now = JObj [(''text'', JStr text), (''done'', JBool False), (''id'', JNum now)]"

definition add_todo :: "string \<Rightarrow> unit pm" where
  "add_todo text =
     st_bind get_todos (\<lambda>v.
     st_bind page_now (\<lambda>now.
     st_bind (js_push ''todos'' v (todo_obj text now)) save_todos))"

text \<open>\<^verbatim>\<open>t => t.id===id ? ({...t, done: !t.done}) : t\<close>\<close>

definition toggle_one :: "jval option \<Rightarrow> jval \<Rightarrow> jval pm" where
  "toggle_one i t =
     st_bind (get_prop t ''id'') (\<lambda>tid.
     if js_seq tid i
     then st_bind (get_prop t ''done'') (\<lambda>d.
          st_return (JObj (upd_assoc ''done'' (JBool (\<not> js_truthy d)) (js_spread t))))
     else st_return t)"

definition toggle_todo :: "jval option \<Rightarrow> unit pm" where
  "toggle_todo i =
     st_bind get_todos (\<lambda>v.
     st_bind (js_array ''getTodos(...)'' ''map'' v) (\<lambda>xs.
     st_bind (st_mapM (toggle_one i) xs) (\<lambda>ys. save_todos (JArr ys))))"

definition id_differs :: "jval option \<Rightarrow> jval \<Rightarrow> bool pm" where
  "id_differs i t = st_bind (get_prop t ''id'') (\<lambda>tid. st_return (\<not> js_seq tid i))"

definition remove_todo :: "jval option \<Rightarrow> unit pm" where
  "remove_todo i =
     st_bind get_todos (\<lambda>v.
     st_bind (js_array ''getTodos(...)'' ''filter'' v) (\<lambda>xs.
     st_bind (st_filterM (id_differs i) xs) (\<lambda>ys. save_todos (JArr ys))))"

subsection \<open>Notes (lines 132-142)\<close>

definition get_notes :: "jval option pm" where
  "get_notes = storage_get ''ca_notes'' (Some (JArr []))"

definition note_row :: "page_env \<Rightarrow> jval \<Rightarrow> unit pm" where
  "note_row env n =
     st_bind (get_prop n ''time'') (\<lambda>tm.
     st_bind (get_prop n ''text'') (\<lambda>tx.
     st_modify (\<lambda>p. p\<lparr>note_view := note_view p @ [locale_str env tm @ em_sep @ js_string_of tx]\<rparr>)))"

definition render_notes :: "page_env \<Rightarrow> unit pm" where
  "render_notes env =
     st_bind (st_modify (\<lambda>p. p\<lparr>note_view := []\<rparr>)) (\<lambda>_.
     st_bind get_notes (\<lambda>v.
     st_bind (js_array ''getNotes(...)'' ''forEach'' v) (\<lambda>xs.
     st_forM (note_row env) xs)))"

definition save_notes :: "page_env \<Rightarrow> jval \<Rightarrow> unit pm" where
  "save_notes env v = st_bind (storage_set ''ca_notes'' v) (\<lambda>_. render_notes env)"

definition note_obj :: "string \<Rightarrow> int \<Rightarrow> jval" where
  "note_obj text now = JObj [(''text'', JStr text), (''time'', JNum now), (''id'', JNum now)]"

definition add_note :: "page_env \<Rightarrow> string \<Rightarrow> unit pm" where
  "add_note env text =
     st_bind get_notes (\<lambda>v.
     st_bind page_now (\<lambda>now.
     st_bind (js_unshift ''notes'' v (note_obj text now)) (save_notes env)))"

subsection \<open>Reminders (lines 145-167)\<close>

definition get_reminders :: "jval option pm" where
  "get_reminders = storage_get ''ca_reminders'' (Some (JArr []))"

definition rem_row :: "page_env \<Rightarrow> jval \<Rightarrow> unit pm" where
  "rem_row env r =
     st_bind (get_prop r ''timestamp'') (\<lambda>ts.
     st_bind (get_prop r ''text'') (\<lambda>tx.
     st_modify (\<lambda>p. p\<lparr>rem_view := rem_view p @ [(locale_str env ts @ em_sep @ js_string_of tx, jget r ''id'')]\<rparr>)))"

definition render_reminders :: "page_env \<Rightarrow> unit pm" where
  "render_reminders env =
     st_bind (st_modify (\<lambda>p. p\<lparr>rem_view := []\<rparr>)) (\<lambda>_.
     st_bind get_reminders (\<lambda>v.
     st_bind (js_array ''getReminders(...)'' ''forEach'' v) (\<lambda>xs.
     st_forM (rem_row env) xs)))"

definition save_reminders :: "page_env \<Rightarrow> jval \<Rightarrow> unit pm" where
  "save_reminders env v = st_bind (storage_set ''ca_reminders'' v) (\<lambda>_. render_reminders env)"

definition rem_obj :: "int \<Rightarrow> string \<Rightarrow> int \<Rightarrow> jval" where
  "rem_obj i text ts = JObj [(''id'', JNum i), (''text'', JStr text), (''timestamp'', JNum ts)]"

text \<open>\<^verbatim>\<open>deliverReminder(r)\<close>: the chat message, the notification when granted (a missing
  text gives the empty body), and the removal of every stored reminder with the same id.\<close>

definition deliver_reminder :: "page_env \<Rightarrow> jval \<Rightarrow> unit pm" where
  "deliver_reminder env r =
     st_bind (get_prop r ''text'') (\<lambda>tx.
     st_bind (append_message (''Reminder: '' @ js_string_of tx) ''assistant'') (\<lambda>_.
     st_bind (st_when (notif_granted env)
       (st_modify (\<lambda>p. p\<lparr>notified := notified p @ [case tx of None \<Rightarrow> [] | Some v \<Rightarrow> js_str v]\<rparr>))) (\<lambda>_.
     st_bind get_reminders (\<lambda>v.
     st_bind (js_array ''getReminders(...)'' ''filter'' v) (\<lambda>xs.
     st_bind (st_filterM (id_differs (jget r ''id'')) xs) (\<lambda>ys.
     save_reminders env (JArr ys)))))))"

text \<open>\<^verbatim>\<open>Math.min(delay, 2147483647)\<close> as \<^verbatim>\<open>setTimeout\<close> reads it: \<^verbatim>\<open>NaN\<close> is 0.\<close>

definition max_timer_delay :: int where
  "max_timer_delay = 2147483647"

definition timer_delay :: "int option \<Rightarrow> int" where
  "timer_delay d = (case d of None \<Rightarrow> 0 | Some x \<Rightarrow> min x max_timer_delay)"

definition schedule_timeout :: "page_env \<Rightarrow> jval \<Rightarrow> unit pm" where
  "schedule_timeout env r =
     st_bind (get_prop r ''timestamp'') (\<lambda>ts.
     st_bind page_now (\<lambda>now.
     let delay = map_option (\<lambda>t. t - now) (js_number ts) in
     if (case delay of Some d \<Rightarrow> d \<le> 0 | None \<Rightarrow> False)
     then deliver_reminder env r
     else add_timer (timer_delay delay) (TDeliver r)))"

definition schedule_reminder :: "page_env \<Rightarrow> int \<Rightarrow> string \<Rightarrow> unit pm" where
  "schedule_reminder env ts text =
     st_bind get_reminders (\<lambda>v.
     st_bind page_now (\<lambda>i.
     st_bind (js_push ''rem'' v (rem_obj i text ts)) (\<lambda>rem.
     st_bind (save_reminders env rem) (\<lambda>_.
     schedule_timeout env (rem_obj i text ts)))))"

subsection \<open>The lists as the user sees them\<close>

text \<open>A to-do is a text, a done flag and an id; a note a text, a time and an id; a reminder
  an id, a text and a due time. \<open>todo_val\<close> is the object the page stores for a to-do,
  \<open>todo_rec\<close> reads one back; \<open>todos_abs\<close> is the list of to-dos the stored text
  stands for, as \<^verbatim>\<open>getTodos()\<close> reads it (\<open>None\<close> when an item is not a to-do).
  \<open>todo_line\<close> is what \<^verbatim>\<open>renderTodos\<close> shows of one.\<close>

type_synonym todo_item = "string \<times> bool \<times> int"
type_synonym note_item = "string \<times> int \<times> int"
type_synonym rem_item = "int \<times> string \<times> int"

definition todo_val :: "todo_item \<Rightarrow> jval" where
  "todo_val t = (case t of (tx, d, i) \<Rightarrow> JObj [(''text'', JStr tx), (''done'', JBool d), (''id'', JNum i)])"

fun todo_rec :: "jval \<Rightarrow> todo_item option" where
  "todo_rec (JObj [(a, JStr tx), (b, JBool d), (c, JNum i)]) =
     (if a = ''text'' \<and> b = ''done'' \<and> c = ''id'' then Some (tx, d, i) else None)"
| "todo_rec _ = None"

definition stored_list :: "(jval \<Rightarrow> 'a option) \<Rightarrow> string option \<Rightarrow> 'a list option" where
  "stored_list rd t = (case ls_value t (Some (JArr [])) of Some (JArr xs) \<Rightarrow> those (map rd xs) | _ \<Rightarrow> None)"

definition todos_abs :: "(string \<rightharpoonup> string) \<Rightarrow> todo_item list option" where
  "todos_abs m = stored_list todo_rec (m ''ca_todos'')"

definition todo_line :: "todo_item \<Rightarrow> string \<times> string \<times> jval option" where
  "todo_line t = (case t of (tx, d, i) \<Rightarrow>
     (tx @ (if d then check_mark else []), if d then ''Undo'' else ''Done'', Some (JNum i)))"

definition todo_flip :: "int \<Rightarrow> todo_item \<Rightarrow> todo_item" where
  "todo_flip i t = (case t of (tx, d, j) \<Rightarrow> if j = i then (tx, \<not> d, j) else (tx, d, j))"

definition todo_id :: "todo_item \<Rightarrow> int" where
  "todo_id t = snd (snd t)"

definition note_line :: "page_env \<Rightarrow> note_item \<Rightarrow> string" where
  "note_line env n = (case n of (tx, tm, i) \<Rightarrow> locale_str env (Some (JNum tm)) @ em_sep @ tx)"

definition note_val :: "note_item \<Rightarrow> jval" where
  "note_val n = (case n of (tx, tm, i) \<Rightarrow> JObj [(''text'', JStr tx), (''time'', JNum tm), (''id'', JNum i)])"

fun note_rec :: "jval \<Rightarrow> note_item option" where
  "note_rec (JObj [(a, JStr tx), (b, JNum tm), (c, JNum i)]) =
     (if a = ''text'' \<and> b = ''time'' \<and> c = ''id'' then Some (tx, tm, i) else None)"
| "note_rec _ = None"

definition notes_abs :: "(string \<rightharpoonup> string) \<Rightarrow> note_item list option" where
  "notes_abs m = stored_list note_rec (m ''ca_notes'')"

definition rem_val :: "rem_item \<Rightarrow> jval" where
  "rem_val r = (case r of (i, tx, ts) \<Rightarrow> rem_obj i tx ts)"

fun rem_rec :: "jval \<Rightarrow> rem_item option" where
  "rem_rec (JObj [(a, JNum i), (b, JStr tx), (c, JNum ts)]) =
     (if a = ''id'' \<and> b = ''text'' \<and> c = ''timestamp'' then Some (i, tx, ts) else None)"
| "rem_rec _ = None"

definition rems_abs :: "(string \<rightharpoonup> string) \<Rightarrow> rem_item list option" where
  "rems_abs m = stored_list rem_rec (m ''ca_reminders'')"

definition rem_line :: "page_env \<Rightarrow> rem_item \<Rightarrow> string \<times> jval option" where
  "rem_line env r = (case r of (i, tx, ts) \<Rightarrow> (locale_str env (Some (JNum ts)) @ em_sep @ tx, Some (JNum i)))"

definition rem_id :: "rem_item \<Rightarrow> int" where
  "rem_id r = fst r"

definition list_json :: "('a \<Rightarrow> jval) \<Rightarrow> 'a list \<Rightarrow> string" where
  "list_json f xs = json_stringify (JArr (map f xs))"

subsection \<open>The operations on the lists\<close>

text \<open>Every operation on a stored list that the page itself wrote reads the list back
  exactly (the JSON round trip), changes it as the user asked, writes it back and renders it.
  These equations are the refinement of the list operations by the code of the page.\<close>

lemma ls_value_stringify: "jwf v \<Longrightarrow> v \<noteq> JNull \<Longrightarrow> ls_value (Some (json_stringify v)) fb = Some v"
  using json_parse_stringify [of v] by (cases v) (auto simp: ls_value_def)

lemma item_vals_jwf [simp]: "jwf (todo_val t)" "jwf (note_val n)" "jwf (rem_val r)"
  by (auto simp: todo_val_def note_val_def rem_val_def rem_obj_def split: prod.splits)

lemma item_recs_val [simp]:
  "todo_rec (todo_val t) = Some t" "note_rec (note_val n) = Some n" "rem_rec (rem_val r) = Some r"
  by (auto simp: todo_val_def note_val_def rem_val_def rem_obj_def split: prod.splits)

lemma todo_rec_Some: "todo_rec x = Some t \<Longrightarrow> x = todo_val t"
  by (induction x rule: todo_rec.induct) (auto simp: todo_val_def split: if_splits)

lemma note_rec_Some: "note_rec x = Some n \<Longrightarrow> x = note_val n"
  by (induction x rule: note_rec.induct) (auto simp: note_val_def split: if_splits)

lemma rem_rec_Some: "rem_rec x = Some r \<Longrightarrow> x = rem_val r"
  by (induction x rule: rem_rec.induct) (auto simp: rem_val_def rem_obj_def split: if_splits)

lemma stored_list_json:
  assumes "\<And>y. rd (g y) = Some y" "\<And>y. jwf (g y)"
  shows "stored_list rd (Some (list_json g ys)) = Some ys"
proof -
  have "jwf (JArr (map g ys))" using assms(2) by (simp add: list_all_iff)
  then have "ls_value (Some (list_json g ys)) (Some (JArr [])) = Some (JArr (map g ys))"
    unfolding list_json_def by (rule ls_value_stringify) simp
  then show ?thesis
    using those_map_inv [of rd g ys] assms(1) by (simp add: stored_list_def)
qed

lemma stored_list_Some:
  assumes "stored_list rd t = Some ys" "\<And>x y. rd x = Some y \<Longrightarrow> x = g y"
  shows "ls_value t (Some (JArr [])) = Some (JArr (map g ys))"
  using assms those_map_eq [of rd _ ys g]
  by (auto simp: stored_list_def split: option.splits jval.splits)

lemma js_array_JArr [simp]: "js_array r m (Some (JArr xs)) = st_return xs"
  by (simp add: js_array_def)

lemma todo_row_val: "todo_row (todo_val t) p = (Inr (), p\<lparr>todo_view := todo_view p @ [todo_line t]\<rparr>)"
  by (cases t) (simp add: todo_row_def todo_val_def todo_line_def get_prop_apply js_string_of_def)

lemma forM_todo_rows:
  "st_forM todo_row (map todo_val ts) p = (Inr (), p\<lparr>todo_view := todo_view p @ map todo_line ts\<rparr>)"
  by (induction ts arbitrary: p) (simp_all add: todo_row_val)

lemma get_todos_abs:
  "todos_abs (ls p) = Some ts \<Longrightarrow> get_todos p = (Inr (Some (JArr (map todo_val ts))), p)"
  using stored_list_Some [of todo_rec "ls p ''ca_todos''" ts todo_val]
  by (simp add: get_todos_def storage_get_def todos_abs_def todo_rec_Some)

lemma render_todos_abs:
  "todos_abs (ls p) = Some ts \<Longrightarrow> render_todos p = (Inr (), p\<lparr>todo_view := map todo_line ts\<rparr>)"
proof -
  assume a: "todos_abs (ls p) = Some ts"
  then show ?thesis
    by (simp add: render_todos_def get_todos_abs forM_todo_rows)
qed

lemma todos_abs_json [simp]:
  "todos_abs (m(''ca_todos'' \<mapsto> list_json todo_val ts)) = Some ts"
  by (simp add: todos_abs_def stored_list_json)

lemma save_todos_list:
  "save_todos (JArr (map todo_val ts)) p =
   (Inr (), p\<lparr>ls := (ls p)(''ca_todos'' \<mapsto> list_json todo_val ts), todo_view := map todo_line ts\<rparr>)"
proof -
  have "save_todos (JArr (map todo_val ts)) p =
        render_todos (p\<lparr>ls := (ls p)(''ca_todos'' \<mapsto> list_json todo_val ts)\<rparr>)"
    by (simp add: save_todos_def storage_set_def list_json_def)
  then show ?thesis by (simp add: render_todos_abs)
qed

lemma todo_obj_val: "todo_obj text now = todo_val (text, False, now)"
  by (simp add: todo_obj_def todo_val_def)

lemma add_todo_refines:
  "todos_abs (ls p) = Some ts \<Longrightarrow>
   add_todo text p =
     (Inr (), p\<lparr>ls := (ls p)(''ca_todos'' \<mapsto> list_json todo_val (ts @ [(text, False, pclock p)])),
                todo_view := map todo_line (ts @ [(text, False, pclock p)])\<rparr>)"
  using save_todos_list [of "ts @ [(text, False, pclock p)]" p]
  by (simp add: add_todo_def get_todos_abs page_now_def js_push_def todo_obj_val)

lemma toggle_one_val:
  "toggle_one (Some (JNum i)) (todo_val t) p = (Inr (todo_val (todo_flip i t)), p)"
  by (cases t) (simp add: toggle_one_def todo_val_def todo_flip_def get_prop_apply)

lemma toggle_todo_refines:
  "todos_abs (ls p) = Some ts \<Longrightarrow>
   toggle_todo (Some (JNum i)) p =
     (Inr (), p\<lparr>ls := (ls p)(''ca_todos'' \<mapsto> list_json todo_val (map (todo_flip i) ts)),
                todo_view := map todo_line (map (todo_flip i) ts)\<rparr>)"
proof -
  assume a: "todos_abs (ls p) = Some ts"
  have "st_mapM (toggle_one (Some (JNum i))) (map todo_val ts) p = (Inr (map todo_val (map (todo_flip i) ts)), p)"
    by (induction ts) (simp_all add: toggle_one_val)
  with a show ?thesis
    using save_todos_list [of "map (todo_flip i) ts" p]
    by (simp add: toggle_todo_def get_todos_abs)
qed

lemma id_differs_val:
  "id_differs (Some (JNum i)) (todo_val t) p = (Inr (todo_id t \<noteq> i), p)"
  by (cases t) (simp add: id_differs_def todo_val_def todo_id_def get_prop_apply)

lemma remove_todo_refines:
  "todos_abs (ls p) = Some ts \<Longrightarrow>
   remove_todo (Some (JNum i)) p =
     (Inr (), p\<lparr>ls := (ls p)(''ca_todos'' \<mapsto> list_json todo_val (filter (\<lambda>t. todo_id t \<noteq> i) ts)),
                todo_view := map todo_line (filter (\<lambda>t. todo_id t \<noteq> i) ts)\<rparr>)"
proof -
  assume a: "todos_abs (ls p) = Some ts"
  have "st_filterM (id_differs (Some (JNum i))) (map todo_val ts) p =
        (Inr (map todo_val (filter (\<lambda>t. todo_id t \<noteq> i) ts)), p)"
    by (induction ts) (simp_all add: id_differs_val)
  then show ?thesis
    using a save_todos_list [of "filter (\<lambda>t. todo_id t \<noteq> i) ts" p]
    by (simp add: remove_todo_def get_todos_abs)
qed

lemma note_row_val:
  "note_row env (note_val n) p = (Inr (), p\<lparr>note_view := note_view p @ [note_line env n]\<rparr>)"
  by (cases n) (simp add: note_row_def note_val_def note_line_def get_prop_apply js_string_of_def)

lemma forM_note_rows:
  "st_forM (note_row env) (map note_val ns) p = (Inr (), p\<lparr>note_view := note_view p @ map (note_line env) ns\<rparr>)"
  by (induction ns arbitrary: p) (simp_all add: note_row_val)

lemma get_notes_abs:
  "notes_abs (ls p) = Some ns \<Longrightarrow> get_notes p = (Inr (Some (JArr (map note_val ns))), p)"
  using stored_list_Some [of note_rec "ls p ''ca_notes''" ns note_val]
  by (simp add: get_notes_def storage_get_def notes_abs_def note_rec_Some)

lemma render_notes_abs:
  "notes_abs (ls p) = Some ns \<Longrightarrow> render_notes env p = (Inr (), p\<lparr>note_view := map (note_line env) ns\<rparr>)"
proof -
  assume "notes_abs (ls p) = Some ns"
  then show ?thesis by (simp add: render_notes_def get_notes_abs forM_note_rows)
qed

lemma notes_abs_json [simp]:
  "notes_abs (m(''ca_notes'' \<mapsto> list_json note_val ns)) = Some ns"
  by (simp add: notes_abs_def stored_list_json)

lemma save_notes_list:
  "save_notes env (JArr (map note_val ns)) p =
   (Inr (), p\<lparr>ls := (ls p)(''ca_notes'' \<mapsto> list_json note_val ns), note_view := map (note_line env) ns\<rparr>)"
proof -
  have "save_notes env (JArr (map note_val ns)) p =
        render_notes env (p\<lparr>ls := (ls p)(''ca_notes'' \<mapsto> list_json note_val ns)\<rparr>)"
    by (simp add: save_notes_def storage_set_def list_json_def)
  then show ?thesis by (simp add: render_notes_abs)
qed

lemma add_note_refines:
  "notes_abs (ls p) = Some ns \<Longrightarrow>
   add_note env text p =
     (Inr (), p\<lparr>ls := (ls p)(''ca_notes'' \<mapsto> list_json note_val ((text, pclock p, pclock p) # ns)),
                note_view := map (note_line env) ((text, pclock p, pclock p) # ns)\<rparr>)"
  using save_notes_list [of env "(text, pclock p, pclock p) # ns" p]
  by (simp add: add_note_def get_notes_abs page_now_def js_unshift_def note_obj_def note_val_def)

lemma rem_row_val:
  "rem_row env (rem_val r) p = (Inr (), p\<lparr>rem_view := rem_view p @ [rem_line env r]\<rparr>)"
  by (cases r) (simp add: rem_row_def rem_val_def rem_obj_def rem_line_def get_prop_apply js_string_of_def)

lemma forM_rem_rows:
  "st_forM (rem_row env) (map rem_val rs) p = (Inr (), p\<lparr>rem_view := rem_view p @ map (rem_line env) rs\<rparr>)"
  by (induction rs arbitrary: p) (simp_all add: rem_row_val)

lemma get_reminders_abs:
  "rems_abs (ls p) = Some rs \<Longrightarrow> get_reminders p = (Inr (Some (JArr (map rem_val rs))), p)"
  using stored_list_Some [of rem_rec "ls p ''ca_reminders''" rs rem_val]
  by (simp add: get_reminders_def storage_get_def rems_abs_def rem_rec_Some)

lemma render_reminders_abs:
  "rems_abs (ls p) = Some rs \<Longrightarrow> render_reminders env p = (Inr (), p\<lparr>rem_view := map (rem_line env) rs\<rparr>)"
proof -
  assume "rems_abs (ls p) = Some rs"
  then show ?thesis by (simp add: render_reminders_def get_reminders_abs forM_rem_rows)
qed

lemma rems_abs_json [simp]:
  "rems_abs (m(''ca_reminders'' \<mapsto> list_json rem_val rs)) = Some rs"
  by (simp add: rems_abs_def stored_list_json)

lemma save_reminders_list:
  "save_reminders env (JArr (map rem_val rs)) p =
   (Inr (), p\<lparr>ls := (ls p)(''ca_reminders'' \<mapsto> list_json rem_val rs), rem_view := map (rem_line env) rs\<rparr>)"
proof -
  have "save_reminders env (JArr (map rem_val rs)) p =
        render_reminders env (p\<lparr>ls := (ls p)(''ca_reminders'' \<mapsto> list_json rem_val rs)\<rparr>)"
    by (simp add: save_reminders_def storage_set_def list_json_def)
  then show ?thesis by (simp add: render_reminders_abs)
qed

lemma rem_id_differs_val:
  "id_differs (Some (JNum i)) (rem_val r) p = (Inr (rem_id r \<noteq> i), p)"
  by (cases r) (simp add: id_differs_def rem_val_def rem_obj_def rem_id_def get_prop_apply)

lemma filter_rems:
  "st_filterM (id_differs (Some (JNum i))) (map rem_val rs) p =
   (Inr (map rem_val (filter (\<lambda>x. rem_id x \<noteq> i) rs)), p)"
  by (induction rs) (simp_all add: rem_id_differs_val)

lemma deliver_reminder_refines:
  "rems_abs (ls p) = Some rs \<Longrightarrow>
   deliver_reminder env (rem_val r) p =
     (Inr (), p\<lparr>chat_log := chat_log p @ [(''assistant'', ''Reminder: '' @ fst (snd r))],
                notified := notified p @ (if notif_granted env then [fst (snd r)] else []),
                ls := (ls p)(''ca_reminders'' \<mapsto> list_json rem_val (filter (\<lambda>x. rem_id x \<noteq> rem_id r) rs)),
                rem_view := map (rem_line env) (filter (\<lambda>x. rem_id x \<noteq> rem_id r) rs)\<rparr>)"
proof -
  assume a: "rems_abs (ls p) = Some rs"
  obtain i tx ts where r: "r = (i, tx, ts)" by (cases r)
  have v: "rem_val (i, tx, ts) = JObj [(''id'', JNum i), (''text'', JStr tx), (''timestamp'', JNum ts)]"
    by (simp add: rem_val_def rem_obj_def)
  show ?thesis
    using a by (cases "notif_granted env")
      (simp_all add: deliver_reminder_def v r get_prop_apply js_string_of_def append_message_def
                     get_reminders_abs filter_rems save_reminders_list rem_id_def)
qed

lemma rem_obj_val: "rem_obj i tx ts = rem_val (i, tx, ts)"
  by (simp add: rem_val_def)

lemma schedule_timeout_future:
  "pclock p < ts \<Longrightarrow>
   schedule_timeout env (rem_val (i, tx, ts)) p =
     (Inr (), p\<lparr>timers := queue_timer (pclock p + min (ts - pclock p) max_timer_delay)
                              (TDeliver (rem_val (i, tx, ts))) (timers p)\<rparr>)"
  by (simp add: schedule_timeout_def rem_val_def rem_obj_def get_prop_apply page_now_def
                add_timer_def timer_delay_def)

lemma schedule_timeout_past:
  "ts \<le> pclock p \<Longrightarrow> schedule_timeout env (rem_val (i, tx, ts)) p = deliver_reminder env (rem_val (i, tx, ts)) p"
  by (simp add: schedule_timeout_def rem_val_def rem_obj_def get_prop_apply page_now_def)

lemma schedule_reminder_future:
  "rems_abs (ls p) = Some rs \<Longrightarrow> pclock p < ts \<Longrightarrow>
   schedule_reminder env ts text p =
     (Inr (), p\<lparr>ls := (ls p)(''ca_reminders'' \<mapsto> list_json rem_val (rs @ [(pclock p, text, ts)])),
                rem_view := map (rem_line env) (rs @ [(pclock p, text, ts)]),
                timers := queue_timer (pclock p + min (ts - pclock p) max_timer_delay)
                            (TDeliver (rem_val (pclock p, text, ts))) (timers p)\<rparr>)"
  using save_reminders_list [of env "rs @ [(pclock p, text, ts)]" p]
  by (simp add: schedule_reminder_def get_reminders_abs page_now_def js_push_def rem_obj_val
                schedule_timeout_future)

lemma schedule_reminder_past:
  "rems_abs (ls p) = Some rs \<Longrightarrow> ts \<le> pclock p \<Longrightarrow>
   schedule_reminder env ts text p =
     (Inr (), p\<lparr>ls := (ls p)(''ca_reminders'' \<mapsto>
                   list_json rem_val (filter (\<lambda>x. rem_id x \<noteq> pclock p) (rs @ [(pclock p, text, ts)]))),
                rem_view := map (rem_line env) (filter (\<lambda>x. rem_id x \<noteq> pclock p) (rs @ [(pclock p, text, ts)])),
                chat_log := chat_log p @ [(''assistant'', ''Reminder: '' @ text)],
                notified := notified p @ (if notif_granted env then [text] else [])\<rparr>)"
  using save_reminders_list [of env "rs @ [(pclock p, text, ts)]" p]
  by (simp add: schedule_reminder_def get_reminders_abs page_now_def js_push_def rem_obj_val
                schedule_timeout_past deliver_reminder_refines rem_id_def)

subsection \<open>Properties of the stored lists\<close>

text \<open>C29: \<^verbatim>\<open>storage.get\<close> after \<^verbatim>\<open>storage.set\<close> of the same key gives the value back, for
  every value JavaScript can build except \<^verbatim>\<open>null\<close> (which reads as the fallback).\<close>

theorem storage_set_get:
  "jwf v \<Longrightarrow> v \<noteq> JNull \<Longrightarrow>
   st_bind (storage_set k v) (\<lambda>_. storage_get k fb) p = (Inr (Some v), p\<lparr>ls := (ls p)(k \<mapsto> json_stringify v)\<rparr>)"
  by (simp add: storage_set_def storage_get_def ls_value_stringify)

text \<open>C30: Adding a to-do to a stored list of to-dos appends the to-do, not done, with the
  current time as id, and shows the new list.\<close>

theorem add_todo_appends:
  "todos_abs (ls p) = Some ts \<Longrightarrow>
   fst (add_todo text p) = Inr () \<and>
   todos_abs (ls (snd (add_todo text p))) = Some (ts @ [(text, False, pclock p)]) \<and>
   todo_view (snd (add_todo text p)) = map todo_line (ts @ [(text, False, pclock p)])"
  by (simp add: add_todo_refines)

text \<open>C31: Toggling the id \<open>i\<close> flips the done flag of exactly the to-dos with id \<open>i\<close>
  and keeps their order.\<close>

theorem toggle_todo_flips:
  "todos_abs (ls p) = Some ts \<Longrightarrow>
   fst (toggle_todo (Some (JNum i)) p) = Inr () \<and>
   todos_abs (ls (snd (toggle_todo (Some (JNum i)) p))) = Some (map (todo_flip i) ts)"
  by (simp add: toggle_todo_refines)

text \<open>C32: Removing the id \<open>i\<close> removes exactly the to-dos with id \<open>i\<close>.\<close>

theorem remove_todo_filters:
  "todos_abs (ls p) = Some ts \<Longrightarrow>
   fst (remove_todo (Some (JNum i)) p) = Inr () \<and>
   todos_abs (ls (snd (remove_todo (Some (JNum i)) p))) = Some (filter (\<lambda>t. todo_id t \<noteq> i) ts)"
  by (simp add: remove_todo_refines)

text \<open>C33: Ids are \<^verbatim>\<open>Date.now()\<close>: two to-dos added within the same millisecond share
  their id, and toggling one toggles both.\<close>

theorem same_tick_todos_toggle_together:
  "todos_abs (ls p) = Some ts \<Longrightarrow>
   todos_abs (ls (snd (toggle_todo (Some (JNum (pclock p))) (snd (add_todo b (snd (add_todo a p))))))) =
   Some (map (todo_flip (pclock p)) ts @ [(a, True, pclock p), (b, True, pclock p)])"
  by (simp add: add_todo_refines toggle_todo_refines todo_flip_def)

text \<open>C34: Saving a note puts it first in the stored notes, with the current time as its
  time and its id.\<close>

theorem add_note_prepends:
  "notes_abs (ls p) = Some ns \<Longrightarrow>
   fst (add_note env text p) = Inr () \<and>
   notes_abs (ls (snd (add_note env text p))) = Some ((text, pclock p, pclock p) # ns) \<and>
   note_view (snd (add_note env text p)) = map (note_line env) ((text, pclock p, pclock p) # ns)"
  by (simp add: add_note_refines)

text \<open>C35: Delivering a reminder posts \<^verbatim>\<open>Reminder: text\<close> to the chat, shows a
  notification when granted, and removes from storage every reminder with its id.\<close>

theorem deliver_reminder_removes:
  "rems_abs (ls p) = Some rs \<Longrightarrow>
   fst (deliver_reminder env (rem_val r) p) = Inr () \<and>
   chat_log (snd (deliver_reminder env (rem_val r) p)) = chat_log p @ [(''assistant'', ''Reminder: '' @ fst (snd r))] \<and>
   rems_abs (ls (snd (deliver_reminder env (rem_val r) p))) = Some (filter (\<lambda>x. rem_id x \<noteq> rem_id r) rs)"
  by (simp add: deliver_reminder_refines)

text \<open>C36: A reminder due more than \<open>2147483647\<close> ms (about 24.8 days) ahead is queued to
  fire after exactly \<open>2147483647\<close> ms, before it is due; the callback delivers it then.\<close>

theorem reminder_timer_clamped:
  "rems_abs (ls p) = Some rs \<Longrightarrow> pclock p + max_timer_delay < ts \<Longrightarrow>
   timers (snd (schedule_reminder env ts text p)) =
     queue_timer (pclock p + max_timer_delay) (TDeliver (rem_val (pclock p, text, ts))) (timers p) \<and>
   pclock p + max_timer_delay < ts"
  by (simp add: schedule_reminder_future max_timer_delay_def)

end
