(* ===== verification/Assistant.thy ===== *)
theory Assistant
  imports Page
begin

text \<open>
  The chat assistant of the browser page, \<^verbatim>\<open>assistantReply\<close> (\<^verbatim>\<open>src/public/app.js\<close>
  lines 46-88): five regular expressions tried in order, each leading to one action on the
  page's lists and one reply. \<open>assistant_reply\<close> is the function, with the expressions
  \<open>todo_rx\<close>, \<open>remind_rx\<close>, \<open>list_rx\<close>, \<open>note_rx\<close> and \<open>help_rx\<close> written in the
  syntax of \<open>Regex\<close>.
\<close>

definition dq :: string where
  "dq = [CHR 0x22]"

subsection \<open>The expressions\<close>

text \<open>\<^verbatim>\<open>/(?:add|create) (?:a )?todo[: ]?\s*(.+)/i\<close>\<close>

definition todo_rx :: rx where
  "todo_rx = rx_cat [RAlt (ci ''add'') (ci ''create''), ci '' '', ROpt (ci ''a ''), ci ''todo'',
                     ROpt (RTok tok_colon_space), RStar tok_ws, RGroup 1 (RPlus tok_dot)]"

text \<open>\<^verbatim>\<open>/(?:remind me to)\s+(.+)\s+in\s+(\d+)\s*(second|seconds|minute|minutes|hour|hours)/i\<close>\<close>

definition remind_rx :: rx where
  "remind_rx = rx_cat [ci ''remind me to'', RPlus tok_ws, RGroup 1 (RPlus tok_dot), RPlus tok_ws,
                       ci ''in'', RPlus tok_ws, RGroup 2 (RPlus tok_digit), RStar tok_ws,
                       RGroup 3 (rx_alts [ci ''second'', ci ''seconds'', ci ''minute'', ci ''minutes'',
                                          ci ''hour'', ci ''hours''])]"

definition list_rx :: rx where
  "list_rx = rx_alts [ci ''list todos'', ci ''show todos'', ci ''what are my todos'']"

definition note_rx :: rx where
  "note_rx = rx_alts [ci ''note'', ci ''remember'']"

definition help_rx :: rx where
  "help_rx = rx_alts [ci ''help'', ci ''commands'', ci ''what can you do'']"

text \<open>\<^verbatim>\<open>m[k]\<close> of a successful match (every group of the page's expressions takes part
  in every match).\<close>

definition cap :: "caps \<Rightarrow> nat \<Rightarrow> string" where
  "cap c k = (case c k of Some w \<Rightarrow> w | None \<Rightarrow> ''undefined'')"

subsection \<open>The replies\<close>

definition help_msg :: string where
  "help_msg = ''I can manage simple to'' @ [CHR 0xE2, CHR 0x80, CHR 0x91] @ ''dos, notes, and reminders. Try: '' @ [CHR 0x22] @ ''add todo buy milk'' @ [CHR 0x22] @ '', '' @ [CHR 0x22] @ ''remind me to stretch in 10 minutes'' @ [CHR 0x22] @ '', '' @ [CHR 0x22] @ ''save note: buy milk'' @ [CHR 0x22] @ ''.''"

definition default_msg :: string where
  "default_msg = ''I can help with to'' @ [CHR 0xE2, CHR 0x80, CHR 0x91] @ ''dos, notes and reminders '' @ [CHR 0xE2, CHR 0x80, CHR 0x94] @ '' say '' @ [CHR 0x27] @ ''help'' @ [CHR 0x27] @ '' for examples.''"

definition no_todos_msg :: string where
  "no_todos_msg = ''You have no to'' @ nb_hyphen @ ''dos.''"

text \<open>\<^verbatim>\<open>u.startsWith(w)\<close>, case-sensitive.\<close>

definition starts_with :: "string \<Rightarrow> string \<Rightarrow> bool" where
  "starts_with u w \<longleftrightarrow> take (length w) u = w"

text \<open>The delay of lines 60-63: the unit as the user typed it, compared case-sensitively.\<close>

definition unit_ms :: "string \<Rightarrow> int \<Rightarrow> int" where
  "unit_ms u num =
     (if starts_with u ''second'' then num * 1000
      else if starts_with u ''minute'' then num * 60 * 1000
      else if starts_with u ''hour'' then num * 60 * 60 * 1000
      else 0)"

text \<open>\<^verbatim>\<open>todos.length\<close> on what \<^verbatim>\<open>storage.get\<close> returned.\<close>

fun js_length :: "jval \<Rightarrow> jval option" where
  "js_length (JArr xs) = Some (JNum (int (length xs)))"
| "js_length (JStr s) = Some (JNum (int (length s)))"
| "js_length (JObj kvs) = map_of kvs ''length''"
| "js_length _ = None"

text \<open>\<^verbatim>\<open>(t,i)=>`${i+1}. ${t.text}${t.done? ' (done)':''}`\<close>\<close>

definition todo_list_line :: "jval \<times> nat \<Rightarrow> string pm" where
  "todo_list_line ti = (case ti of (t, i) \<Rightarrow>
     st_bind (get_prop t ''text'') (\<lambda>tx.
     st_bind (get_prop t ''done'') (\<lambda>d.
     st_return (nat_str (i + 1) @ ''. '' @ js_string_of tx @ (if js_truthy d then '' (done)'' else [])))))"

definition list_reply :: "string pm" where
  "list_reply =
     st_bind get_todos (\<lambda>v.
     if \<not> js_truthy (case v of Some x \<Rightarrow> js_length x | None \<Rightarrow> None)
     then st_return no_todos_msg
     else st_bind (js_array ''todos'' ''map'' v) (\<lambda>xs.
          st_bind (st_mapM todo_list_line (zip xs [0..<length xs])) (\<lambda>ls.
          st_return (''To'' @ nb_hyphen @ ''dos:'' @ [CHR 0x0A] @ js_join [CHR 0x0A] ls))))"

text \<open>The line of the list reply for the \<open>k\<close>-th stored to-do.\<close>

definition todo_list_text :: "todo_item \<times> nat \<Rightarrow> string" where
  "todo_list_text tk = (case tk of ((tx, d, i), k) \<Rightarrow>
     nat_str (k + 1) @ ''. '' @ tx @ (if d then '' (done)'' else []))"

text \<open>\<^verbatim>\<open>parts = message.split(':'); parts.shift(); parts.join(':').trim()\<close>: the text
  after the first colon, trimmed.\<close>

definition note_body :: "string \<Rightarrow> string" where
  "note_body m = js_trim (tl (dropWhile (\<lambda>c. c \<noteq> CHR '':'') m))"

definition assistant_reply :: "page_env \<Rightarrow> string \<Rightarrow> string pm" where
  "assistant_reply env message =
     (let msg = js_trim message in
      case rx_search todo_rx msg of
        Some c \<Rightarrow>
          st_bind (add_todo (cap c 1)) (\<lambda>_.
          st_return (''Added to'' @ nb_hyphen @ ''do: '' @ dq @ cap c 1 @ dq))
      | None \<Rightarrow>
      (case rx_search remind_rx msg of
        Some c \<Rightarrow>
          (let text = cap c 1; num = int (digits_val (cap c 2)); u = cap c 3 in
           st_bind page_now (\<lambda>now.
           st_bind (schedule_reminder env (now + unit_ms u num) text) (\<lambda>_.
           st_return (''Okay '' @ em_dash @ '' I'' @ [CHR 0x27] @ ''ll remind you to '' @ dq @ text @ dq @
                      '' in '' @ int_str num @ '' '' @ u @ ''.''))))
      | None \<Rightarrow>
      if rx_test list_rx msg then list_reply
      else if rx_test note_rx msg \<and> CHR '':'' \<in> set msg then
        (let body = note_body msg in
         st_bind (add_note env body) (\<lambda>_.
         st_return (''Saved a note: '' @ dq @ take 60 body @ dq)))
      else if rx_test help_rx msg then st_return help_msg
      else st_return default_msg))"

subsection \<open>Properties of the assistant\<close>

lemma todo_rx_add:
  assumes "t \<noteq> []" "ws_len t = 0" "line_free t"
  shows "rx_search todo_rx (''add todo '' @ t) = Some ((\<lambda>_. None)(1 := Some t))"
proof -
  obtain rest where r: "rev (tl (tok_runs tok_dot t)) = [] # rest"
    using plus_dot_greedy assms by blast
  have w: "tok_runs tok_ws t = [t]" using assms(2) by (simp add: tok_runs_None tok_ws_def)
  show ?thesis
    by (simp add: todo_rx_def rx_search.simps ci_def ci_char_def ascii_lower_def tok_colon_space_def
                  char_of_eq_iff w r)
qed

text \<open>C37: A message that reads, once trimmed, \<^verbatim>\<open>add todo \<close> followed by a non-empty text
  \<open>t\<close> on one line that does not start with white space adds the to-do \<open>t\<close> and replies
  \<^verbatim>\<open>Added to-do: "t"\<close>; nothing else changes.\<close>

theorem assistant_add_todo:
  "js_trim m = ''add todo '' @ t \<Longrightarrow> t \<noteq> [] \<Longrightarrow> ws_len t = 0 \<Longrightarrow> line_free t \<Longrightarrow>
   todos_abs (ls p) = Some ts \<Longrightarrow>
   assistant_reply env m p =
     (Inr (''Added to'' @ nb_hyphen @ ''do: '' @ dq @ t @ dq),
      p\<lparr>ls := (ls p)(''ca_todos'' \<mapsto> list_json todo_val (ts @ [(t, False, pclock p)])),
        todo_view := map todo_line (ts @ [(t, False, pclock p)])\<rparr>)"
proof -
  assume h: "js_trim m = ''add todo '' @ t" "t \<noteq> []" "ws_len t = 0" "line_free t" "todos_abs (ls p) = Some ts"
  have "rx_search todo_rx (js_trim m) = Some ((\<lambda>_. None)(1 := Some t))"
    using todo_rx_add [of t] h(1-4) by simp
  with h(5) show ?thesis by (simp add: assistant_reply_def Let_def cap_def add_todo_refines)
qed

lemma remind_minutes_match:
  "rx_search todo_rx ''remind me to stretch in 10 Minutes'' = None \<and>
   rx_search remind_rx ''remind me to stretch in 10 Minutes'' =
     Some ((\<lambda>_. None)(1 := Some ''stretch'', 2 := Some ''10'', 3 := Some ''Minute''))"
  by (simp add: todo_rx_def remind_rx_def rx_eval)

text \<open>C38: The expression is case-insensitive but the unit is compared case-sensitively,
  and \<^verbatim>\<open>second|seconds|...\<close> always captures the singular: \<^verbatim>\<open>remind me to stretch in 10
  Minutes\<close> replies \<^verbatim>\<open>... in 10 Minute.\<close>, computes a delay of 0, and delivers the
  reminder at once, queueing no timer.\<close>

theorem remind_unit_case_fires_now:
  "rems_abs (ls p) = Some rs \<Longrightarrow>
   fst (assistant_reply env ''remind me to stretch in 10 Minutes'' p) =
     Inr (''Okay '' @ em_dash @ '' I'' @ [CHR 0x27] @ ''ll remind you to '' @ dq @ ''stretch'' @ dq @ '' in 10 Minute.'') \<and>
   chat_log (snd (assistant_reply env ''remind me to stretch in 10 Minutes'' p)) =
     chat_log p @ [(''assistant'', ''Reminder: stretch'')] \<and>
   timers (snd (assistant_reply env ''remind me to stretch in 10 Minutes'' p)) = timers p"
proof -
  assume a: "rems_abs (ls p) = Some rs"
  have tr: "js_trim ''remind me to stretch in 10 Minutes'' = ''remind me to stretch in 10 Minutes''"
    by (simp add: trim_eval)
  have u: "unit_ms ''Minute'' 10 = 0" by (simp add: unit_ms_def starts_with_def)
  show ?thesis
    using a by (simp add: assistant_reply_def tr remind_minutes_match cap_def u page_now_def
                          schedule_reminder_past digits_val_def digit_val_def int_str_def nat_str.simps char_of_eq_iff)
qed

end
