(* ===== verification/App.thy ===== *)
theory App
  imports Assistant
begin

text \<open>
  The browser page as an event-driven program (\<^verbatim>\<open>src/public/app.js\<close>): the handlers
  the page registers, the boot sequence, and one step of the page for each event the
  browser delivers.
  \<^item> \<open>chat_submit\<close>, \<open>todo_submit\<close>, \<open>note_save\<close>, \<open>reminder_submit\<close> are the
    form handlers (lines 90-100, 113, 140, 154); \<open>run_task\<close> runs a due timer callback
    (the chat reply of line 96, \<^verbatim>\<open>deliverReminder\<close> of line 158);
    \<open>on_message\<close> is the \<^verbatim>\<open>message\<close> listener (lines 182-191), \<open>sign_in\<close> the sign-in
    button (lines 195-198), \<open>drive_load\<close> the Drive loader (lines 208-219) and
    \<open>config_loaded\<close> the end of \<^verbatim>\<open>loadWorkerConfig\<close> (lines 12-20).
  \<^item> \<open>boot\<close> is the script's top level: \<^verbatim>\<open>init()\<close> (lines 175-178) and the stored
    e-mail (line 202). The three listeners registered after \<^verbatim>\<open>init()\<close> (message, sign-in,
    Drive loader) exist only when \<^verbatim>\<open>init()\<close> returned: \<open>wired\<close> records it.
  \<^item> An uncaught exception ends the handler that raised it and keeps what it did before;
    \<open>page_step\<close> runs a handler inside \<open>st_catch\<close> for that reason.
  \<^item> \<open>page_reach\<close> is the set of states the page reaches from a boot with a given
    \<^verbatim>\<open>localStorage\<close>, by rule induction over which \<open>page_ok\<close> is an invariant.
  The request of \<^verbatim>\<open>loadWorkerConfig\<close> is sent at boot and answered later; the model
  sends it when the answer arrives, so \<open>fetched\<close> lists it at that point.
\<close>

datatype page_event =
    ChatSubmit string
  | TodoSubmit string
  | TodoToggle nat
  | TodoRemove nat
  | NoteSave string
  | ReminderSubmit string string
  | ReminderRemove nat
  | PostMessage "jval option"
  | SignInClick
  | DriveLoadClick
  | ConfigLoaded
  | FireTimer
  | Wait nat

subsection \<open>Form handlers\<close>

definition chat_submit :: "string \<Rightarrow> unit pm" where
  "chat_submit value =
     (let text = js_trim value in
      if text = [] then st_return ()
      else st_bind (append_message text ''user'') (\<lambda>_. add_timer 250 (TReply text)))"

definition todo_submit :: "string \<Rightarrow> unit pm" where
  "todo_submit value =
     (let v = js_trim value in
      if v = [] then st_return ()
      else st_bind (add_todo v) (\<lambda>_. append_message (''Added to'' @ nb_hyphen @ ''do: '' @ v) ''assistant''))"

definition note_save :: "page_env \<Rightarrow> string \<Rightarrow> unit pm" where
  "note_save env value =
     (let v = js_trim value in
      if v = [] then st_return ()
      else st_bind (add_note env v) (\<lambda>_. append_message ''Saved a note for you.'' ''assistant''))"

definition reminder_submit :: "page_env \<Rightarrow> string \<Rightarrow> string \<Rightarrow> unit pm" where
  "reminder_submit env tv when =
     (let text = js_trim tv in
      if text = [] \<or> when = [] then st_return ()
      else st_bind (schedule_reminder env (date_parse env when) text) (\<lambda>_.
           append_message (''Scheduled reminder: '' @ text) ''assistant''))"

text \<open>The delete button of a reminder's list item (line 156).\<close>

definition reminder_remove :: "page_env \<Rightarrow> jval option \<Rightarrow> unit pm" where
  "reminder_remove env i =
     st_bind get_reminders (\<lambda>v.
     st_bind (js_array ''getReminders(...)'' ''filter'' v) (\<lambda>xs.
     st_bind (st_filterM (id_differs i) xs) (\<lambda>ys. save_reminders env (JArr ys))))"

definition run_task :: "page_env \<Rightarrow> task \<Rightarrow> unit pm" where
  "run_task env t = (case t of
      TReply text \<Rightarrow> st_bind (assistant_reply env text) (\<lambda>reply. append_message reply ''assistant'')
    | TDeliver r \<Rightarrow> deliver_reminder env r)"

subsection \<open>The listeners registered after \<^verbatim>\<open>init()\<close>\<close>

text \<open>\<^verbatim>\<open>const data = ev.data || {}; if (data && data.type === 'cloudassistant:gauth' && data.email)\<close>:
  any window may post the message; its origin is not checked.\<close>

definition on_message :: "jval option \<Rightarrow> unit pm" where
  "on_message d =
     (let data = (if js_truthy d then the d else JObj []) in
      st_bind (get_prop data ''type'') (\<lambda>ty.
      st_bind (get_prop data ''email'') (\<lambda>em.
      if ty = Some (JStr ''cloudassistant:gauth'') \<and> js_truthy em
      then st_bind (storage_set ''ca_google_email'' (the em)) (\<lambda>_.
           st_bind (st_modify (\<lambda>p. p\<lparr>signed_user := Some (js_str (the em))\<rparr>)) (\<lambda>_.
           append_message (''Google account connected: '' @ js_str (the em)) ''assistant''))
      else st_return ())))"

text \<open>\<^verbatim>\<open>(WORKER_BASE||'') + path\<close>\<close>

definition base_url :: "jval option \<Rightarrow> string \<Rightarrow> string" where
  "base_url b path = (if js_truthy b then js_str (the b) else []) @ path"

definition sign_in :: "page_env \<Rightarrow> unit pm" where
  "sign_in env =
     st_bind (st_gets worker_base) (\<lambda>b.
     st_bind (st_modify (\<lambda>p. p\<lparr>opened := opened p @ [base_url b ''/auth/google/start'']\<rparr>)) (\<lambda>_.
     if popup_ok env then st_return ()
     else st_modify (\<lambda>p. p\<lparr>alerts := alerts p @ [''Popup blocked '' @ [CHR 0xE2, CHR 0x80, CHR 0x94] @ '' please allow popups for this site to sign in.'']\<rparr>)))"

text \<open>\<^verbatim>\<open>fetch(url)\<close> from the page: the URL is logged; a network failure is a
  \<^verbatim>\<open>TypeError\<close>.\<close>

definition page_fetch :: "page_env \<Rightarrow> string \<Rightarrow> fetch_resp pm" where
  "page_fetch env u = (\<lambda>p.
     (case page_net env (fetched p) u of Inl m \<Rightarrow> Inl (type_error m) | Inr r \<Rightarrow> Inr r,
      p\<lparr>fetched := fetched p @ [u]\<rparr>))"

definition res_ok :: "fetch_resp \<Rightarrow> bool" where
  "res_ok r \<longleftrightarrow> 200 \<le> fr_status r \<and> fr_status r \<le> 299"

definition drive_list_path :: "jval \<Rightarrow> string" where
  "drive_list_path email = ''/api/drive/list?email='' @ uri_encode (js_str email)"

text \<open>\<^verbatim>\<open>f=>`${f.name} (${f.mimeType})`\<close>\<close>

definition drive_file_line :: "jval \<Rightarrow> string pm" where
  "drive_file_line f =
     st_bind (get_prop f ''name'') (\<lambda>n.
     st_bind (get_prop f ''mimeType'') (\<lambda>m.
     st_return (js_string_of n @ '' ('' @ js_string_of m @ '')'')))"

definition drive_files_body :: "page_env \<Rightarrow> jval \<Rightarrow> unit pm" where
  "drive_files_body env email =
     st_bind (st_gets worker_base) (\<lambda>b.
     st_bind (page_fetch env (base_url b (drive_list_path email))) (\<lambda>res.
     if \<not> res_ok res then st_throw (JsError ''Error'' (fr_text res))
     else st_bind (parse_json (fr_text res)) (\<lambda>json.
          st_bind (get_prop json ''files'') (\<lambda>ff.
          st_bind (js_array ''(json.files || [])'' ''map'' (js_or ff (Some (JArr [])))) (\<lambda>xs.
          st_bind (st_mapM drive_file_line xs) (\<lambda>lines.
          let list = js_join [CHR 0x0A] lines in
          append_message (''Drive files:'' @ [CHR 0x0A] @ (if list = [] then ''No files found'' else list))
            ''assistant''))))))"

definition drive_load :: "page_env \<Rightarrow> unit pm" where
  "drive_load env =
     st_bind (storage_get ''ca_google_email'' None) (\<lambda>email.
     if \<not> js_truthy email
     then append_message ''No Google account connected. Click Sign in with Google.'' ''assistant''
     else st_bind (append_message ''Loading Drive files...'' ''assistant'') (\<lambda>_.
          st_catch (drive_files_body env (the email))
            (\<lambda>e. append_message (''Drive load failed: '' @ exn_string e) ''assistant'')))"

definition config_loaded :: "page_env \<Rightarrow> unit pm" where
  "config_loaded env =
     st_catch
       (st_bind (page_fetch env ''/worker-config.json'') (\<lambda>r.
        if \<not> res_ok r then st_return ()
        else st_bind (parse_json (fr_text r)) (\<lambda>cfg.
             if js_truthy (Some cfg)
             then st_bind (get_prop cfg ''workerBase'') (\<lambda>wb.
                  if js_truthy wb then st_modify (\<lambda>p. p\<lparr>worker_base := wb\<rparr>) else st_return ())
             else st_return ())))
       (\<lambda>_. st_return ())"

subsection \<open>Boot\<close>

definition hello_msg :: string where
  "hello_msg = ''Hello! I am your personal assistant. Type '' @ [CHR 0x22] @ ''help'' @ [CHR 0x22] @ '' for tips.''"

definition page_init :: "page_env \<Rightarrow> unit pm" where
  "page_init env =
     st_bind render_todos (\<lambda>_.
     st_bind (render_notes env) (\<lambda>_.
     st_bind (render_reminders env) (\<lambda>_.
     st_bind get_reminders (\<lambda>v.
     st_bind (js_array ''getReminders(...)'' ''forEach'' v) (\<lambda>xs.
     st_bind (st_forM (schedule_timeout env) xs) (\<lambda>_.
     append_message hello_msg ''assistant''))))))"

text \<open>The script's top level after the forms are wired: \<^verbatim>\<open>init()\<close>, the three listeners, the
  stored e-mail shown as signed in.\<close>

definition boot :: "page_env \<Rightarrow> unit pm" where
  "boot env =
     st_bind (page_init env) (\<lambda>_.
     st_bind (st_modify (\<lambda>p. p\<lparr>wired := True\<rparr>)) (\<lambda>_.
     st_bind (storage_get ''ca_google_email'' None) (\<lambda>e.
     if js_truthy e then st_modify (\<lambda>p. p\<lparr>signed_user := Some (js_str (the e))\<rparr>) else st_return ())))"

text \<open>The page as it is loaded: the given \<^verbatim>\<open>localStorage\<close> and clock, nothing shown yet,
  \<^verbatim>\<open>WORKER_BASE\<close> the empty string.\<close>

definition fresh_page :: "(string \<rightharpoonup> string) \<Rightarrow> int \<Rightarrow> page" where
  "fresh_page m c =
     \<lparr>ls = m, pclock = c, chat_log = [], timers = [], todo_view = [], note_view = [], rem_view = [],
      notified = [], signed_user = None, worker_base = Some (JStr []), fetched = [], opened = [],
      alerts = [], wired = False\<rparr>"

definition booted :: "page_env \<Rightarrow> (string \<rightharpoonup> string) \<Rightarrow> int \<Rightarrow> page" where
  "booted env m c = snd (st_catch (boot env) (\<lambda>_. st_return ()) (fresh_page m c))"

subsection \<open>One step of the page\<close>

text \<open>The handler the browser runs for an event. A button of a list item acts on the id
  captured when the item was rendered; a timer fires once the clock reaches it.\<close>

definition page_handler :: "page_env \<Rightarrow> page_event \<Rightarrow> page \<Rightarrow> unit pm" where
  "page_handler env ev p = (case ev of
      ChatSubmit v \<Rightarrow> chat_submit v
    | TodoSubmit v \<Rightarrow> todo_submit v
    | TodoToggle i \<Rightarrow> if i < length (todo_view p) then toggle_todo (snd (snd (todo_view p ! i))) else st_return ()
    | TodoRemove i \<Rightarrow> if i < length (todo_view p) then remove_todo (snd (snd (todo_view p ! i))) else st_return ()
    | NoteSave v \<Rightarrow> note_save env v
    | ReminderSubmit t w \<Rightarrow> reminder_submit env t w
    | ReminderRemove i \<Rightarrow> if i < length (rem_view p) then reminder_remove env (snd (rem_view p ! i)) else st_return ()
    | PostMessage d \<Rightarrow> if wired p then st_catch (on_message d) (\<lambda>_. st_return ()) else st_return ()
    | SignInClick \<Rightarrow> if wired p then sign_in env else st_return ()
    | DriveLoadClick \<Rightarrow> if wired p then drive_load env else st_return ()
    | ConfigLoaded \<Rightarrow> config_loaded env
    | FireTimer \<Rightarrow> (case timers p of
          (due, t) # rest \<Rightarrow> if due \<le> pclock p
                            then st_bind (st_modify (\<lambda>q. q\<lparr>timers := rest\<rparr>)) (\<lambda>_. run_task env t)
                            else st_return ()
        | [] \<Rightarrow> st_return ())
    | Wait n \<Rightarrow> st_modify (\<lambda>q. q\<lparr>pclock := pclock q + int n\<rparr>))"

definition page_step :: "page_env \<Rightarrow> page_event \<Rightarrow> page \<Rightarrow> page" where
  "page_step env ev p = snd (st_catch (page_handler env ev p) (\<lambda>_. st_return ()) p)"

inductive page_reach :: "page_env \<Rightarrow> (string \<rightharpoonup> string) \<Rightarrow> int \<Rightarrow> page \<Rightarrow> bool"
  for env m c where
  boot: "page_reach env m c (booted env m c)"
| step: "page_reach env m c p \<Longrightarrow> page_reach env m c (page_step env ev p)"

subsection \<open>The invariant\<close>

text \<open>Every stored list is a list of the page's own items and is what the page shows; every
  queued reminder callback carries a reminder.\<close>

fun timer_ok :: "int \<times> task \<Rightarrow> bool" where
  "timer_ok (d, TReply _) = True"
| "timer_ok (d, TDeliver r) = (rem_rec r \<noteq> None)"

definition lists_ok :: "(string \<rightharpoonup> string) \<Rightarrow> bool" where
  "lists_ok m \<longleftrightarrow> todos_abs m \<noteq> None \<and> notes_abs m \<noteq> None \<and> rems_abs m \<noteq> None"

definition page_ok :: "page_env \<Rightarrow> page \<Rightarrow> bool" where
  "page_ok env p \<longleftrightarrow>
     (case (todos_abs (ls p), notes_abs (ls p), rems_abs (ls p)) of
        (Some ts, Some ns, Some rs) \<Rightarrow>
          todo_view p = map todo_line ts \<and> note_view p = map (note_line env) ns \<and>
          rem_view p = map (rem_line env) rs \<and> list_all timer_ok (timers p)
      | _ \<Rightarrow> False)"

subsection \<open>Every handler keeps the invariant and throws nothing\<close>

text \<open>The operations on the lists enter the judgement \<open>st_ok (page_ok env)\<close> of
  \<open>Prelude\<close> through their equations in \<open>Page\<close>; the handlers are composed from them
  by the rules \<open>st_ok_rules\<close>; the step and the boot follow.\<close>

lemma page_ok_iff:
  "page_ok env p \<longleftrightarrow>
   (\<exists>ts ns rs. todos_abs (ls p) = Some ts \<and> notes_abs (ls p) = Some ns \<and> rems_abs (ls p) = Some rs \<and>
      todo_view p = map todo_line ts \<and> note_view p = map (note_line env) ns \<and>
      rem_view p = map (rem_line env) rs \<and> list_all timer_ok (timers p))"
  by (auto simp: page_ok_def split: option.splits)

lemma abs_other_keys [simp]:
  "notes_abs (m(''ca_todos'' \<mapsto> x)) = notes_abs m" "rems_abs (m(''ca_todos'' \<mapsto> x)) = rems_abs m"
  "todos_abs (m(''ca_notes'' \<mapsto> x)) = todos_abs m" "rems_abs (m(''ca_notes'' \<mapsto> x)) = rems_abs m"
  "todos_abs (m(''ca_reminders'' \<mapsto> x)) = todos_abs m" "notes_abs (m(''ca_reminders'' \<mapsto> x)) = notes_abs m"
  "todos_abs (m(''ca_google_email'' \<mapsto> x)) = todos_abs m"
  "notes_abs (m(''ca_google_email'' \<mapsto> x)) = notes_abs m"
  "rems_abs (m(''ca_google_email'' \<mapsto> x)) = rems_abs m"
  by (simp_all add: todos_abs_def notes_abs_def rems_abs_def)

lemma set_queue_timer: "set (queue_timer d t q) = insert (d, t) (set q)"
proof -
  have "set q = set (takeWhile (\<lambda>x. fst x \<le> d) q @ dropWhile (\<lambda>x. fst x \<le> d) q)" by simp
  then show ?thesis by (auto simp: queue_timer_def simp del: takeWhile_dropWhile_id)
qed

lemma timers_ok_queue [simp]:
  "list_all timer_ok (queue_timer d t q) \<longleftrightarrow> timer_ok (d, t) \<and> list_all timer_ok q"
  by (auto simp: list_all_iff set_queue_timer)

lemma ok_append_message [st_ok_rules]: "st_ok (page_ok env) (append_message text who)"
  unfolding append_message_def by (rule st_ok_modify) (auto simp: page_ok_iff)

lemma ok_add_timer_reply [st_ok_rules]: "st_ok (page_ok env) (add_timer d (TReply text))"
  unfolding add_timer_def by (rule st_ok_modify) (simp add: page_ok_def split: option.splits)

lemma ok_add_todo [st_ok_rules]: "st_ok (page_ok env) (add_todo text)"
  by (rule st_okI) (auto simp: page_ok_iff add_todo_refines)

lemma ok_toggle_todo [st_ok_rules]: "st_ok (page_ok env) (toggle_todo (Some (JNum i)))"
  by (rule st_okI) (auto simp: page_ok_iff toggle_todo_refines)

lemma ok_remove_todo [st_ok_rules]: "st_ok (page_ok env) (remove_todo (Some (JNum i)))"
  by (rule st_okI) (auto simp: page_ok_iff remove_todo_refines)

lemma ok_add_note [st_ok_rules]: "st_ok (page_ok env) (add_note env text)"
  by (rule st_okI) (auto simp: page_ok_iff add_note_refines)

lemma ok_deliver [st_ok_rules]: "st_ok (page_ok env) (deliver_reminder env (rem_val r))"
  by (rule st_okI) (auto simp: page_ok_iff deliver_reminder_refines)

lemma timer_ok_deliver [simp]: "timer_ok (d, TDeliver (rem_val r))"
  by simp

lemma ok_schedule_timeout [st_ok_rules]: "st_ok (page_ok env) (schedule_timeout env (rem_val r))"
proof (rule st_okI)
  fix p assume a: "page_ok env p"
  obtain i tx ts where r: "r = (i, tx, ts)" by (cases r)
  show "\<exists>a s'. schedule_timeout env (rem_val r) p = (Inr a, s') \<and> page_ok env s'"
  proof (cases "pclock p < ts")
    case True
    with a show ?thesis by (auto simp: r schedule_timeout_future page_ok_def split: option.splits)
  next
    case False
    with a show ?thesis using st_okD [OF ok_deliver a, of r] by (simp add: r schedule_timeout_past)
  qed
qed

lemma ok_schedule_reminder [st_ok_rules]: "st_ok (page_ok env) (schedule_reminder env ts text)"
proof (rule st_okI)
  fix p assume a: "page_ok env p"
  then obtain rs where rs: "rems_abs (ls p) = Some rs" by (auto simp: page_ok_iff)
  show "\<exists>a s'. schedule_reminder env ts text p = (Inr a, s') \<and> page_ok env s'"
  proof (cases "pclock p < ts")
    case True
    with a rs show ?thesis
      by (auto simp: schedule_reminder_future page_ok_iff timer_ok.simps(2) [of _ "rem_val _"])
  next
    case False
    with a rs show ?thesis by (auto simp: schedule_reminder_past page_ok_iff)
  qed
qed

lemma ok_reminder_remove [st_ok_rules]: "st_ok (page_ok env) (reminder_remove env (Some (JNum i)))"
proof (rule st_okI)
  fix p assume a: "page_ok env p"
  then obtain rs where rs: "rems_abs (ls p) = Some rs" by (auto simp: page_ok_iff)
  with a show "\<exists>x s'. reminder_remove env (Some (JNum i)) p = (Inr x, s') \<and> page_ok env s'"
    by (auto simp: reminder_remove_def get_reminders_abs filter_rems save_reminders_list page_ok_iff)
qed

lemma todo_list_line_val: "todo_list_line (todo_val t, k) p = (Inr (todo_list_text (t, k)), p)"
  by (cases t) (simp add: todo_list_line_def todo_list_text_def todo_val_def get_prop_apply js_string_of_def)

lemma list_reply_abs:
  "todos_abs (ls p) = Some ts \<Longrightarrow>
   list_reply p = (Inr (if ts = [] then no_todos_msg
                        else ''To'' @ nb_hyphen @ ''dos:'' @ [CHR 0x0A] @
                             js_join [CHR 0x0A] (map todo_list_text (zip ts [0..<length ts]))), p)"
proof -
  assume a: "todos_abs (ls p) = Some ts"
  have "st_mapM todo_list_line (zip (map todo_val ts) [0..<length ts]) p =
        (Inr (map todo_list_text (zip ts [0..<length ts])), p)"
  proof -
    have "\<And>k. st_mapM todo_list_line (zip (map todo_val ts) [k..<k + length ts]) p =
               (Inr (map todo_list_text (zip ts [k..<k + length ts])), p)"
    proof (induction ts)
      case Nil then show ?case by simp
    next
      case (Cons t ts)
      have "[k..<k + length (t # ts)] = k # [Suc k..<Suc k + length ts]" by (simp add: upt_rec)
      then show ?case using Cons.IH [of "Suc k"] by (simp add: todo_list_line_val)
    qed
    from this [of 0] show ?thesis by simp
  qed
  with a show ?thesis by (simp add: list_reply_def get_todos_abs)
qed

lemma ok_list_reply [st_ok_rules]: "st_ok (page_ok env) list_reply"
  by (rule st_okI) (auto simp: page_ok_iff list_reply_abs)

lemma ok_assistant_reply [st_ok_rules]: "st_ok (page_ok env) (assistant_reply env text)"
  unfolding assistant_reply_def Let_def page_now_def
  by (auto split: option.splits intro!: st_ok_rules)

lemma pres_js_array [st_ok_rules]: "st_pres P (js_array r m v)"
  by (rule st_pres_same) (simp add: js_array_def split: option.split jval.split)

lemma ok_get_prop [st_ok_rules]: "v \<noteq> JNull \<Longrightarrow> st_ok P (get_prop v k)"
  by (simp add: st_ok_def get_prop_apply)

lemma pres_page_fetch [st_ok_rules]: "st_pres (page_ok env) (page_fetch env u)"
  by (auto simp: st_pres_def page_fetch_def page_ok_iff split: sum.split)

lemma ok_chat_submit [st_ok_rules]: "st_ok (page_ok env) (chat_submit v)"
  unfolding chat_submit_def Let_def by (intro st_ok_rules)

lemma ok_todo_submit [st_ok_rules]: "st_ok (page_ok env) (todo_submit v)"
  unfolding todo_submit_def Let_def by (intro st_ok_rules)

lemma ok_note_save [st_ok_rules]: "st_ok (page_ok env) (note_save env v)"
  unfolding note_save_def Let_def by (intro st_ok_rules)

lemma ok_reminder_submit [st_ok_rules]: "st_ok (page_ok env) (reminder_submit env tv w)"
  unfolding reminder_submit_def Let_def by (intro st_ok_rules)

lemma ok_run_task [st_ok_rules]: "timer_ok (d, t) \<Longrightarrow> st_ok (page_ok env) (run_task env t)"
  by (cases t) (auto simp: run_task_def dest!: rem_rec_Some intro!: st_ok_rules)

lemma ok_storage_set_email [st_ok_rules]: "st_ok (page_ok env) (storage_set ''ca_google_email'' v)"
  unfolding storage_set_def by (rule st_ok_modify) (auto simp: page_ok_iff)

lemma ok_on_message [st_ok_rules]: "st_ok (page_ok env) (on_message d)"
proof -
  have "(if js_truthy d then the d else JObj []) \<noteq> JNull"
    by (cases d) auto
  then show ?thesis
    unfolding on_message_def Let_def
    by (intro st_ok_rules; auto simp: page_ok_iff)
qed

lemma pres_on_message [st_ok_rules]: "st_pres (page_ok env) (on_message d)"
  by (rule st_ok_pres) (rule ok_on_message)

lemma ok_sign_in [st_ok_rules]: "st_ok (page_ok env) (sign_in env)"
  unfolding sign_in_def by (intro st_ok_rules; auto simp: page_ok_iff)

lemma pres_append_message [st_ok_rules]: "st_pres (page_ok env) (append_message text who)"
  by (rule st_ok_pres) (rule ok_append_message)

lemma ok_drive_load [st_ok_rules]: "st_ok (page_ok env) (drive_load env)"
  unfolding drive_load_def drive_files_body_def storage_get_def Let_def drive_file_line_def
  by (intro st_ok_rules; auto simp: page_ok_iff)

lemma ok_config_loaded [st_ok_rules]: "st_ok (page_ok env) (config_loaded env)"
  unfolding config_loaded_def
  by (intro st_ok_rules; auto simp: page_ok_iff)

lemma ok_page_handler:
  assumes "page_ok env p"
  shows "st_ok (page_ok env) (page_handler env ev p)"
proof -
  obtain ts ns rs where v: "todo_view p = map todo_line ts" "rem_view p = map (rem_line env) rs"
    and tm: "list_all timer_ok (timers p)"
    using assms by (auto simp: page_ok_iff)
  have tid: "\<exists>j. snd (snd (todo_view p ! i)) = Some (JNum j)" if "i < length (todo_view p)" for i
    using that v by (auto simp: todo_line_def split: prod.split)
  have rid: "\<exists>j. snd (rem_view p ! i) = Some (JNum j)" if "i < length (rem_view p)" for i
    using that v by (auto simp: rem_line_def split: prod.split)
  show ?thesis
  proof (cases ev)
    case (TodoToggle i)
    then show ?thesis using tid [of i] by (auto simp: page_handler_def intro!: st_ok_rules)
  next
    case (TodoRemove i)
    then show ?thesis using tid [of i] by (auto simp: page_handler_def intro!: st_ok_rules)
  next
    case (ReminderRemove i)
    then show ?thesis using rid [of i] by (auto simp: page_handler_def intro!: st_ok_rules)
  next
    case FireTimer
    show ?thesis
    proof (cases "timers p")
      case (Cons x rest)
      obtain due t where x: "x = (due, t)" by (cases x)
      have "timer_ok (due, t)" "list_all timer_ok rest" using tm Cons x by simp_all
      then show ?thesis using FireTimer Cons x
        by (auto simp: page_handler_def page_ok_iff intro!: st_ok_rules ok_run_task)
    qed (simp add: FireTimer page_handler_def st_ok_rules)
  qed (auto simp: page_handler_def page_ok_iff intro!: st_ok_rules)
qed

lemma page_handler_returns:
  "page_ok env p \<Longrightarrow> \<exists>q. page_handler env ev p p = (Inr (), q) \<and> page_ok env q"
  using st_okD [OF ok_page_handler] by fastforce

lemma page_ok_step: "page_ok env p \<Longrightarrow> page_ok env (page_step env ev p)"
  using page_handler_returns [of env p ev] by (auto simp: page_step_def)

lemma ok_page_init:
  assumes "lists_ok (ls p)" "list_all timer_ok (timers p)"
  shows "\<exists>q. page_init env p = (Inr (), q) \<and> page_ok env q"
proof -
  obtain ts ns rs where a: "todos_abs (ls p) = Some ts" "notes_abs (ls p) = Some ns" "rems_abs (ls p) = Some rs"
    using assms(1) by (auto simp: lists_ok_def)
  let ?q = "p\<lparr>todo_view := map todo_line ts, note_view := map (note_line env) ns,
               rem_view := map (rem_line env) rs\<rparr>"
  have q: "page_ok env ?q" using a assms(2) by (simp add: page_ok_iff)
  have rest: "st_ok (page_ok env) (st_bind (st_forM (schedule_timeout env) (map rem_val rs))
                                   (\<lambda>_. append_message hello_msg ''assistant''))"
    by (intro st_ok_rules) (auto intro: ok_schedule_timeout)
  have "page_init env p = st_bind (st_forM (schedule_timeout env) (map rem_val rs))
                            (\<lambda>_. append_message hello_msg ''assistant'') ?q"
    using a by (simp add: page_init_def render_todos_abs render_notes_abs render_reminders_abs get_reminders_abs)
  then show ?thesis using st_okD [OF rest q] by auto
qed

lemma booted_ok:
  assumes "lists_ok m"
  shows "page_ok env (booted env m c) \<and> wired (booted env m c)"
proof -
  obtain q where q: "page_init env (fresh_page m c) = (Inr (), q)" "page_ok env q"
    using ok_page_init [of "fresh_page m c" env] assms by (auto simp: fresh_page_def)
  then show ?thesis
    by (auto simp: booted_def boot_def storage_get_def page_ok_iff)
qed

subsection \<open>Properties of the page\<close>

text \<open>C18: From a boot whose stored lists are the page's own (in particular an empty
  \<^verbatim>\<open>localStorage\<close>), every state the page reaches keeps every stored list readable as a
  list of its items, shows exactly the stored lists, and queues only reminder callbacks that
  carry a reminder.\<close>

theorem page_reach_ok: "page_reach env m c p \<Longrightarrow> lists_ok m \<Longrightarrow> page_ok env p"
  by (induction rule: page_reach.induct) (simp_all add: booted_ok page_ok_step)

text \<open>C19: In every state reached from such a boot, no event handler of the page ends in an
  uncaught exception.\<close>

theorem page_handlers_never_throw:
  "page_reach env m c p \<Longrightarrow> lists_ok m \<Longrightarrow> fst (page_handler env ev p p) = Inr ()"
proof -
  assume "page_reach env m c p" "lists_ok m"
  then have "page_ok env p"
    by (induction rule: page_reach.induct) (simp_all add: booted_ok page_ok_step)
  then show ?thesis using page_handler_returns [of env p ev] by auto
qed

lemma js_array_not_array:
  "v \<noteq> JNull \<Longrightarrow> (\<forall>xs. v \<noteq> JArr xs) \<Longrightarrow> \<exists>e. js_array recv meth (Some v) = st_throw e"
  by (cases v) (auto simp: js_array_def)

text \<open>C39: A stored to-do list that parses to anything but an array or \<^verbatim>\<open>null\<close>
  (an object, a number, a string, a boolean) makes \<^verbatim>\<open>renderTodos\<close> throw inside
  \<^verbatim>\<open>init()\<close>; the script stops there, the sign-in button, the Drive loader and
  the message listener are never wired, and clicking them or posting to the page changes
  nothing.\<close>

theorem corrupt_todos_disable_sign_in:
  assumes "m ''ca_todos'' = Some t" "json_parse t = Some v" "v \<noteq> JNull" "\<forall>xs. v \<noteq> JArr xs"
  shows "\<not> wired (booted env m c) \<and>
         page_step env SignInClick (booted env m c) = booted env m c \<and>
         page_step env DriveLoadClick (booted env m c) = booted env m c \<and>
         page_step env (PostMessage d) (booted env m c) = booted env m c"
proof -
  have get: "ls_value (m ''ca_todos'') (Some (JArr [])) = Some v"
    using assms(1-3) by (cases v) (simp_all add: ls_value_def)
  obtain e where thr: "js_array ''getTodos(...)'' ''forEach'' (Some v) = st_throw e"
    using js_array_not_array [OF assms(3,4)] by blast
  have "\<not> wired (booted env m c)"
    by (simp add: booted_def boot_def page_init_def render_todos_def get_todos_def storage_get_def
                  fresh_page_def get thr)
  then show ?thesis by (simp add: page_step_def page_handler_def)
qed

end
