(* ===== verification/Timers.thy ===== *)
theory Timers
  imports App "HOL-Library.Sublist"
begin

text \<open>
  The page's timers (\<^verbatim>\<open>setTimeout\<close> in \<^verbatim>\<open>src/public/app.js\<close> lines 47 and 158-160)
  deliver what they carry. A callback runs when the page is given a \<open>FireTimer\<close> event
  and the head of the queue is due; a running callback leaves the clock as it is,
  never reorders the callbacks already due (a callback it queues is due no earlier
  than now, and \<open>queue_timer\<close> puts it behind every callback due no later), and only
  appends to the chat log. These three facts form the frame \<open>timer_frame\<close>; every
  callback keeps it whether it returns or throws. The liveness property follows: once
  the clock has passed the due times, as many \<open>FireTimer\<close> events as there are queued
  callbacks deliver every queued reminder. A second frame, \<open>fut_frame\<close>, fixes the
  callbacks due now: no callback adds or removes one, which gives the measure of the
  event loop of \<open>Event_Loop\<close>.
\<close>

definition timer_frame :: "(int \<times> task) list \<Rightarrow> int \<Rightarrow> (string \<times> string) list \<Rightarrow> page \<Rightarrow> bool" where
  "timer_frame pre c lg p \<longleftrightarrow>
     pclock p = c \<and> prefix pre (timers p) \<and> list_all (\<lambda>x. fst x \<le> c) pre \<and> prefix lg (chat_log p)"

text \<open>The callbacks due at the clock \<open>c\<close>, in queue order, and the frame that keeps
  them: the clock stays \<open>c\<close> and no callback due at \<open>c\<close> is added or removed.\<close>

definition due_timers :: "page \<Rightarrow> (int \<times> task) list" where
  "due_timers p = filter (\<lambda>x. fst x \<le> pclock p) (timers p)"

definition fut_frame :: "int \<Rightarrow> (int \<times> task) list \<Rightarrow> page \<Rightarrow> bool" where
  "fut_frame c q p \<longleftrightarrow> pclock p = c \<and> filter (\<lambda>x. fst x \<le> c) (timers p) = q"

subsection \<open>The frame\<close>

lemma prefix_snoc_right: "prefix l xs \<Longrightarrow> prefix l (xs @ ys)"
  by (auto simp: prefix_def)

lemma prefix_queue_timer:
  assumes "prefix pre q" "list_all (\<lambda>x. fst x \<le> d) pre"
  shows "prefix pre (queue_timer d t q)"
proof -
  obtain rest where q: "q = pre @ rest" using assms(1) by (auto simp: prefix_def)
  have "takeWhile (\<lambda>x. fst x \<le> d) q = pre @ takeWhile (\<lambda>x. fst x \<le> d) rest"
    using assms(2) q by (simp add: takeWhile_append2 list_all_iff)
  then show ?thesis by (simp add: queue_timer_def prefix_def)
qed

lemma frame_queue_timer:
  assumes "0 \<le> d" "timer_frame pre c lg p"
  shows "timer_frame pre c lg (p\<lparr>timers := queue_timer (pclock p + d) t (timers p)\<rparr>)"
proof -
  have "list_all (\<lambda>x. fst x \<le> pclock p + d) pre"
    using assms by (force simp: timer_frame_def list_all_iff)
  with assms(2) show ?thesis by (simp add: timer_frame_def prefix_queue_timer)
qed

lemma pres_add_timer_frame [st_ok_rules]:
  "0 \<le> d \<Longrightarrow> st_pres (timer_frame pre c lg) (add_timer d t)"
  unfolding add_timer_def by (rule st_pres_modify) (rule frame_queue_timer)

lemma pres_append_message_frame [st_ok_rules]: "st_pres (timer_frame pre c lg) (append_message text who)"
  unfolding append_message_def by (rule st_pres_modify) (simp add: timer_frame_def prefix_snoc_right)

lemma pres_storage_frame [st_ok_rules]:
  "st_pres (timer_frame pre c lg) (storage_set k v)" "st_pres (timer_frame pre c lg) (storage_get k fb)"
  "st_pres (timer_frame pre c lg) page_now"
  unfolding storage_set_def storage_get_def page_now_def
  by (intro st_ok_rules; simp add: timer_frame_def)+

lemma pres_render_frame [st_ok_rules]:
  "st_pres (timer_frame pre c lg) render_todos"
  "st_pres (timer_frame pre c lg) (render_notes env)"
  "st_pres (timer_frame pre c lg) (render_reminders env)"
  unfolding render_todos_def render_notes_def render_reminders_def get_todos_def get_notes_def
    get_reminders_def todo_row_def note_row_def rem_row_def
  by (intro st_ok_rules; simp add: timer_frame_def)+

lemma pres_lists_frame [st_ok_rules]:
  "st_pres (timer_frame pre c lg) (add_todo text)"
  "st_pres (timer_frame pre c lg) (add_note env text)"
  "st_pres (timer_frame pre c lg) (save_reminders env v)"
  "st_pres (timer_frame pre c lg) get_reminders"
  "st_pres (timer_frame pre c lg) (js_push r w x)"
  unfolding add_todo_def add_note_def save_reminders_def get_reminders_def save_todos_def save_notes_def
    get_todos_def get_notes_def js_push_def js_unshift_def
  by (intro st_ok_rules)+

lemma pres_list_reply_frame [st_ok_rules]: "st_pres (timer_frame pre c lg) list_reply"
  unfolding list_reply_def get_todos_def todo_list_line_def
  by (intro st_ok_rules; auto split: prod.split intro!: st_ok_rules)

lemma pres_deliver_frame [st_ok_rules]: "st_pres (timer_frame pre c lg) (deliver_reminder env r)"
  unfolding deliver_reminder_def id_differs_def
  by (intro st_ok_rules; simp add: timer_frame_def)

lemma pres_run_task_frame: "st_pres (timer_frame pre c lg) (run_task env t)"
  unfolding run_task_def assistant_reply_def schedule_reminder_def schedule_timeout_def Let_def
  by (auto split: task.split option.split intro!: st_ok_rules
           simp: timer_delay_def max_timer_delay_def)

subsection \<open>Firing\<close>

lemma fire_step:
  assumes "timers p = (d, t) # rest" "d \<le> pclock p"
  shows "page_step env FireTimer p = snd (run_task env t (p\<lparr>timers := rest\<rparr>))"
  using assms by (simp add: page_step_def page_handler_def split: prod.split sum.split)

lemma fire_idle:
  "timers p = [] \<or> pclock p < fst (hd (timers p)) \<Longrightarrow> page_step env FireTimer p = p"
  by (cases "timers p") (auto simp: page_step_def page_handler_def)

lemma frame_fire_head:
  assumes "timer_frame ((d, t) # pre) c lg p"
  shows "timer_frame pre c lg (page_step env FireTimer p)"
proof -
  obtain rest where tp: "timers p = (d, t) # rest" and pr: "prefix pre rest"
    using assms by (auto simp: timer_frame_def prefix_def)
  have "timer_frame pre c lg (p\<lparr>timers := rest\<rparr>)" using assms pr by (simp add: timer_frame_def)
  then have "timer_frame pre c lg (snd (run_task env t (p\<lparr>timers := rest\<rparr>)))"
    using pres_run_task_frame by (simp add: st_pres_def)
  moreover have "d \<le> pclock p" using assms by (simp add: timer_frame_def)
  ultimately show ?thesis using tp by (simp add: fire_step)
qed

lemma frame_fire_any:
  assumes "timer_frame [] c lg p"
  shows "timer_frame [] c lg (page_step env FireTimer p)"
proof (cases "timers p = [] \<or> pclock p < fst (hd (timers p))")
  case True
  then show ?thesis using assms by (simp add: fire_idle)
next
  case False
  then obtain d t rest where tp: "timers p = (d, t) # rest" and "d \<le> pclock p"
    by (cases "timers p") auto
  then have "timer_frame [(d, t)] c lg p" using assms by (simp add: timer_frame_def)
  then show ?thesis by (rule frame_fire_head)
qed

lemma frame_fires:
  "timer_frame [] c lg p \<Longrightarrow> timer_frame [] c lg (fold (page_step env) (replicate n FireTimer) p)"
  by (induction n arbitrary: p) (simp_all add: frame_fire_any)

lemma deliver_appends:
  assumes "r \<noteq> JNull" "timer_frame pre c lg s"
  shows "timer_frame pre c (chat_log s @ [(''assistant'', ''Reminder: '' @ js_string_of (jget r ''text''))])
           (snd (deliver_reminder env r s))"
proof -
  let ?s1 = "s\<lparr>chat_log := chat_log s @ [(''assistant'', ''Reminder: '' @ js_string_of (jget r ''text''))]\<rparr>"
  let ?rest = "st_bind (st_when (notif_granted env)
       (st_modify (\<lambda>p. p\<lparr>notified := notified p @ [case jget r ''text'' of None \<Rightarrow> [] | Some v \<Rightarrow> js_str v]\<rparr>))) (\<lambda>_.
     st_bind get_reminders (\<lambda>v.
     st_bind (js_array ''getReminders(...)'' ''filter'' v) (\<lambda>xs.
     st_bind (st_filterM (id_differs (jget r ''id'')) xs) (\<lambda>ys.
     save_reminders env (JArr ys)))))"
  have "deliver_reminder env r s = ?rest ?s1"
    using assms(1) by (simp add: deliver_reminder_def get_prop_apply append_message_def)
  moreover have "st_pres (timer_frame pre c (chat_log s @ [(''assistant'', ''Reminder: '' @ js_string_of (jget r ''text''))])) ?rest"
    unfolding id_differs_def by (intro st_ok_rules; simp add: timer_frame_def)
  moreover have "timer_frame pre c (chat_log s @ [(''assistant'', ''Reminder: '' @ js_string_of (jget r ''text''))]) ?s1"
    using assms(2) by (simp add: timer_frame_def)
  ultimately show ?thesis by (simp add: st_pres_def)
qed

lemma frame_forget: "timer_frame pre c lg p \<Longrightarrow> timer_frame [] c lg p"
  by (simp add: timer_frame_def)

lemma fire_delivers:
  assumes "timer_frame pre c lg p" "i < length pre" "pre ! i = (d, TDeliver r)" "r \<noteq> JNull" "i < n"
  shows "(''assistant'', ''Reminder: '' @ js_string_of (jget r ''text'')) \<in>
           set (chat_log (fold (page_step env) (replicate n FireTimer) p))"
  using assms
proof (induction i arbitrary: pre lg p n)
  case 0
  let ?msg = "(''assistant'', ''Reminder: '' @ js_string_of (jget r ''text''))"
  obtain pre' where pre: "pre = (d, TDeliver r) # pre'" using "0.prems" by (cases pre) auto
  obtain n' where n: "n = Suc n'" using "0.prems" by (cases n) auto
  obtain rest where tp: "timers p = (d, TDeliver r) # rest" and pr: "prefix pre' rest"
    using "0.prems"(1) pre by (auto simp: timer_frame_def prefix_def)
  have due: "d \<le> pclock p" using "0.prems"(1) pre by (simp add: timer_frame_def)
  have "timer_frame pre' c lg (p\<lparr>timers := rest\<rparr>)" using "0.prems"(1) pre pr by (simp add: timer_frame_def)
  then have "timer_frame pre' c (chat_log p @ [?msg]) (snd (deliver_reminder env r (p\<lparr>timers := rest\<rparr>)))"
    using deliver_appends [OF "0.prems"(4)] by fastforce
  then have "timer_frame [] c (chat_log p @ [?msg]) (page_step env FireTimer p)"
    using tp due by (simp add: fire_step run_task_def frame_forget)
  then have "timer_frame [] c (chat_log p @ [?msg]) (fold (page_step env) (replicate n' FireTimer) (page_step env FireTimer p))"
    by (rule frame_fires)
  then show ?case using n by (auto simp: timer_frame_def prefix_def)
next
  case (Suc i)
  obtain dx tx pre' where pre: "pre = (dx, tx) # pre'" using Suc.prems by (cases pre) auto
  obtain n' where n: "n = Suc n'" using Suc.prems by (cases n) auto
  have "timer_frame pre' c lg (page_step env FireTimer p)" using Suc.prems(1) pre by (simp add: frame_fire_head)
  then show ?case using Suc.IH [of pre' lg "page_step env FireTimer p" n'] Suc.prems pre n by simp
qed

text \<open>C20: Liveness of reminders. In every state the page reaches from a boot whose stored
  lists are its own, a reminder callback in the timer queue is delivered: once the clock
  has reached the latest due time, firing the timers as often as there are queued
  callbacks posts \<^verbatim>\<open>Reminder: <text>\<close> to the chat, whatever the other callbacks do
  (even those that throw or queue further callbacks).\<close>

theorem reminder_delivered:
  assumes "page_reach env m c p" "lists_ok m" "(d, TDeliver r) \<in> set (timers p)"
  shows "(''assistant'', ''Reminder: '' @ js_string_of (jget r ''text'')) \<in>
           set (chat_log (fold (page_step env)
             (Wait (nat (Max (fst ` set (timers p)) - pclock p)) # replicate (length (timers p)) FireTimer) p))"
proof -
  have "page_ok env p" using assms(1,2)
    by (induction rule: page_reach.induct) (simp_all add: booted_ok page_ok_step)
  then have "timer_ok (d, TDeliver r)" using assms(3)
    by (auto simp: page_ok_def list_all_iff split: option.splits)
  then have r: "r \<noteq> JNull" by auto
  let ?k = "nat (Max (fst ` set (timers p)) - pclock p)"
  let ?p1 = "page_step env (Wait ?k) p"
  have p1: "?p1 = p\<lparr>pclock := pclock p + int ?k\<rparr>" by (simp add: page_step_def page_handler_def)
  have "fst x \<le> pclock p + int ?k" if "x \<in> set (timers p)" for x
  proof -
    have "fst x \<le> Max (fst ` set (timers p))" using that by simp
    then show ?thesis by linarith
  qed
  then have "timer_frame (timers p) (pclock ?p1) (chat_log p) ?p1"
    using p1 by (simp add: timer_frame_def list_all_iff)
  moreover obtain i where "i < length (timers p)" "timers p ! i = (d, TDeliver r)"
    using assms(3) by (meson in_set_conv_nth)
  ultimately show ?thesis using fire_delivers [of "timers p" _ _ ?p1 i d r "length (timers p)" env] r by simp
qed

subsection \<open>No callback queues a due callback\<close>

text \<open>\<^verbatim>\<open>scheduleTimeout\<close> delivers at once a reminder whose delay is not positive and
  queues the others with a positive delay, so a running callback never adds a callback
  due now; firing a due callback removes exactly one of the due ones.\<close>

lemma filter_queue_timer:
  assumes "c < d"
  shows "filter (\<lambda>x. fst x \<le> c) (queue_timer d t q) = filter (\<lambda>x. fst x \<le> c) q"
proof -
  have "filter (\<lambda>x. fst x \<le> c) q = filter (\<lambda>x. fst x \<le> c)
          (takeWhile (\<lambda>x. fst x \<le> d) q @ dropWhile (\<lambda>x. fst x \<le> d) q)" by simp
  with assms show ?thesis by (simp add: queue_timer_def del: takeWhile_dropWhile_id)
qed

lemma pres_add_timer_fut [st_ok_rules]: "0 < d \<Longrightarrow> st_pres (fut_frame c q) (add_timer d t)"
  unfolding add_timer_def by (rule st_pres_modify) (simp add: fut_frame_def filter_queue_timer)

lemma pres_fut_frame [st_ok_rules]:
  "st_pres (fut_frame c q) (append_message text who)"
  "st_pres (fut_frame c q) (storage_set k v)" "st_pres (fut_frame c q) (storage_get k fb)"
  "st_pres (fut_frame c q) page_now"
  "st_pres (fut_frame c q) render_todos"
  "st_pres (fut_frame c q) (render_notes env)"
  "st_pres (fut_frame c q) (render_reminders env)"
  unfolding append_message_def storage_set_def storage_get_def page_now_def
    render_todos_def render_notes_def render_reminders_def get_todos_def get_notes_def
    get_reminders_def todo_row_def note_row_def rem_row_def
  by (intro st_ok_rules; simp add: fut_frame_def)+

lemma pres_fut_lists [st_ok_rules]:
  "st_pres (fut_frame c q) (add_todo text)"
  "st_pres (fut_frame c q) (add_note env text)"
  "st_pres (fut_frame c q) (save_reminders env v)"
  "st_pres (fut_frame c q) get_reminders"
  "st_pres (fut_frame c q) (js_push r w x)"
  "st_pres (fut_frame c q) list_reply"
  "st_pres (fut_frame c q) (deliver_reminder env rm)"
  unfolding add_todo_def add_note_def save_reminders_def get_reminders_def save_todos_def save_notes_def
    get_todos_def get_notes_def js_push_def js_unshift_def list_reply_def todo_list_line_def
    deliver_reminder_def id_differs_def
  by (intro st_ok_rules; auto split: prod.split intro!: st_ok_rules simp: fut_frame_def)+

lemma schedule_timeout_rem:
  "schedule_timeout env (rem_obj i text ts) =
     st_bind page_now (\<lambda>now. if ts - now \<le> 0 then deliver_reminder env (rem_obj i text ts)
       else add_timer (min (ts - now) max_timer_delay) (TDeliver (rem_obj i text ts)))"
  by (simp add: schedule_timeout_def get_prop_def rem_obj_def timer_delay_def st_bind_return_left cong: if_cong del: st_bind_apply)

lemma pres_run_task_fut: "st_pres (fut_frame c q) (run_task env t)"
  unfolding run_task_def assistant_reply_def schedule_reminder_def schedule_timeout_rem Let_def
  by (auto split: task.split option.split intro!: st_ok_rules simp: max_timer_delay_def)

lemma fire_due:
  assumes "timers p = (d, t) # rest" "d \<le> pclock p"
  shows "pclock (page_step env FireTimer p) = pclock p \<and>
         due_timers (page_step env FireTimer p) = tl (due_timers p)"
proof -
  have "fut_frame (pclock p) (filter (\<lambda>x. fst x \<le> pclock p) rest) (p\<lparr>timers := rest\<rparr>)"
    by (simp add: fut_frame_def)
  then have "fut_frame (pclock p) (filter (\<lambda>x. fst x \<le> pclock p) rest) (snd (run_task env t (p\<lparr>timers := rest\<rparr>)))"
    using pres_run_task_fut by (auto simp: st_pres_def)
  with assms show ?thesis by (simp add: fire_step fut_frame_def due_timers_def)
qed

lemma fire_due_less:
  "timers p \<noteq> [] \<Longrightarrow> fst (hd (timers p)) \<le> pclock p \<Longrightarrow>
   length (due_timers (page_step env FireTimer p)) < length (due_timers p)"
proof -
  assume "timers p \<noteq> []" "fst (hd (timers p)) \<le> pclock p"
  then obtain d t rest where tp: "timers p = (d, t) # rest" "d \<le> pclock p"
    by (cases "timers p") auto
  then have "due_timers p \<noteq> []" by (simp add: due_timers_def)
  then show ?thesis using fire_due [OF tp, of env] by simp
qed

end
