(* ===== verification/Event_Loop.thy ===== *)
theory Event_Loop
  imports Timers
begin

text \<open>
  The browser's event loop over the page's timers: at a fixed time it runs the callback
  at the head of the queue while that callback is due (\<open>run_due\<close>). The loop is a
  \<open>function\<close> whose termination is not structural: a callback may queue new callbacks
  (an assistant reply to \<^verbatim>\<open>remind me to ... in ...\<close> goes through
  \<^verbatim>\<open>scheduleTimeout\<close>, \<^verbatim>\<open>src/public/app.js\<close> line 158). The measure is the number of
  callbacks due now, which every run decreases by \<open>fire_due_less\<close> of \<open>Timers\<close>.
\<close>

function run_due :: "page_env \<Rightarrow> page \<Rightarrow> page" where
  "run_due env p =
     (if timers p \<noteq> [] \<and> fst (hd (timers p)) \<le> pclock p then run_due env (page_step env FireTimer p) else p)"
  by pat_completeness auto
termination
  by (relation "measure (\<lambda>(env, p). length (due_timers p))") (auto intro: fire_due_less)

text \<open>C21: At a fixed time the page's due timer callbacks run out: the event loop stops after
  at most as many callbacks as were due when it started, with no callback due at the
  head of the queue; no callback, whatever the assistant is asked, queues a callback that
  is already due.\<close>

theorem run_due_bounded:
  "\<exists>k \<le> length (due_timers p). run_due env p = fold (page_step env) (replicate k FireTimer) p \<and>
     (timers (run_due env p) = [] \<or> pclock (run_due env p) < fst (hd (timers (run_due env p))))"
proof (induction env p rule: run_due.induct)
  case (1 env p)
  show ?case
  proof (cases "timers p \<noteq> [] \<and> fst (hd (timers p)) \<le> pclock p")
    case True
    then obtain k where k: "k \<le> length (due_timers (page_step env FireTimer p))"
      "run_due env (page_step env FireTimer p) = fold (page_step env) (replicate k FireTimer) (page_step env FireTimer p)"
      "timers (run_due env (page_step env FireTimer p)) = [] \<or>
       pclock (run_due env (page_step env FireTimer p)) < fst (hd (timers (run_due env (page_step env FireTimer p))))"
      using "1.IH" [OF True] by blast
    have step: "run_due env p = run_due env (page_step env FireTimer p)"
      using True by (subst run_due.simps) (simp del: run_due.simps)
    have "Suc k \<le> length (due_timers p)" using k(1) fire_due_less [of p env] True by simp
    moreover have "run_due env p = fold (page_step env) (replicate (Suc k) FireTimer) p"
      using step k(2) by (simp del: run_due.simps)
    ultimately show ?thesis using step k(3) by (simp only:) blast
  next
    case False
    then have "run_due env p = p" by (subst run_due.simps) (auto simp del: run_due.simps)
    with False show ?thesis by (intro exI [of _ 0]) (auto simp del: run_due.simps)
  qed
qed

end
