(* ===== verification/Node_Tools.thy ===== *)
theory Node_Tools
  imports Runtime
begin

text \<open>
  The two Node.js programs beside the worker: the configuration script
  \<^verbatim>\<open>src/scripts/set-worker-base.js\<close>, which writes \<^verbatim>\<open>public/worker-config.json\<close>,
  and the Express server \<^verbatim>\<open>src/server.js\<close>, which serves \<^verbatim>\<open>public/\<close> and a ping
  route. The file system is a map from absolute paths to contents; a run of the script
  is its effect on the file system, its two output streams and its exit status; a
  request to the server is answered by a \<open>srv_resp\<close>. The page reads the file back
  through the server (\<^verbatim>\<open>src/public/app.js\<close> lines 12-20); the root theory composes
  the three.
\<close>

type_synonym node_fs = "string \<rightharpoonup> string"

record node_run =
  run_fs :: node_fs
  run_out :: "string list"
  run_err :: "string list"
  run_exit :: int

subsection \<open>\<^verbatim>\<open>path\<close>\<close>

text \<open>\<^verbatim>\<open>path.join(dir, '..', ...)\<close> for an absolute \<open>dir\<close> without a trailing slash:
  the \<^verbatim>\<open>..\<close> removes the last segment of \<open>dir\<close>.\<close>

definition parent_dir :: "string \<Rightarrow> string" where
  "parent_dir d = rev (drop 1 (dropWhile (\<lambda>c. c \<noteq> CHR ''/'') (rev d)))"

subsection \<open>\<^verbatim>\<open>set-worker-base.js\<close>\<close>

text \<open>\<^verbatim>\<open>process.argv[2] || ''\<close>: the first argument after the script's path.\<close>

definition script_arg :: "string list \<Rightarrow> string" where
  "script_arg argv = (if 2 < length argv then argv ! 2 else [])"

definition usage_msg :: string where
  "usage_msg = ''Usage: node scripts/set-worker-base.js <worker-base-url>''"

definition config_file :: "string \<Rightarrow> string" where
  "config_file dir = parent_dir dir @ ''/public/worker-config.json''"

text \<open>\<^verbatim>\<open>JSON.stringify(config, null, 2)\<close>: a gap of two spaces.\<close>

definition config_text :: "string \<Rightarrow> string" where
  "config_text arg = json_gap ''  '' [] (JObj [(''workerBase'', JStr arg)])"

text \<open>The whole script run from the directory \<open>dir\<close> (its \<^verbatim>\<open>__dirname\<close>):
  \<^verbatim>\<open>process.exit(1)\<close> ends the run at once; otherwise the file is written, the
  message logged (\<^verbatim>\<open>console.log\<close> joins its arguments with spaces) and the run ends
  with status 0.\<close>

definition set_worker_base :: "string \<Rightarrow> string list \<Rightarrow> node_fs \<Rightarrow> node_run" where
  "set_worker_base dir argv fs =
     (let arg = script_arg argv in
      if arg = [] then \<lparr>run_fs = fs, run_out = [], run_err = [usage_msg], run_exit = 1\<rparr>
      else
        (let file = config_file dir in
         \<lparr>run_fs = fs(file \<mapsto> config_text arg),
          run_out = [''Updated '' @ file @ '' -> '' @ arg], run_err = [], run_exit = 0\<rparr>))"

subsection \<open>\<^verbatim>\<open>server.js\<close>\<close>

text \<open>The answer of the Express application: a file of \<^verbatim>\<open>public/\<close> sent by
  \<^verbatim>\<open>express.static\<close>, the JSON body of a route, or the library's 404 page for the
  method and path.\<close>

datatype srv_resp = SrvFile string | SrvJson string | SrvNotFound string string

text \<open>\<^verbatim>\<open>process.env.PORT || 3000\<close>, and the line logged once listening.\<close>

definition server_port :: "string option \<Rightarrow> string" where
  "server_port p = (if str_truthy p then the p else ''3000'')"

definition listen_msg :: "string option \<Rightarrow> string" where
  "listen_msg p = ''CloudAssistant server listening on http://localhost:'' @ server_port p"

text \<open>The path of a request URL, without its query string.\<close>

definition url_path :: "string \<Rightarrow> string" where
  "url_path u = takeWhile (\<lambda>c. c \<noteq> CHR ''?'') u"

text \<open>\<^verbatim>\<open>express.static(path.join(__dirname, 'public'))\<close> for \<open>GET\<close> and \<open>HEAD\<close>:
  the file under the root with the request's path, \<^verbatim>\<open>index.html\<close> for a path that
  ends in a slash; any other method, or no such file, falls through to the next handler.\<close>

definition static_file :: "string \<Rightarrow> node_fs \<Rightarrow> string \<Rightarrow> string \<Rightarrow> string option" where
  "static_file root fs meth path =
     (if meth \<noteq> ''GET'' \<and> meth \<noteq> ''HEAD'' then None
      else fs (root @ (if path \<noteq> [] \<and> last path = CHR ''/'' then path @ ''index.html'' else path)))"

definition server_ping :: "int \<Rightarrow> string" where
  "server_ping now = json_stringify (JObj [(''ok'', JBool True), (''time'', JNum now)])"

text \<open>The middleware stack in the order of \<^verbatim>\<open>app.use\<close> and \<^verbatim>\<open>app.get\<close>: the static
  files first, then \<^verbatim>\<open>GET /api/ping\<close> (Express routes \<^verbatim>\<open>HEAD\<close> to a \<^verbatim>\<open>GET\<close>
  route), then the 404 handler.\<close>

definition server_handle :: "string \<Rightarrow> node_fs \<Rightarrow> int \<Rightarrow> string \<Rightarrow> string \<Rightarrow> srv_resp" where
  "server_handle dir fs now meth u =
     (let path = url_path u in
      case static_file (dir @ ''/public'') fs meth path of
        Some c \<Rightarrow> SrvFile c
      | None \<Rightarrow>
          if (meth = ''GET'' \<or> meth = ''HEAD'') \<and> path = ''/api/ping'' then SrvJson (server_ping now)
          else SrvNotFound meth path)"

text \<open>The server as a network seen from the page: a file or a route answers 200, the
  404 page answers 404.\<close>

definition srv_fetch_resp :: "srv_resp \<Rightarrow> fetch_resp" where
  "srv_fetch_resp r = (case r of
      SrvFile c \<Rightarrow> \<lparr>fr_status = 200, fr_text = c\<rparr>
    | SrvJson b \<Rightarrow> \<lparr>fr_status = 200, fr_text = b\<rparr>
    | SrvNotFound m p \<Rightarrow> \<lparr>fr_status = 404, fr_text = ''Cannot '' @ m @ '' '' @ p\<rparr>)"

subsection \<open>Properties\<close>

lemma parent_dir_child: "CHR ''/'' \<notin> set c \<Longrightarrow> parent_dir (d @ CHR ''/'' # c) = d"
proof -
  assume "CHR ''/'' \<notin> set c"
  then have "dropWhile (\<lambda>x. x \<noteq> CHR ''/'') (rev c @ CHR ''/'' # rev d) = CHR ''/'' # rev d"
    by (subst dropWhile_append2) auto
  then show ?thesis by (simp add: parent_dir_def)
qed

lemma config_file_scripts: "config_file (d @ ''/scripts'') = d @ ''/public/worker-config.json''"
  using parent_dir_child [of "''scripts''" d] by (simp add: config_file_def)

text \<open>The configuration file the script writes parses back to the object it
  serialised, whatever the URL given.\<close>

lemma config_text_parse: "json_parse (config_text arg) = Some (JObj [(''workerBase'', JStr arg)])"
  using json_parse_gap [of "''  ''" "[]" "JObj [(''workerBase'', JStr arg)]"]
  by (simp add: config_text_def is_ws_def obj_merge_def)

lemma set_worker_base_fs:
  "script_arg argv \<noteq> [] \<Longrightarrow> run_fs (set_worker_base dir argv fs) = fs(config_file dir \<mapsto> config_text (script_arg argv))"
  by (simp add: set_worker_base_def Let_def)

text \<open>C26: Run without a non-empty argument, \<^verbatim>\<open>set-worker-base.js\<close> prints its usage
  on the error stream, leaves every file as it was and exits with status 1.\<close>

theorem set_worker_base_missing_arg:
  assumes "length argv \<le> 2 \<or> argv ! 2 = []"
  shows "set_worker_base dir argv fs = \<lparr>run_fs = fs, run_out = [], run_err = [usage_msg], run_exit = 1\<rparr>"
  using assms by (auto simp: set_worker_base_def script_arg_def)

text \<open>C25: A successful run of \<^verbatim>\<open>set-worker-base.js\<close> writes exactly one file, the
  configuration file beside \<^verbatim>\<open>public/\<close>, and \<^verbatim>\<open>JSON.parse\<close> of its text gives back
  the object \<^verbatim>\<open>{workerBase: arg}\<close> for the argument given, whatever characters it
  holds.\<close>

theorem set_worker_base_roundtrip:
  assumes "run_exit (set_worker_base dir argv fs) = 0"
  shows "run_fs (set_worker_base dir argv fs) = fs(config_file dir \<mapsto> config_text (script_arg argv)) \<and>
         json_parse (config_text (script_arg argv)) = Some (JObj [(''workerBase'', JStr (script_arg argv))]) \<and>
         script_arg argv \<noteq> []"
proof -
  have "script_arg argv \<noteq> []" using assms by (auto simp: set_worker_base_def Let_def split: if_splits)
  then show ?thesis by (simp add: set_worker_base_fs config_text_parse)
qed

text \<open>C27: \<^verbatim>\<open>server.js\<close> answers \<^verbatim>\<open>GET /api/ping\<close>, when no file of \<^verbatim>\<open>public/\<close>
  shadows the route, with \<^verbatim>\<open>{ok: true, time: now}\<close>: the field is \<^verbatim>\<open>time\<close>, not the
  \<^verbatim>\<open>now\<close> of the worker's ping; a query string does not change the route.\<close>

theorem server_ping_reports_time:
  assumes "fs (dir @ ''/public/api/ping'') = None" and "url_path u = ''/api/ping''"
  shows "server_handle dir fs now ''GET'' u = SrvJson (server_ping now) \<and>
         json_parse (server_ping now) = Some (JObj [(''ok'', JBool True), (''time'', JNum now)]) \<and>
         jget (the (json_parse (server_ping now))) ''now'' = None"
proof -
  have "json_parse (server_ping now) = Some (JObj [(''ok'', JBool True), (''time'', JNum now)])"
    unfolding server_ping_def by (rule json_parse_stringify) simp
  with assms show ?thesis by (simp add: server_handle_def static_file_def)
qed

text \<open>C28: \<^verbatim>\<open>express.static\<close> comes first: a file \<^verbatim>\<open>public/api/ping\<close> shadows the ping
  route.\<close>

theorem server_static_shadows_ping:
  assumes "fs (dir @ ''/public/api/ping'') = Some c"
  shows "server_handle dir fs now ''GET'' ''/api/ping'' = SrvFile c"
  using assms by (simp add: server_handle_def static_file_def url_path_def)

end
