(* ===== verification/Page_Requests.thy ===== *)
theory Page_Requests
  imports App OAuth "HOL-Library.Sublist"
begin

text \<open>
  The requests the page sends to the worker, as the worker reads them. The page's
  \<^verbatim>\<open>fetch(WORKER_BASE + path)\<close> (\<^verbatim>\<open>src/public/app.js\<close> line 213) goes to another origin
  than the page's own and carries no credentials, so the worker sees no \<^verbatim>\<open>Cookie\<close>
  header; the worker reads the query with \<^verbatim>\<open>url.searchParams\<close> (\<^verbatim>\<open>src/worker/index.js\<close>
  line 97), the \<^verbatim>\<open>application/x-www-form-urlencoded\<close> parser: pairs split at
  \<^verbatim>\<open>&\<close>, name and value at the first \<^verbatim>\<open>=\<close>, \<^verbatim>\<open>+\<close> read as a space and
  \<^verbatim>\<open>%XX\<close> as the byte \<open>XX\<close>. The parser is the platform's; \<open>page_request\<close> is the
  contract between the two programs, and its lemmas show that the e-mail the page puts
  in the query is the one the worker reads. The Drive loader's first fetch is that
  request for the e-mail stored in \<^verbatim>\<open>localStorage\<close>, whatever the response, and the
  \<^verbatim>\<open>message\<close> listener stores any e-mail posted to the page: the two compose into
  the claim that a message from any window decides whose files the page asks for. The
  same decoding reads back the consent URL of the worker's start route.
\<close>

fun pct_decode :: "string \<Rightarrow> string" where
  "pct_decode [] = []"
| "pct_decode (c # cs) =
     (if c = CHR ''%'' \<and> length cs \<ge> 2 \<and> hex_val (cs ! 0) \<noteq> None \<and> hex_val (cs ! 1) \<noteq> None
      then char_of (16 * the (hex_val (cs ! 0)) + the (hex_val (cs ! 1))) # pct_decode (drop 2 cs)
      else (if c = CHR ''+'' then CHR 0x20 else c) # pct_decode cs)"

fun split_at_char :: "char \<Rightarrow> string \<Rightarrow> string list" where
  "split_at_char d [] = [[]]"
| "split_at_char d (c # cs) =
     (let r = split_at_char d cs in if c = d then [] # r else (c # hd r) # tl r)"

definition param_pair :: "string \<Rightarrow> string \<times> string" where
  "param_pair w = (pct_decode (takeWhile (\<lambda>c. c \<noteq> CHR ''='') w),
                   pct_decode (drop 1 (dropWhile (\<lambda>c. c \<noteq> CHR ''='') w)))"

definition query_params :: "string \<Rightarrow> (string \<times> string) list" where
  "query_params q = map param_pair (filter (\<lambda>w. w \<noteq> []) (split_at_char CHR ''&'' q))"

text \<open>The request the worker receives for the page's \<^verbatim>\<open>fetch\<close> of \<open>u\<close> (the part of
  the URL after \<^verbatim>\<open>WORKER_BASE\<close>), the worker's origin being \<open>origin\<close>.\<close>

definition page_request :: "string \<Rightarrow> string \<Rightarrow> request" where
  "page_request origin u =
     \<lparr>rq_origin = origin, rq_path = takeWhile (\<lambda>c. c \<noteq> CHR ''?'') u,
      rq_params = query_params (drop 1 (dropWhile (\<lambda>c. c \<noteq> CHR ''?'') u)),
      rq_method = ''GET'', rq_cookie = None, rq_body = []\<rparr>"

subsection \<open>Decoding what \<^verbatim>\<open>encodeURIComponent\<close> encoded\<close>

lemma hex_val_hex_upper: "k < 16 \<Longrightarrow> hex_val (hex_upper k) = Some k"
  by (auto simp: hex_val_def hex_upper_def is_digit_def digit_val_def)

lemma char_of_hex_split: "char_of (16 * (of_char c div 16) + of_char c mod 16) = (c :: char)"
  by simp

lemma pct_decode_uri_encode: "pct_decode (uri_encode s) = s"
proof (induction s)
  case Nil
  then show ?case by (simp add: uri_encode_def)
next
  case (Cons c s)
  show ?case
  proof (cases "uri_unreserved c")
    case True
    then have "c \<noteq> CHR ''%''" "c \<noteq> CHR ''+''" by (auto simp: uri_unreserved_def)
    with True Cons.IH show ?thesis by (simp add: uri_encode_def)
  next
    case False
    have "of_char c div 16 < (16::nat)" "of_char c mod 16 < (16::nat)"
      using nat_of_char_less_256 [of c] by (simp_all add: div_less_iff_less_mult)
    with False Cons.IH show ?thesis by (simp add: uri_encode_def hex_val_hex_upper)
  qed
qed

lemma of_char_hex_upper:
  "k < 16 \<Longrightarrow> (of_char (hex_upper k) :: nat) = (if k < 10 then 48 + k else 55 + k)"
  by (simp add: hex_upper_def)

lemma hex_upper_plain:
  assumes "k < 16"
  shows "hex_upper k \<noteq> CHR ''&'' \<and> hex_upper k \<noteq> CHR ''='' \<and> hex_upper k \<noteq> CHR ''?''"
proof -
  have "(of_char (hex_upper k) :: nat) \<notin> {38, 61, 63}"
    using of_char_hex_upper [OF assms] by auto
  then show ?thesis by auto
qed

lemma uri_encode_plain:
  assumes "x \<in> set (uri_encode s)"
  shows "x \<noteq> CHR ''&'' \<and> x \<noteq> CHR ''='' \<and> x \<noteq> CHR ''?''"
proof -
  obtain c where x: "x \<in> set (if uri_unreserved c then [c]
      else [CHR ''%'', hex_upper (of_char c div 16), hex_upper (of_char c mod 16)])"
    using assms unfolding uri_encode_def set_concat set_map by blast
  show ?thesis
  proof (cases "uri_unreserved c")
    case True
    then show ?thesis using x by (auto simp: uri_unreserved_def)
  next
    case False
    have "of_char c div 16 < (16::nat)" "of_char c mod 16 < (16::nat)"
      using nat_of_char_less_256 [of c] by (simp_all add: div_less_iff_less_mult)
    then show ?thesis using x False hex_upper_plain by auto
  qed
qed

lemma split_at_char_none: "d \<notin> set s \<Longrightarrow> split_at_char d s = [s]"
  by (induction s) (auto simp: Let_def)

lemma pct_decode_plain: "CHR ''%'' \<notin> set s \<Longrightarrow> CHR ''+'' \<notin> set s \<Longrightarrow> pct_decode s = s"
  by (induction s) auto

lemma drive_list_query:
  "query_params (''email='' @ uri_encode e) = [(''email'', e)]"
proof -
  have "CHR ''&'' \<notin> set (''email='' @ uri_encode e)" using uri_encode_plain by auto
  then have "split_at_char CHR ''&'' (''email='' @ uri_encode e) = [''email='' @ uri_encode e]"
    by (rule split_at_char_none)
  moreover have "takeWhile (\<lambda>c. c \<noteq> CHR ''='') (''email='' @ uri_encode e) = ''email''"
    and "drop 1 (dropWhile (\<lambda>c. c \<noteq> CHR ''='') (''email='' @ uri_encode e)) = uri_encode e"
    by simp_all
  ultimately show ?thesis
    by (simp add: query_params_def param_pair_def pct_decode_plain pct_decode_uri_encode)
qed

lemma split_at_char_sep: "d \<notin> set xs \<Longrightarrow> split_at_char d (xs @ d # ys) = xs # split_at_char d ys"
  by (induction xs) (auto simp: Let_def)

lemma split_amp_encoded [simp]:
  "split_at_char CHR ''&'' (uri_encode x @ CHR ''&'' # ys) = uri_encode x # split_at_char CHR ''&'' ys"
  "split_at_char CHR ''&'' (uri_encode x) = [uri_encode x]"
  using uri_encode_plain [of _ x] by (auto intro!: split_at_char_sep split_at_char_none)

subsection \<open>What the Drive loader fetches\<close>

lemma pres_drive_file_line: "st_pres P (drive_file_line f)"
  unfolding drive_file_line_def by (intro st_ok_rules)

lemma pres_append_fetched: "st_pres (\<lambda>q. prefix G (fetched q)) (append_message t w)"
  by (simp add: st_pres_def append_message_def)

lemma gets_fetch_prefix:
  assumes "\<And>b r. st_pres (\<lambda>q. prefix (fetched q0 @ [url (worker_base q0)]) (fetched q)) (f b r)"
  shows "prefix (fetched q0 @ [url (worker_base q0)])
           (fetched (snd (st_bind (st_gets worker_base) (\<lambda>b. st_bind (page_fetch env (url b)) (f b)) q0)))"
proof (cases "page_net env (fetched q0) (url (worker_base q0))")
  case (Inl m)
  then show ?thesis by (simp add: page_fetch_def)
next
  case (Inr r)
  let ?q1 = "q0\<lparr>fetched := fetched q0 @ [url (worker_base q0)]\<rparr>"
  have "prefix (fetched q0 @ [url (worker_base q0)]) (fetched (snd (f (worker_base q0) r ?q1)))"
    using assms [of "worker_base q0" r] by (simp add: st_pres_def)
  with Inr show ?thesis by (simp add: page_fetch_def)
qed

lemma drive_files_body_fetch:
  "prefix (fetched q @ [base_url (worker_base q) (drive_list_path em)]) (fetched (snd (drive_files_body env em q)))"
  unfolding drive_files_body_def Let_def
  by (rule gets_fetch_prefix) (intro st_ok_rules pres_drive_file_line pres_append_fetched)

lemma drive_load_sg:
  assumes "ls q ''ca_google_email'' = Some (json_stringify (JStr e))"
  shows "ls_value (ls q ''ca_google_email'') None = Some (JStr e)"
  unfolding assms by (rule ls_value_stringify) simp_all

lemma drive_load_fetch:
  assumes "ls q ''ca_google_email'' = Some (json_stringify (JStr e))" "e \<noteq> []"
  shows "prefix (fetched q @ [base_url (worker_base q) (drive_list_path (JStr e))]) (fetched (snd (drive_load env q)))"
proof -
  let ?q1 = "q\<lparr>chat_log := chat_log q @ [(''assistant'', ''Loading Drive files...'')]\<rparr>"
  let ?h = "\<lambda>err. append_message (''Drive load failed: '' @ exn_string err) ''assistant''"
  have eq: "drive_load env q = st_catch (drive_files_body env (JStr e)) ?h ?q1"
    using drive_load_sg [OF assms(1)] assms(2)
    by (simp add: drive_load_def storage_get_def append_message_def del: st_catch_apply)
  have "prefix (fetched q @ [base_url (worker_base q) (drive_list_path (JStr e))])
          (fetched (snd (st_catch (drive_files_body env (JStr e)) ?h ?q1)))"
    using drive_files_body_fetch [of ?q1 "JStr e" env]
    by (intro catch_snd_pres [where P = "\<lambda>x. prefix (fetched q @ [base_url (worker_base q) (drive_list_path (JStr e))]) (fetched x)"])
       (simp_all add: pres_append_fetched)
  then show ?thesis unfolding eq .
qed

lemma on_message_gauth:
  assumes "e \<noteq> []"
  shows "snd (on_message (Some (JObj [(''type'', JStr ''cloudassistant:gauth''), (''email'', JStr e)])) p) =
         p\<lparr>ls := (ls p)(''ca_google_email'' \<mapsto> json_stringify (JStr e)), signed_user := Some e,
           chat_log := chat_log p @ [(''assistant'', ''Google account connected: '' @ e)]\<rparr>"
  using assms by (simp add: on_message_def get_prop_def storage_set_def append_message_def del: json_stringify.simps)

subsection \<open>The page's fetches as the worker sees them\<close>

text \<open>C24: The request the page's Drive loader sends for the e-mail \<open>e\<close>, read by the
  worker: the listing route, the \<^verbatim>\<open>email\<close> parameter decodes back to \<open>e\<close> whatever
  characters it holds, and there is no session cookie, so the worker can resolve the
  identity only from the parameter.\<close>

theorem drive_list_request_roundtrip:
  "take 15 (rq_path (page_request origin (drive_list_path (JStr e)))) = ''/api/drive/list'' \<and>
   param_get (page_request origin (drive_list_path (JStr e))) ''email'' = Some e \<and>
   request_session (page_request origin (drive_list_path (JStr e))) = None"
proof -
  have a: "takeWhile (\<lambda>c. c \<noteq> CHR ''?'') (drive_list_path (JStr e)) = ''/api/drive/list''"
    and b: "drop 1 (dropWhile (\<lambda>c. c \<noteq> CHR ''?'') (drive_list_path (JStr e))) = ''email='' @ uri_encode e"
    by (simp_all add: drive_list_path_def)
  have "rq_path (page_request origin (drive_list_path (JStr e))) = ''/api/drive/list''"
    "rq_params (page_request origin (drive_list_path (JStr e))) = [(''email'', e)]"
    "rq_cookie (page_request origin (drive_list_path (JStr e))) = None"
    unfolding page_request_def request.select_convs by (simp_all only: a b drive_list_query)
  then show ?thesis
    by (simp add: param_get_def request_session_def cookie_session_def session_at_def)
qed

text \<open>C23: The page takes the \<^verbatim>\<open>cloudassistant:gauth\<close> message from any window, as the
  listener checks neither \<^verbatim>\<open>event.origin\<close> nor \<^verbatim>\<open>event.source\<close>: after a message
  naming the e-mail \<open>e\<close>, the next click on the Drive button fetches the listing for
  \<open>e\<close> from the configured worker, whatever account the page was signed in with.\<close>

theorem forged_gauth_redirects_drive_load:
  assumes "wired p" "e \<noteq> []"
  shows "prefix (fetched p @ [base_url (worker_base p) (drive_list_path (JStr e))])
           (fetched (fold (page_step env)
              [PostMessage (Some (JObj [(''type'', JStr ''cloudassistant:gauth''), (''email'', JStr e)])),
               DriveLoadClick] p))"
proof -
  let ?m = "Some (JObj [(''type'', JStr ''cloudassistant:gauth''), (''email'', JStr e)])"
  let ?p1 = "snd (on_message ?m p)"
  have s1: "page_step env (PostMessage ?m) p = ?p1"
    using assms(1) by (simp add: page_step_def page_handler_def st_catch_return_snd del: st_catch_apply)
  have p1: "ls ?p1 ''ca_google_email'' = Some (json_stringify (JStr e))" "wired ?p1"
    "fetched ?p1 = fetched p" "worker_base ?p1 = worker_base p"
    unfolding on_message_gauth [OF assms(2)] using assms(1) by (simp_all del: json_stringify.simps)
  have s2: "page_step env DriveLoadClick ?p1 = snd (drive_load env ?p1)"
    using p1(2) by (simp add: page_step_def page_handler_def st_catch_return_snd del: st_catch_apply)
  show ?thesis
    using drive_load_fetch [OF p1(1) assms(2), of env] s1 s2 p1(3,4) by simp
qed

subsection \<open>The consent URL as the provider reads it\<close>

text \<open>C9: \<^verbatim>\<open>/auth/google/start\<close> draws exactly one UUID, sends nothing, writes nothing
  to the store, and redirects (302) to Google's authorization endpoint with a query
  that, decoded as the provider decodes it, holds exactly the client id, the callback
  URI on the request's origin, \<^verbatim>\<open>response_type=code\<close>, the four scopes,
  \<^verbatim>\<open>access_type=offline\<close>, \<^verbatim>\<open>prompt=consent\<close> and, as \<^verbatim>\<open>state\<close>, the UUID just
  drawn, whatever characters the client id and origin hold.\<close>

theorem start_redirects_with_fresh_state:
  "\<exists>u. handle_start env r s = (Inr (redirect_response u 302), s\<lparr>uuid_ctr := Suc (uuid_ctr s)\<rparr>) \<and>
       takeWhile (\<lambda>c. c \<noteq> CHR ''?'') u = ''https://accounts.google.com/o/oauth2/v2/auth'' \<and>
       query_params (drop 1 (dropWhile (\<lambda>c. c \<noteq> CHR ''?'') u)) =
         [(''client_id'', env_str (google_client_id env)), (''redirect_uri'', rq_origin r @ ''/auth/google/callback''),
          (''response_type'', ''code''),
          (''scope'', ''openid email profile https://www.googleapis.com/auth/drive.readonly''),
          (''access_type'', ''offline''), (''prompt'', ''consent''), (''state'', uuid_of env (uuid_ctr s))]"
proof (intro exI conjI)
  let ?u = "auth_url env r (uuid_of env (uuid_ctr s))"
  show "handle_start env r s = (Inr (redirect_response ?u 302), s\<lparr>uuid_ctr := Suc (uuid_ctr s)\<rparr>)"
    by (simp add: handle_start_def rt_simps)
  show "takeWhile (\<lambda>c. c \<noteq> CHR ''?'') ?u = ''https://accounts.google.com/o/oauth2/v2/auth''"
    by (simp add: auth_url_def google_auth_endpoint_def)
  have q: "drop 1 (dropWhile (\<lambda>c. c \<noteq> CHR ''?'') ?u) =
      ''client_id='' @ uri_encode (env_str (google_client_id env)) @
      ''&redirect_uri='' @ uri_encode (callback_uri r) @
      ''&response_type=code&scope='' @ uri_encode oauth_scope @
      ''&access_type=offline&prompt=consent&state='' @ uri_encode (uuid_of env (uuid_ctr s))"
    by (simp add: auth_url_def google_auth_endpoint_def)
  show "query_params (drop 1 (dropWhile (\<lambda>c. c \<noteq> CHR ''?'') ?u)) =
         [(''client_id'', env_str (google_client_id env)), (''redirect_uri'', rq_origin r @ ''/auth/google/callback''),
          (''response_type'', ''code''),
          (''scope'', ''openid email profile https://www.googleapis.com/auth/drive.readonly''),
          (''access_type'', ''offline''), (''prompt'', ''consent''), (''state'', uuid_of env (uuid_ctr s))]"
    unfolding q
    by (simp add: query_params_def param_pair_def pct_decode_uri_encode callback_uri_def oauth_scope_def)
qed

end
