(* ===== verification/Spec2Isabelle.thy ===== *)
theory Spec2Isabelle
  imports Worker_Store Worker_Responses Timers Event_Loop Node_Tools Page_Requests
begin

text \<open>
  Verification development of the cloudassistant repository: a Cloudflare Worker
  (\<^verbatim>\<open>src/worker/index.js\<close>) that signs a browser in with Google OAuth2, keeps the
  tokens in a key-value namespace, maps a session cookie to the signed-in identity, lists
  the identity's Drive files (renewing an expired access token once) and proxies chat
  prompts, enriched with Drive content, to a Gemini endpoint; the browser page
  (\<^verbatim>\<open>src/public/app.js\<close>) with its chat assistant, to-dos, notes and reminders in
  \<^verbatim>\<open>localStorage\<close> and its client side of the sign-in and the Drive listing; the
  Express server that serves the page (\<^verbatim>\<open>src/server.js\<close>); the script that writes
  the page's configuration (\<^verbatim>\<open>src/scripts/set-worker-base.js\<close>).
  The page talks to the worker by \<^verbatim>\<open>fetch\<close> and by the popup's
  \<^verbatim>\<open>postMessage\<close>; to the server by \<^verbatim>\<open>fetch\<close> of its own files; the script
  talks to the page through the file the server serves.

  \<^bold>\<open>Layout.\<close>
  \<^item> \<open>Prelude\<close>: the exception-state monad (\<open>st_bind\<close>, \<open>st_catch\<close>, ...) in which
    every handler is written, its applied equations (\<open>st_simps\<close>), and the two
    Hoare-style judgements \<open>st_pres\<close> (keeps a predicate, returning or throwing) and
    \<open>st_ok\<close> (returns and keeps it) with their rules \<open>st_ok_rules\<close>, and the
    judgement \<open>st_res\<close> on returned values with its rules \<open>st_res_rules\<close>.
  \<^item> \<open>Json\<close>: JavaScript values (\<open>jval\<close>), truthiness, property reads,
    \<^verbatim>\<open>JSON.stringify\<close> (also with indentation, \<open>json_gap\<close>) and a fuelled
    \<^verbatim>\<open>JSON.parse\<close>. \<open>Json_Codec\<close>: \<^verbatim>\<open>JSON.parse\<close> of the text
    \<^verbatim>\<open>JSON.stringify(v, null, space)\<close> prints is \<open>json_norm v\<close>, that is \<open>v\<close> for
    every value JavaScript builds, and the fuel given is always enough.
  \<^item> \<open>Runtime\<close>: the Workers platform: exceptions, \<^verbatim>\<open>fetch\<close> (a network that
    answers each request as a function of the requests already sent), the
    \<^verbatim>\<open>TOKENS\<close> namespace, \<^verbatim>\<open>crypto.randomUUID\<close>, \<^verbatim>\<open>Date.now\<close>, requests,
    responses, \<^verbatim>\<open>encodeURIComponent\<close>. The worker's state \<open>wstate\<close> is the
    namespace, the UUIDs drawn, the clock and the log of requests sent.
  \<^item> \<open>Store\<close>, \<open>Cookie\<close>, \<open>OAuth\<close>, \<open>Drive\<close>, \<open>Chat\<close>: the worker's key layout,
    the \<^verbatim>\<open>ca_session\<close> expression (lines 88, 140) and the \<^verbatim>\<open>Set-Cookie\<close> value
    (line 70), \<open>handle_start\<close> and \<open>handle_callback\<close> (lines 11-82), the session
    lookup, \<open>refresh_google_token\<close> and \<open>handle_drive_list\<close> (lines 84-128, 204-224),
    \<open>handle_chat\<close> and its enrichment (lines 131-195) with the bound \<open>sends_le\<close> on
    the requests it sends. \<open>Worker_Store\<close>: the store invariant and its preservation
    by every handler. \<open>Worker_Responses\<close>: the type of the responses the handlers
    build (status and header names) and that every handler returns only such responses.
  \<^item> \<open>Regex\<close>, \<open>Page\<close>, \<open>Assistant\<close>, \<open>App\<close>: the page. A backtracking matcher
    with JavaScript's priorities for its regular expressions and \<^verbatim>\<open>trim\<close>; the
    \<^verbatim>\<open>localStorage\<close> helper, the to-do, note and reminder operations with their
    renderings and timers (record \<open>page\<close>, oracle record \<open>page_env\<close> for the locale,
    \<^verbatim>\<open>Date.parse\<close>, the permission and popup answers and the network); the
    assistant's replies; the form handlers, the message listener, sign-in, the Drive
    loader, the configuration loader, \<^verbatim>\<open>init()\<close>, and the event loop \<open>page_step\<close>
    with its reachable states \<open>page_reach\<close>.
  \<^item> \<open>Timers\<close>: the frame every timer callback keeps (the clock, the callbacks
    already due, the chat log) and the liveness of reminders; the second frame
    \<open>fut_frame\<close>: no callback adds or removes a callback due now.
    \<open>Event_Loop\<close>: the browser's loop over the due callbacks, \<open>run_due\<close>, a
    \<open>function\<close> whose termination is proved with the number of due callbacks as the
    measure.
  \<^item> \<open>Page_Requests\<close>: the requests the page sends, as the worker reads them
    (\<open>page_request\<close>: \<^verbatim>\<open>url.searchParams\<close> decoding, no cookie on the
    cross-origin \<^verbatim>\<open>fetch\<close>), what the Drive loader fetches, the message
    listener's effect on it, and the worker's consent URL decoded as the provider
    decodes it.
  \<^item> \<open>Node_Tools\<close>: \<open>set_worker_base\<close> (the whole script over a file system) and
    \<open>server_handle\<close> (the Express middleware order: static files, ping, 404).
  \<^item> This theory: the router \<open>route\<close> and its \<^verbatim>\<open>try/catch\<close> \<open>worker_fetch\<close>
    (lines 2-10, 197-201), the worker's reachable states \<open>worker_reach\<close>, the page's
    network answered by the server (\<open>served_net\<close>), the properties that span
    components, and example scenarios with the witnesses of every theorem with a
    hypothesis.

  \<^bold>\<open>The source as written does not parse.\<close> Line 129 of the worker closes the
  \<^verbatim>\<open>try\<close> of line 6 one brace early, so the chat route and the \<^verbatim>\<open>catch\<close> of
  line 198 fall outside it and the module is a syntax error. The model follows the
  evident intent: every route inside the \<^verbatim>\<open>try\<close>.

  \<^bold>\<open>What is proved.\<close> For the worker: the exact result and state change of the
  start route (its consent URL read back parameter by parameter), of the ping route,
  and of the callback and the Drive listing on the branches the theorems name (success,
  missing code, provider error, no identity, renewal, failed renewal, refused listing);
  the chat route only through its request bound, its store invariant and its response
  type; the equivalence of the cookie scan with a
  lookup over cookie lists and the cookie round trip; the refinement of the token-record
  contract by the refresh merge; that the worker always answers; that a chat sends at
  most four requests; that every response has the worker's response type and none
  carries \<^verbatim>\<open>Access-Control-Allow-Origin\<close>; and the invariant,
  over all reachable states, that every \<^verbatim>\<open>google:\<close> value is the JSON text of an
  object. For the page: the refinement of each list operation by an operation on the
  abstract list, the invariant \<open>page_ok\<close> over \<open>page_reach\<close> and that no handler
  ends in an uncaught exception, the liveness of reminders (every queued reminder is
  delivered once the clock has passed the due times and the timers fire), the
  termination of the event loop over the due callbacks after at most as many callbacks
  as were due, the assistant's command replies, the clamped timer.
  For the Node tools: the script's error exit and its file's round trip, the
  server's route order and ping body. Across the programs: the URL given to the script
  is the page's \<^verbatim>\<open>WORKER_BASE\<close>; the e-mail the page puts in the Drive
  listing URL is the one the worker's \<^verbatim>\<open>searchParams\<close> read, for every string;
  a \<^verbatim>\<open>cloudassistant:gauth\<close> message from any window decides whose listing the
  next Drive click requests. Several theorems record defects (see the
  findings): the unchecked OAuth state, the email parameter that authenticates, the
  200 status on a refused listing, same-millisecond ids, the case-sensitive reminder
  unit, the early delivery of far reminders, the boot that any non-array stored
  to-do list aborts, the
  missing CORS headers, the unchecked message origin.

  \<^bold>\<open>Modelling choices.\<close> Numbers are integers; strings are byte strings (so
  \<^verbatim>\<open>slice(0, 800)\<close> counts bytes and the case folding of the regular expressions
  is ASCII's). The clock does not advance within a request or a handler.
  \<^verbatim>\<open>JSON.parse\<close> accepts integers only (every number the programs parse is one);
  it is given one unit of fuel more than the text has characters, proved enough in
  \<open>Json_Codec\<close>. The matcher's recursion is structural or by a measure, so no fuel is
  needed there. \<^verbatim>\<open>setTimeout\<close> is a queue of callbacks ordered by due time;
  the event loop \<open>run_due\<close> needs no fuel, as a callback never queues one that is
  already due (\<^verbatim>\<open>scheduleTimeout\<close> delivers a reminder whose delay is not
  positive at once). \<^verbatim>\<open>URLSearchParams\<close> is modelled from the WHATWG
  form-urlencoded parser: pairs split at \<^verbatim>\<open>&\<close>, \<^verbatim>\<open>+\<close> a space, \<^verbatim>\<open>%XX\<close> a byte.

  \<^bold>\<open>Not modelled.\<close> The DOM (what the page renders is kept as lists of rows, the
  view switching of \<^verbatim>\<open>showView\<close> and the notification permission prompt only
  touch the document); the JavaScript, Workers and Node runtimes themselves beyond the
  operations the code calls; Express's path decoding and directory redirects; the
  browser's CORS check itself (the theorems state the headers it reads).
\<close>

section \<open>The router\<close>

definition ping_body :: "int \<Rightarrow> string" where
  "ping_body now = json_stringify (JObj [(''ok'', JBool True), (''now'', JNum now)])"

definition route :: "worker_env \<Rightarrow> request \<Rightarrow> response wm" where
  "route env r =
     (if rq_path r = ''/api/ping'' then st_bind date_now (\<lambda>now. st_return (json_response 200 (ping_body now)))
      else if rq_path r = ''/auth/google/start'' then handle_start env r
      else if rq_path r = ''/auth/google/callback'' then handle_callback env r
      else if take 15 (rq_path r) = ''/api/drive/list'' then handle_drive_list env r
      else if rq_path r = ''/api/chat/gemini'' \<and> rq_method r = ''POST'' then handle_chat env r
      else st_return (text_response 404 ''Not found''))"

definition worker_fetch :: "worker_env \<Rightarrow> request \<Rightarrow> response wm" where
  "worker_fetch env r =
     st_catch (route env r) (\<lambda>err. st_return (text_response 500 (''Worker error: '' @ exn_string err)))"

text \<open>The states of the worker's store over its life: a deployment starts from an empty
  namespace and every request, with whatever configuration and network answers, moves
  it by \<open>worker_fetch\<close>.\<close>

inductive worker_reach :: "wstate \<Rightarrow> bool" where
  init: "kv s = Map.empty \<Longrightarrow> worker_reach s"
| step: "worker_reach s \<Longrightarrow> worker_reach (snd (worker_fetch env r s))"

section \<open>The configuration path\<close>

text \<open>The page's \<^verbatim>\<open>fetch\<close> answered by \<^verbatim>\<open>server.js\<close> run from \<open>dir\<close> over the
  file system \<open>fs\<close> at time \<open>now\<close>: the page sends \<^verbatim>\<open>GET\<close> requests to its own
  origin when \<^verbatim>\<open>WORKER_BASE\<close> is empty.\<close>

definition served_net :: "string \<Rightarrow> node_fs \<Rightarrow> int \<Rightarrow> string list \<Rightarrow> string \<Rightarrow> string + fetch_resp" where
  "served_net dir fs now log u = Inr (srv_fetch_resp (server_handle dir fs now ''GET'' u))"

section \<open>Example scenarios\<close>

definition demo_env :: worker_env where
  "demo_env =
     \<lparr>google_client_id = Some ''cid'', google_client_secret = Some ''secret'', tokens_bound = True,
      gemini_api_url = Some ''https://gemini.example/v1/generate'', gemini_api_key = Some ''gkey'',
      net = (\<lambda>log req. Inl ''offline''), uuid_of = (\<lambda>n. ''uuid'' @ replicate n (CHR ''x''))\<rparr>"

definition demo_state :: wstate where
  "demo_state = \<lparr>kv = Map.empty, uuid_ctr = 0, clock = 1700000000000, sent = []\<rparr>"

definition demo_request :: "string \<Rightarrow> (string \<times> string) list \<Rightarrow> string option \<Rightarrow> request" where
  "demo_request path ps cookie =
     \<lparr>rq_origin = ''https://ca.example'', rq_path = path, rq_params = ps, rq_method = ''GET'',
      rq_cookie = cookie, rq_body = []\<rparr>"

definition demo_token_json :: jval where
  "demo_token_json = JObj [(''access_token'', JStr ''at1''), (''refresh_token'', JStr ''rt1''),
                           (''scope'', JStr ''openid email''), (''expires_in'', JNum 3599)]"

definition demo_user_json :: jval where
  "demo_user_json = JObj [(''sub'', JStr ''42''), (''email'', JStr ''ann@example.com'')]"

definition demo_login_net :: "fetch_req list \<Rightarrow> fetch_req \<Rightarrow> string + fetch_resp" where
  "demo_login_net log req =
     (if fr_url req = google_token_endpoint
      then Inr \<lparr>fr_status = 200, fr_text = json_stringify demo_token_json\<rparr>
      else Inr \<lparr>fr_status = 200, fr_text = json_stringify demo_user_json\<rparr>)"

definition demo_record :: jval where
  "demo_record = JObj [(''email'', JStr ''ann@example.com''), (''access_token'', JStr ''at0''),
                       (''refresh_token'', JStr ''rt1''), (''scope'', JStr ''drive'')]"

definition demo_refresh_json :: jval where
  "demo_refresh_json = JObj [(''access_token'', JStr ''at2''), (''expires_in'', JNum 3599)]"

definition demo_files_json :: jval where
  "demo_files_json = JObj [(''files'', JArr [JObj [(''id'', JStr ''f1''), (''name'', JStr ''Notes''),
                                                  (''mimeType'', JStr ''text/plain'')]])]"

definition demo_denied_json :: jval where
  "demo_denied_json = JObj [(''error'', JStr ''invalid_grant'')]"

definition demo_drive_state :: wstate where
  "demo_drive_state = demo_state\<lparr>kv := [session_key ''s1'' \<mapsto> ''ann@example.com'',
                                        ''google:ann@example.com'' \<mapsto> json_stringify demo_record]\<rparr>"

definition demo_drive_net :: "fetch_req list \<Rightarrow> fetch_req \<Rightarrow> string + fetch_resp" where
  "demo_drive_net log req =
     (case log of
        [] \<Rightarrow> Inr \<lparr>fr_status = 401, fr_text = json_stringify demo_denied_json\<rparr>
      | [_] \<Rightarrow> Inr \<lparr>fr_status = 200, fr_text = json_stringify demo_refresh_json\<rparr>
      | _ \<Rightarrow> Inr \<lparr>fr_status = 200, fr_text = json_stringify demo_files_json\<rparr>)"

definition demo_denied_net :: "fetch_req list \<Rightarrow> fetch_req \<Rightarrow> string + fetch_resp" where
  "demo_denied_net log req =
     (case log of
        [] \<Rightarrow> Inr \<lparr>fr_status = 401, fr_text = json_stringify demo_denied_json\<rparr>
      | _ \<Rightarrow> Inr \<lparr>fr_status = 400, fr_text = json_stringify demo_denied_json\<rparr>)"

definition demo_files_net :: "fetch_req list \<Rightarrow> fetch_req \<Rightarrow> string + fetch_resp" where
  "demo_files_net log req = Inr \<lparr>fr_status = 200, fr_text = json_stringify demo_files_json\<rparr>"

text \<open>A browser with an empty \<^verbatim>\<open>localStorage\<close> at time 1000, one with a stored
  to-do and one with a stored reminder.\<close>

definition demo_penv :: page_env where
  "demo_penv = \<lparr>locale_str = (\<lambda>_. ''today''), date_parse = (\<lambda>_. 0), notif_granted = True,
                popup_ok = True, page_net = (\<lambda>_ _. Inl ''Failed to fetch'')\<rparr>"

definition demo_page :: page where
  "demo_page = fresh_page Map.empty 1000"

definition demo_todo_page :: page where
  "demo_todo_page = fresh_page [''ca_todos'' \<mapsto> list_json todo_val [(''milk'', False, 5)]] 1000"

definition demo_rem_page :: page where
  "demo_rem_page = fresh_page [''ca_reminders'' \<mapsto> list_json rem_val [(7, ''stretch'', 2000)]] 1000"

section \<open>Properties of the router\<close>

text \<open>
  C17: \<^verbatim>\<open>GET /api/ping\<close> answers 200 with \<^verbatim>\<open>{"ok":true,"now":<clock>}\<close> and changes
  nothing.
\<close>

theorem ping_answers_clock:
  assumes "rq_path r = ''/api/ping''"
  shows "\<exists>resp. worker_fetch env r s = (Inr resp, s) \<and> rs_status resp = 200 \<and>
           rs_headers resp = [(''Content-Type'', ''application/json'')] \<and>
           json_parse (rs_body resp) = Some (JObj [(''ok'', JBool True), (''now'', JNum (clock s))])"
proof -
  have "json_parse (ping_body (clock s)) = Some (JObj [(''ok'', JBool True), (''now'', JNum (clock s))])"
    unfolding ping_body_def by (rule json_parse_stringify) simp
  with assms show ?thesis by (simp add: worker_fetch_def route_def rt_simps json_response_def)
qed

lemma pres_route: "st_pres store_ok (route env r)"
  unfolding route_def
  by (intro st_ok_rules pres_handle_start pres_handle_callback pres_handle_drive_list pres_handle_chat)

lemma pres_worker_fetch: "st_pres store_ok (worker_fetch env r)"
  unfolding worker_fetch_def by (intro st_ok_rules pres_route)

lemma res_route: "st_res resp_typed (route env r)"
  unfolding route_def
  by (auto intro!: st_res_rules res_handle_start res_handle_callback res_handle_drive_list res_handle_chat
           simp: ping_body_def)

lemma resp_typed_headers:
  "resp_typed x \<Longrightarrow> set (map fst (rs_headers x)) \<subseteq> {''Content-Type'', ''Location'', ''Set-Cookie''}"
  by (auto simp: resp_typed_def split: list.splits)

text \<open>
  C16: Every request gets a response of the worker's response type: 400, 401, 404 or 500
  with a plain text body, 200 or 500 with \<^verbatim>\<open>Content-Type\<close>, 302 with
  \<^verbatim>\<open>Location\<close>, or the callback page; none carries
  \<^verbatim>\<open>Access-Control-Allow-Origin\<close>, so a page served from another origin cannot
  read any of them.
\<close>

theorem worker_responses_typed:
  "\<exists>resp. fst (worker_fetch env r s) = Inr resp \<and> resp_typed resp \<and>
          ''Access-Control-Allow-Origin'' \<notin> set (map fst (rs_headers resp))"
proof -
  have "\<exists>resp s'. worker_fetch env r s = (Inr resp, s')"
  proof (cases "route env r s")
    case (Pair x s0)
    then show ?thesis by (cases x) (simp_all add: worker_fetch_def)
  qed
  then obtain resp s' where eq: "worker_fetch env r s = (Inr resp, s')" by blast
  have "st_res resp_typed (worker_fetch env r)"
    unfolding worker_fetch_def by (intro st_res_rules res_route) simp
  then have "resp_typed resp" using eq unfolding st_res_def by blast
  with eq resp_typed_headers [of resp] show ?thesis by auto
qed

text \<open>
  C5: In every state the worker reaches from an empty namespace, every value stored
  under a \<^verbatim>\<open>google:\<close> key is the JSON text of an object, so the \<^verbatim>\<open>JSON.parse\<close> of
  a stored token record (lines 92, 150) never throws on the worker's own data.
\<close>

theorem worker_reach_store_ok:
  assumes "worker_reach s" and "kv s (''google:'' @ e) = Some t"
  shows "\<exists>kvs. json_parse t = Some (JObj kvs)"
proof -
  have "store_ok s" using assms(1)
  proof (induction rule: worker_reach.induct)
    case (init s)
    then show ?case by (simp add: store_ok_def)
  next
    case (step s env r)
    then show ?case using pres_worker_fetch by (simp add: st_pres_def)
  qed
  with assms(2) have "token_text_ok t" by (simp add: store_ok_def)
  then show ?thesis by (simp add: token_text_ok_def split: option.splits jval.splits)
qed

section \<open>Properties of the configuration path\<close>

text \<open>
  C22: The three programs agree on the worker's base URL: after
  \<^verbatim>\<open>node scripts/set-worker-base.js <url>\<close> (run from \<^verbatim>\<open>scripts/\<close> beside
  \<^verbatim>\<open>server.js\<close>), the page served by \<^verbatim>\<open>server.js\<close> loads
  \<^verbatim>\<open>/worker-config.json\<close> and sets \<^verbatim>\<open>WORKER_BASE\<close> to exactly that URL.
\<close>

theorem configured_worker_base:
  assumes "script_arg argv \<noteq> []"
  shows "config_loaded (env\<lparr>page_net := served_net d (run_fs (set_worker_base (d @ ''/scripts'') argv fs)) now\<rparr>) p =
         (Inr (), p\<lparr>worker_base := Some (JStr (script_arg argv)), fetched := fetched p @ [''/worker-config.json'']\<rparr>)"
proof -
  have wr: "run_fs (set_worker_base (d @ ''/scripts'') argv fs) (d @ ''/public/worker-config.json'') =
              Some (config_text (script_arg argv))"
    using assms by (simp add: set_worker_base_fs config_file_scripts)
  then have "served_net d (run_fs (set_worker_base (d @ ''/scripts'') argv fs)) now log ''/worker-config.json'' =
             Inr \<lparr>fr_status = 200, fr_text = config_text (script_arg argv)\<rparr>" for log
    by (simp add: served_net_def server_handle_def static_file_def url_path_def srv_fetch_resp_def)
  with assms show ?thesis
    by (simp add: config_loaded_def page_fetch_def res_ok_def parse_json_def config_text_parse get_prop_def)
qed

section \<open>Witnesses\<close>

theorem ping_answers_clock_witness:
  "\<exists>resp. worker_fetch demo_env (demo_request ''/api/ping'' [] None) demo_state = (Inr resp, demo_state) \<and>
     rs_status resp = 200 \<and> rs_headers resp = [(''Content-Type'', ''application/json'')] \<and>
     json_parse (rs_body resp) = Some (JObj [(''ok'', JBool True), (''now'', JNum 1700000000000)])"
  using ping_answers_clock [of "demo_request ''/api/ping'' [] None" demo_env demo_state]
  by (simp add: demo_request_def demo_state_def)

theorem callback_stores_token_and_session_witness:
  "kv (snd (handle_callback (demo_env\<lparr>net := demo_login_net\<rparr>)
         (demo_request ''/auth/google/callback'' [(''code'', ''4/abc''), (''state'', ''uuid'')] None) demo_state))
      (session_key ''uuid'') = Some ''ann@example.com''"
  using OAuth.callback_stores_token_and_session
    [where r = "demo_request ''/auth/google/callback'' [(''code'', ''4/abc''), (''state'', ''uuid'')] None"
       and c = "''4/abc''" and env = "demo_env\<lparr>net := demo_login_net\<rparr>" and s = demo_state
       and rtok = "\<lparr>fr_status = 200, fr_text = json_stringify demo_token_json\<rparr>" and tj = demo_token_json
       and rusr = "\<lparr>fr_status = 200, fr_text = json_stringify demo_user_json\<rparr>" and uj = demo_user_json
       and e = "''ann@example.com''"]
  by (simp add: demo_request_def demo_env_def demo_state_def demo_login_net_def param_get_def
                demo_token_json_def demo_user_json_def json_eval google_token_endpoint_def
                token_exchange_req_def userinfo_req_def google_userinfo_endpoint_def)

lemmas demo_defs = demo_request_def demo_env_def demo_state_def demo_drive_state_def demo_record_def
  demo_refresh_json_def demo_files_json_def demo_denied_json_def param_get_def session_key_def

theorem drive_list_refresh_retry_once_witness:
  "length (sent (snd (handle_drive_list (demo_env\<lparr>net := demo_drive_net\<rparr>)
       (demo_request ''/api/drive/list'' [] (Some ''ca_session=s1'')) demo_drive_state))) = 3"
  using Drive.drive_list_refresh_retry_once
    [where r = "demo_request ''/api/drive/list'' [] (Some ''ca_session=s1'')" and sid = "''s1''"
       and s = demo_drive_state and e = "''ann@example.com''" and env = "demo_env\<lparr>net := demo_drive_net\<rparr>"
       and raw = "json_stringify demo_record"
       and kvs = "[(''email'', JStr ''ann@example.com''), (''access_token'', JStr ''at0''),
                   (''refresh_token'', JStr ''rt1''), (''scope'', JStr ''drive'')]"
       and rlist = "\<lparr>fr_status = 401, fr_text = json_stringify demo_denied_json\<rparr>"
       and rt = "JStr ''rt1''"
       and rref = "\<lparr>fr_status = 200, fr_text = json_stringify demo_refresh_json\<rparr>" and j = demo_refresh_json
       and rretry = "\<lparr>fr_status = 200, fr_text = json_stringify demo_files_json\<rparr>" and fj = demo_files_json]
  by (simp add: demo_defs demo_drive_net_def json_eval request_session_def cookie_session_def session_at_def)

theorem drive_list_unauthenticated_witness:
  "handle_drive_list demo_env (demo_request ''/api/drive/list'' [] None) demo_state =
     (Inr (text_response 401 ''Missing authenticated session or email param''), demo_state)"
  using Drive.drive_list_unauthenticated
    [where r = "demo_request ''/api/drive/list'' [] None" and s = demo_state and env = demo_env]
  by (simp add: demo_defs str_truthy_def request_session_def cookie_session_def session_at_def)

theorem refresh_merge_refines_witness:
  "jget (merge_refreshed demo_record (refreshed_record demo_refresh_json (JStr ''rt1'') 7) 7) ''scope'' =
     Some (JStr ''drive'')"
  using Drive.refresh_merge_refines [where token = demo_record and rt = "JStr ''rt1''" and j = demo_refresh_json
                                      and now = 7]
  by (simp add: demo_defs)

theorem callback_ignores_state_witness:
  "handle_callback demo_env (demo_request ''/auth/google/callback'' [(''code'', ''c''), (''state'', ''forged'')] None) =
   handle_callback demo_env (demo_request ''/auth/google/callback'' [(''code'', ''c'')] None)"
  using OAuth.callback_ignores_state
    [where ra = "demo_request ''/auth/google/callback'' [(''code'', ''c''), (''state'', ''forged'')] None"
       and rb = "demo_request ''/auth/google/callback'' [(''code'', ''c'')] None" and env = demo_env]
  by (simp add: demo_defs)

theorem callback_missing_code_witness:
  "handle_callback demo_env (demo_request ''/auth/google/callback'' [(''state'', ''x'')] None) demo_state =
     (Inr (text_response 400 ''Missing code''), demo_state)"
  using OAuth.callback_missing_code
    [where r = "demo_request ''/auth/google/callback'' [(''state'', ''x'')] None" and env = demo_env and s = demo_state]
  by (simp add: demo_defs str_truthy_def)

theorem callback_token_error_witness:
  "fst (handle_callback (demo_env\<lparr>net := demo_denied_net\<rparr>)
          (demo_request ''/auth/google/callback'' [(''code'', ''c'')] None) demo_state) =
     Inr (json_response 500 (json_stringify demo_denied_json))"
  using OAuth.callback_token_error
    [where r = "demo_request ''/auth/google/callback'' [(''code'', ''c'')] None" and c = "''c''"
       and env = "demo_env\<lparr>net := demo_denied_net\<rparr>" and s = demo_state
       and rtok = "\<lparr>fr_status = 401, fr_text = json_stringify demo_denied_json\<rparr>" and tj = demo_denied_json]
  by (simp add: demo_defs demo_denied_net_def json_eval)

theorem drive_list_refresh_error_witness:
  "fst (handle_drive_list (demo_env\<lparr>net := demo_denied_net\<rparr>)
          (demo_request ''/api/drive/list'' [] (Some ''ca_session=s1'')) demo_drive_state) =
     Inr (text_response 500 (''Failed to refresh Google token: Error: Refresh failed: '' @
                             json_stringify demo_denied_json))"
  using Drive.drive_list_refresh_error
    [where r = "demo_request ''/api/drive/list'' [] (Some ''ca_session=s1'')" and sid = "''s1''"
       and s = demo_drive_state and e = "''ann@example.com''" and env = "demo_env\<lparr>net := demo_denied_net\<rparr>"
       and raw = "json_stringify demo_record"
       and kvs = "[(''email'', JStr ''ann@example.com''), (''access_token'', JStr ''at0''),
                   (''refresh_token'', JStr ''rt1''), (''scope'', JStr ''drive'')]"
       and rlist = "\<lparr>fr_status = 401, fr_text = json_stringify demo_denied_json\<rparr>"
       and rt = "JStr ''rt1''"
       and rref = "\<lparr>fr_status = 400, fr_text = json_stringify demo_denied_json\<rparr>" and j = demo_denied_json]
  by (simp add: demo_defs demo_denied_net_def json_eval request_session_def cookie_session_def session_at_def)

theorem drive_list_email_param_grants_access_witness:
  "fst (handle_drive_list (demo_env\<lparr>net := demo_files_net\<rparr>)
          (demo_request ''/api/drive/list'' [(''email'', ''ann@example.com'')] None) demo_drive_state) =
     Inr (json_response 200 (json_stringify demo_files_json))"
  using Drive.drive_list_email_param_grants_access
    [where r = "demo_request ''/api/drive/list'' [(''email'', ''ann@example.com'')] None"
       and s = demo_drive_state and e = "''ann@example.com''" and env = "demo_env\<lparr>net := demo_files_net\<rparr>"
       and raw = "json_stringify demo_record"
       and kvs = "[(''email'', JStr ''ann@example.com''), (''access_token'', JStr ''at0''),
                   (''refresh_token'', JStr ''rt1''), (''scope'', JStr ''drive'')]"
       and resp = "\<lparr>fr_status = 200, fr_text = json_stringify demo_files_json\<rparr>" and fj = demo_files_json]
  by (simp add: demo_defs demo_files_net_def json_eval request_session_def cookie_session_def session_at_def)

theorem drive_list_401_without_refresh_token_witness:
  "fst (handle_drive_list (demo_env\<lparr>net := demo_denied_net\<rparr>)
          (demo_request ''/api/drive/list'' [] (Some ''ca_session=s1''))
          (demo_state\<lparr>kv := [session_key ''s1'' \<mapsto> ''ann@example.com'',
             ''google:ann@example.com'' \<mapsto> json_stringify (JObj [(''access_token'', JStr ''at0'')])]\<rparr>)) =
     Inr (json_response 200 (json_stringify demo_denied_json))"
  using Drive.drive_list_401_without_refresh_token
    [where r = "demo_request ''/api/drive/list'' [] (Some ''ca_session=s1'')" and sid = "''s1''"
       and s = "demo_state\<lparr>kv := [session_key ''s1'' \<mapsto> ''ann@example.com'',
             ''google:ann@example.com'' \<mapsto> json_stringify (JObj [(''access_token'', JStr ''at0'')])]\<rparr>"
       and e = "''ann@example.com''" and env = "demo_env\<lparr>net := demo_denied_net\<rparr>"
       and raw = "json_stringify (JObj [(''access_token'', JStr ''at0'')])"
       and kvs = "[(''access_token'', JStr ''at0'')]"
       and resp = "\<lparr>fr_status = 401, fr_text = json_stringify demo_denied_json\<rparr>" and fj = demo_denied_json]
  by (simp add: demo_defs demo_denied_net_def json_eval request_session_def cookie_session_def session_at_def)

subsection \<open>Witnesses of the page\<close>

lemma empty_lists [simp]: "todos_abs Map.empty = Some []" "notes_abs Map.empty = Some []" "rems_abs Map.empty = Some []"
  by (simp_all add: todos_abs_def notes_abs_def rems_abs_def stored_list_def ls_value_def)

lemmas page_demo_defs = demo_page_def demo_todo_page_def demo_rem_page_def fresh_page_def

theorem page_reach_ok_witness: "page_ok demo_penv (booted demo_penv Map.empty 1000)"
  using page_reach_ok [OF page_reach.boot, where env = demo_penv and m = Map.empty and c = 1000]
  by (simp add: lists_ok_def)

theorem page_handlers_never_throw_witness:
  "fst (page_handler demo_penv (ChatSubmit ''hi'') (booted demo_penv Map.empty 1000) (booted demo_penv Map.empty 1000)) = Inr ()"
  using page_handlers_never_throw [OF page_reach.boot, where env = demo_penv and m = Map.empty and c = 1000
                                  and ev = "ChatSubmit ''hi''"]
  by (simp add: lists_ok_def)

theorem storage_set_get_witness:
  "st_bind (storage_set ''k'' (JArr [JNum 1])) (\<lambda>_. storage_get ''k'' None) demo_page =
     (Inr (Some (JArr [JNum 1])), demo_page\<lparr>ls := (ls demo_page)(''k'' \<mapsto> json_stringify (JArr [JNum 1]))\<rparr>)"
  using storage_set_get [of "JArr [JNum 1]" "''k''" None demo_page]
  by simp

theorem add_todo_appends_witness:
  "fst (add_todo ''milk'' demo_page) = Inr () \<and>
   todos_abs (ls (snd (add_todo ''milk'' demo_page))) = Some [(''milk'', False, 1000)]"
  using add_todo_appends [of demo_page "[]" "''milk''"] by (simp add: page_demo_defs)

theorem toggle_todo_flips_witness:
  "todos_abs (ls (snd (toggle_todo (Some (JNum 5)) demo_todo_page))) = Some [(''milk'', True, 5)]"
  using toggle_todo_flips [of demo_todo_page "[(''milk'', False, 5)]" 5]
  by (simp add: page_demo_defs todo_flip_def)

theorem remove_todo_filters_witness:
  "todos_abs (ls (snd (remove_todo (Some (JNum 5)) demo_todo_page))) = Some []"
  using remove_todo_filters [of demo_todo_page "[(''milk'', False, 5)]" 5]
  by (simp add: page_demo_defs todo_id_def)

theorem same_tick_todos_toggle_together_witness:
  "todos_abs (ls (snd (toggle_todo (Some (JNum 1000)) (snd (add_todo ''b'' (snd (add_todo ''a'' demo_page))))))) =
   Some [(''a'', True, 1000), (''b'', True, 1000)]"
  using same_tick_todos_toggle_together [of demo_page "[]" "''b''" "''a''"]
  by (simp add: page_demo_defs)

theorem add_note_prepends_witness:
  "notes_abs (ls (snd (add_note demo_penv ''call Bob'' demo_page))) = Some [(''call Bob'', 1000, 1000)]"
  using add_note_prepends [of demo_page "[]" demo_penv "''call Bob''"] by (simp add: page_demo_defs)

theorem deliver_reminder_removes_witness:
  "chat_log (snd (deliver_reminder demo_penv (rem_val (7, ''stretch'', 2000)) demo_rem_page)) =
     [(''assistant'', ''Reminder: stretch'')] \<and>
   rems_abs (ls (snd (deliver_reminder demo_penv (rem_val (7, ''stretch'', 2000)) demo_rem_page))) = Some []"
  using deliver_reminder_removes [of demo_rem_page "[(7, ''stretch'', 2000)]" demo_penv "(7, ''stretch'', 2000)"]
  by (simp add: page_demo_defs rem_id_def)

theorem reminder_timer_clamped_witness:
  "timers (snd (schedule_reminder demo_penv 3000000000 ''renew passport'' demo_page)) =
     [(2147484647, TDeliver (rem_val (1000, ''renew passport'', 3000000000)))]"
  using reminder_timer_clamped [of demo_page "[]" 3000000000 demo_penv "''renew passport''"]
  by (simp add: page_demo_defs max_timer_delay_def queue_timer_def)

theorem assistant_add_todo_witness:
  "fst (assistant_reply demo_penv '' add todo milk '' demo_page) =
     Inr (''Added to'' @ nb_hyphen @ ''do: '' @ dq @ ''milk'' @ dq)"
  using assistant_add_todo [of "'' add todo milk ''" "''milk''" demo_page "[]" demo_penv]
  by (simp add: page_demo_defs trim_eval)

theorem remind_unit_case_fires_now_witness:
  "chat_log (snd (assistant_reply demo_penv ''remind me to stretch in 10 Minutes'' demo_page)) =
     [(''assistant'', ''Reminder: stretch'')]"
  using remind_unit_case_fires_now [of demo_page "[]" demo_penv] by (simp add: page_demo_defs)

subsection \<open>Witnesses of the cookie\<close>

theorem cookie_session_lookup_witness:
  "cookie_session ''theme=dark; ca_session=; ca_session=abc'' = Some ''abc''"
  using cookie_session_lookup [of "[(''theme'', ''dark''), (''ca_session'', []), (''ca_session'', ''abc'')]"]
  by (simp add: cookie_header_def cookie_lookup_def cookie_pair_ok_def)

theorem session_cookie_roundtrip_witness:
  "cookie_session (cookie_header [(''theme'', ''dark''), set_cookie_pair (set_cookie_value ''s1''), (''lang'', ''en'')]) =
   Some ''s1''"
  using session_cookie_roundtrip [of "''s1''" "[(''theme'', ''dark'')]" "[(''lang'', ''en'')]"]
  by (simp add: cookie_lookup_def cookie_pair_ok_def)

subsection \<open>Witnesses of the store invariant and the configuration path\<close>

theorem worker_reach_store_ok_witness:
  "worker_reach (snd (worker_fetch (demo_env\<lparr>net := demo_login_net\<rparr>)
                   (demo_request ''/auth/google/callback'' [(''code'', ''4/abc'')] None) demo_state)) \<and>
   kv (snd (worker_fetch (demo_env\<lparr>net := demo_login_net\<rparr>)
             (demo_request ''/auth/google/callback'' [(''code'', ''4/abc'')] None) demo_state))
      (''google:'' @ ''ann@example.com'') =
     Some (json_stringify (token_record (JStr ''ann@example.com'') demo_token_json 1700000000000)) \<and>
   (\<exists>kvs. json_parse (json_stringify (token_record (JStr ''ann@example.com'') demo_token_json 1700000000000)) =
      Some (JObj kvs))"
proof -
  let ?E = "demo_env\<lparr>net := demo_login_net\<rparr>"
  let ?R = "demo_request ''/auth/google/callback'' [(''code'', ''4/abc'')] None"
  have r: "worker_reach (snd (worker_fetch ?E ?R demo_state))"
    by (rule worker_reach.step, rule worker_reach.init) (simp add: demo_state_def)
  have tj: "json_parse (json_stringify demo_token_json) = Some demo_token_json"
    and uj: "json_parse (json_stringify demo_user_json) = Some demo_user_json"
    by (rule json_parse_stringify, simp add: demo_token_json_def demo_user_json_def)+
  have k: "kv (snd (worker_fetch ?E ?R demo_state)) (''google:'' @ ''ann@example.com'') =
           Some (json_stringify (token_record (JStr ''ann@example.com'') demo_token_json 1700000000000))"
    by (simp add: worker_fetch_def route_def handle_callback_def rt_simps str_truthy_def resolve_email_def
                  demo_request_def demo_env_def demo_state_def demo_login_net_def param_get_def parse_json_def
                  tj [unfolded demo_token_json_def] uj [unfolded demo_user_json_def]
                  demo_token_json_def demo_user_json_def google_token_endpoint_def token_exchange_req_def
                  userinfo_req_def google_userinfo_endpoint_def kv_put_value_def token_key_def session_key_def
                  del: json_stringify.simps)
  show ?thesis using worker_reach_store_ok [OF r k] r k by simp
qed

theorem configured_worker_base_witness:
  "config_loaded (demo_penv\<lparr>page_net := served_net ''/srv''
       (run_fs (set_worker_base (''/srv'' @ ''/scripts'') [''node'', ''set-worker-base.js'', ''https://w.example''] Map.empty)) 0\<rparr>) demo_page =
   (Inr (), demo_page\<lparr>worker_base := Some (JStr ''https://w.example''), fetched := fetched demo_page @ [''/worker-config.json'']\<rparr>)"
  using configured_worker_base [where argv = "[''node'', ''set-worker-base.js'', ''https://w.example'']"
                                and d = "''/srv''" and env = demo_penv and fs = Map.empty and now = 0 and p = demo_page]
  by (simp add: script_arg_def)

theorem set_worker_base_missing_arg_witness:
  "set_worker_base ''/srv/scripts'' [''node'', ''set-worker-base.js''] Map.empty =
   \<lparr>run_fs = Map.empty, run_out = [], run_err = [usage_msg], run_exit = 1\<rparr>"
  using Node_Tools.set_worker_base_missing_arg [where argv = "[''node'', ''set-worker-base.js'']"
                                                and dir = "''/srv/scripts''" and fs = Map.empty]
  by simp

theorem set_worker_base_roundtrip_witness:
  "json_parse (config_text ''https://w.example/a?b=c'') = Some (JObj [(''workerBase'', JStr ''https://w.example/a?b=c'')])"
  using Node_Tools.set_worker_base_roundtrip [where argv = "[''node'', ''s.js'', ''https://w.example/a?b=c'']"
                                              and dir = "''/srv/scripts''" and fs = Map.empty]
  by (simp add: set_worker_base_def script_arg_def Let_def)

theorem server_ping_reports_time_witness:
  "server_handle ''/srv'' Map.empty 42 ''GET'' ''/api/ping?x=1'' = SrvJson (server_ping 42)"
  using Node_Tools.server_ping_reports_time [where fs = Map.empty and dir = "''/srv''" and u = "''/api/ping?x=1''"
                                             and now = 42]
  by (simp add: url_path_def)

theorem server_static_shadows_ping_witness:
  "server_handle ''/srv'' [''/srv/public/api/ping'' \<mapsto> ''pong''] 42 ''GET'' ''/api/ping'' = SrvFile ''pong''"
  using Node_Tools.server_static_shadows_ping [where fs = "[''/srv/public/api/ping'' \<mapsto> ''pong'']"
                                               and dir = "''/srv''" and c = "''pong''" and now = 42]
  by simp

subsection \<open>Witness of the timers\<close>

lemma demo_rem_boot:
  "timers (booted env [''ca_reminders'' \<mapsto> list_json rem_val [(7, ''stretch'', 2000)]] 1000) =
     [(2000, TDeliver (rem_val (7, ''stretch'', 2000)))] \<and>
   pclock (booted env [''ca_reminders'' \<mapsto> list_json rem_val [(7, ''stretch'', 2000)]] 1000) = 1000"
proof -
  let ?m = "[''ca_reminders'' \<mapsto> list_json rem_val [(7, ''stretch'', 2000)]]"
  have t: "todos_abs ?m = Some []" "notes_abs ?m = Some []"
    by (simp_all add: todos_abs_def notes_abs_def stored_list_def ls_value_def)
  have r: "\<And>p. ls p = ?m \<Longrightarrow> render_todos p = (Inr (), p\<lparr>todo_view := []\<rparr>)"
    "\<And>p. ls p = ?m \<Longrightarrow> render_notes env p = (Inr (), p\<lparr>note_view := []\<rparr>)"
    "\<And>p. ls p = ?m \<Longrightarrow> render_reminders env p =
            (Inr (), p\<lparr>rem_view := map (rem_line env) [(7, ''stretch'', 2000)]\<rparr>)"
    "\<And>p. ls p = ?m \<Longrightarrow> get_reminders p = (Inr (Some (JArr (map rem_val [(7, ''stretch'', 2000)]))), p)"
    using render_todos_abs render_notes_abs render_reminders_abs get_reminders_abs t by simp_all
  show ?thesis
    by (simp add: booted_def boot_def page_init_def fresh_page_def r schedule_timeout_future append_message_def
                  storage_get_def queue_timer_def max_timer_delay_def)
qed


theorem reminder_delivered_witness:
  "(''assistant'', ''Reminder: stretch'') \<in>
     set (chat_log (fold (page_step demo_penv) [Wait 1000, FireTimer]
       (booted demo_penv [''ca_reminders'' \<mapsto> list_json rem_val [(7, ''stretch'', 2000)]] 1000)))"
  using Timers.reminder_delivered
    [OF page_reach.boot, where env = demo_penv and m = "[''ca_reminders'' \<mapsto> list_json rem_val [(7, ''stretch'', 2000)]]"
     and c = 1000 and d = 2000 and r = "rem_val (7, ''stretch'', 2000)"]
  by (simp add: demo_rem_boot lists_ok_def todos_abs_def notes_abs_def stored_list_def ls_value_def
                rem_val_def rem_obj_def js_string_of_def)

theorem forged_gauth_redirects_drive_load_witness:
  "wired \<lparr>ls = Map.empty, pclock = 0, chat_log = [], timers = [], todo_view = [], note_view = [],
          rem_view = [], notified = [], signed_user = None, worker_base = Some (JStr ''https://w.example''),
          fetched = [], opened = [], alerts = [], wired = True\<rparr> \<and> ''eve@x.org'' \<noteq> [] \<and>
   prefix [''https://w.example/api/drive/list?email=eve%40x.org'']
     (fetched (fold (page_step \<lparr>locale_str = \<lambda>_. [], date_parse = \<lambda>_. 0, notif_granted = False,
                                  popup_ok = True, page_net = \<lambda>_ _. Inl ''offline''\<rparr>)
        [PostMessage (Some (JObj [(''type'', JStr ''cloudassistant:gauth''), (''email'', JStr ''eve@x.org'')])),
         DriveLoadClick]
        \<lparr>ls = Map.empty, pclock = 0, chat_log = [], timers = [], todo_view = [], note_view = [],
          rem_view = [], notified = [], signed_user = None, worker_base = Some (JStr ''https://w.example''),
          fetched = [], opened = [], alerts = [], wired = True\<rparr>))"
  using forged_gauth_redirects_drive_load [of
     "\<lparr>ls = Map.empty, pclock = 0, chat_log = [], timers = [], todo_view = [], note_view = [],
        rem_view = [], notified = [], signed_user = None, worker_base = Some (JStr ''https://w.example''),
        fetched = [], opened = [], alerts = [], wired = True\<rparr>" "''eve@x.org''"
     "\<lparr>locale_str = \<lambda>_. [], date_parse = \<lambda>_. 0, notif_granted = False,
        popup_ok = True, page_net = \<lambda>_ _. Inl ''offline''\<rparr>"]
  by (simp add: base_url_def drive_list_path_def uri_encode_def uri_unreserved_def hex_upper_def char_of_def bit_0 del: page_step_def)

theorem corrupt_todos_disable_sign_in_witness:
  "[''ca_todos'' \<mapsto> ''{}''] ''ca_todos'' = Some ''{}'' \<and> json_parse ''{}'' = Some (JObj []) \<and>
   JObj [] \<noteq> JNull \<and> (\<forall>xs. JObj [] \<noteq> JArr xs) \<and>
   \<not> wired (booted demo_penv [''ca_todos'' \<mapsto> ''{}''] 1000) \<and>
   page_step demo_penv SignInClick (booted demo_penv [''ca_todos'' \<mapsto> ''{}''] 1000) =
     booted demo_penv [''ca_todos'' \<mapsto> ''{}''] 1000"
  using App.corrupt_todos_disable_sign_in [of "[''ca_todos'' \<mapsto> ''{}'']" "''{}''" "JObj []" demo_penv 1000 None]
  by (simp add: json_eval)

end
